theory Spec2Isabelle
  imports Complex_Main
begin

section \<open>Numbers, arrays and errors\<close>

text \<open>
  The engine of \<^verbatim>\<open>src/pdft/inversion.py\<close> (class \<^verbatim>\<open>Inversion\<close>) works on numpy arrays
  and psi4 matrices of double-precision numbers. The embedding leaves the type \<open>'a\<close> of the
  numbers open: it is any type with the operations that the code uses on them (\<open>0\<close>, \<open>1\<close>,
  \<open>+\<close>, \<open>-\<close>, \<open>*\<close>, \<open>/\<close> and the absolute value), and the definitions assume no law of
  arithmetic of these operations. A division never raises, as in numpy, where a division
  by zero gives \<^verbatim>\<open>inf\<close> or \<^verbatim>\<open>nan\<close> and the computation goes on. What is proved for every
  \<open>'a\<close> holds for the doubles, with their rounding, their infinities and \<^verbatim>\<open>nan\<close>, and for the
  reals. What needs a law of arithmetic (a sum taken in another order, a product with zero)
  is proved for the reals, the numbers that the doubles stand for. The type \<open>binary64\<close> at
  the end of this section is the doubles themselves.

  One-dimensional arrays are lists, matrices are lists of rows, the rank-4 tensors are
  lists of lists of matrices. Every exception of the source is a value of \<open>error\<close>, and a
  function that can raise returns \<open>error + 'a\<close>.

  What the class takes from psi4 and numpy is data or a parameter here: the grid blocks,
  the basis values on them and the repulsion tensor are fields of the records; the solver
  of a fragment (\<^verbatim>\<open>frag.scf\<close>) and \<^verbatim>\<open>np.linalg.pinv\<close> are functions handed to the driver.
  Printing and plotting read the state and change none of it; they are left out.
\<close>

type_synonym 'a vec = "'a list"
type_synonym 'a mat = "'a list list"
type_synonym 'a tensor4 = "'a list list list list"

datatype error =
    ConfigurationError
      \<comment> \<open>\<^verbatim>\<open>ValueError("Density on the grid not avaliable for molecule. ...")\<close>\<close>
  | GridMismatchError
      \<comment> \<open>\<^verbatim>\<open>ValueError("Grid of fragments does not match Grid of molecule. ...")\<close>\<close>
  | MaxIterationsExceeded
      \<comment> \<open>\<^verbatim>\<open>Exception("Maximum number of SCF cycles exceeded for vp")\<close>\<close>
  | BlocksInconsistent
      \<comment> \<open>\<^verbatim>\<open>Exception("Number of blocks is inconsistent")\<close>\<close>
  | UnboundLocalError string
      \<comment> \<open>a local variable read before any assignment to it; the argument is its name\<close>
  | IndexError
      \<comment> \<open>a list or an array indexed out of range\<close>
  | KeyError
      \<comment> \<open>a dictionary read at a key it does not have\<close>
  | TypeError
      \<comment> \<open>a value that is not of the kind the statement needs, as a tuple unpacked into the
          wrong number of names\<close>
  | ShapeError
      \<comment> \<open>arrays whose shapes do not allow the operation: numpy's \<^verbatim>\<open>ValueError\<close>, psi4's
          size mismatch\<close>
  | LinAlgError
      \<comment> \<open>\<^verbatim>\<open>np.linalg.pinv\<close> on an array whose decomposition does not converge\<close>
  | UnimplementedVariantError
      \<comment> \<open>the exception that the specification names for the unequal-occupation path of
          Zhang-Carter; no statement of the source raises it, and no function below
          returns it\<close>

definition bnd :: "error + 'a \<Rightarrow> ('a \<Rightarrow> error + 'b) \<Rightarrow> error + 'b" where
  "bnd m f = (case m of Inl e \<Rightarrow> Inl e | Inr x \<Rightarrow> f x)"

fun fold_err :: "('a \<Rightarrow> 'b \<Rightarrow> error + 'b) \<Rightarrow> 'a list \<Rightarrow> 'b \<Rightarrow> error + 'b" where
  \<comment> \<open>a \<^verbatim>\<open>for\<close> loop over a list that updates its variables and stops at the first
      exception\<close>
  "fold_err body [] acc = Inr acc"
| "fold_err body (x # xs) acc =
     (case body x acc of Inl e \<Rightarrow> Inl e | Inr acc' \<Rightarrow> fold_err body xs acc')"

fun map_err :: "('a \<Rightarrow> error + 'b) \<Rightarrow> 'a list \<Rightarrow> error + 'b list" where
  \<comment> \<open>a loop that fills an array entry by entry and stops at the first exception\<close>
  "map_err f [] = Inr []"
| "map_err f (x # xs) =
     (case f x of
        Inl e \<Rightarrow> Inl e
      | Inr y \<Rightarrow> (case map_err f xs of Inl e \<Rightarrow> Inl e | Inr ys \<Rightarrow> Inr (y # ys)))"

definition py_index :: "'a list \<Rightarrow> nat \<Rightarrow> error + 'a" where
  \<comment> \<open>\<^verbatim>\<open>xs[i]\<close> for an index that is never negative\<close>
  "py_index xs i = (if i < length xs then Inr (xs ! i) else Inl IndexError)"

definition np_zeros :: "nat \<Rightarrow> ('a::zero) vec" where
  "np_zeros n = replicate n 0"

definition np_zeros2 :: "nat \<Rightarrow> nat \<Rightarrow> ('a::zero) mat" where
  "np_zeros2 r c = replicate r (np_zeros c)"

definition np_zeros_like :: "'a vec \<Rightarrow> ('a::zero) vec" where
  "np_zeros_like v = np_zeros (length v)"

definition np_zeros_like2 :: "'a mat \<Rightarrow> ('a::zero) mat" where
  "np_zeros_like2 m = map np_zeros_like m"

subsection \<open>Elementwise operations and broadcasting\<close>

definition broadcast_dim :: "nat \<Rightarrow> nat \<Rightarrow> nat option" where
  \<comment> \<open>the length of the result along an axis on which the operands have \<open>m\<close> and \<open>n\<close>
      entries: numpy stretches an axis of one entry, and refuses other lengths that
      differ\<close>
  "broadcast_dim m n =
     (if m = n then Some m else if m = 1 then Some n else if n = 1 then Some m else None)"

definition stretch :: "nat \<Rightarrow> nat \<Rightarrow> nat" where
  \<comment> \<open>the entry of an axis of \<open>d\<close> entries that stands at the index \<open>i\<close> of the result\<close>
  "stretch d i = (if d = 1 then 0 else i)"

definition vec_op :: "('a \<Rightarrow> 'a \<Rightarrow> 'a) \<Rightarrow> 'a vec \<Rightarrow> 'a vec \<Rightarrow> error + 'a vec" where
  \<comment> \<open>\<^verbatim>\<open>xs op ys\<close> for two one-dimensional arrays\<close>
  "vec_op f xs ys =
     (case broadcast_dim (length xs) (length ys) of
        None \<Rightarrow> Inl ShapeError
      | Some n \<Rightarrow>
          Inr (map (\<lambda>i. f (xs ! stretch (length xs) i) (ys ! stretch (length ys) i)) [0..<n]))"

definition vec_iop :: "('a \<Rightarrow> 'a \<Rightarrow> 'a) \<Rightarrow> 'a vec \<Rightarrow> 'a vec \<Rightarrow> error + 'a vec" where
  \<comment> \<open>\<^verbatim>\<open>xs op= ys\<close>, in place: the result has the shape of \<open>xs\<close>, and \<open>ys\<close> is stretched to
      it or refused\<close>
  "vec_iop f xs ys =
     (if length ys = length xs \<or> length ys = 1
      then Inr (map (\<lambda>i. f (xs ! i) (ys ! stretch (length ys) i)) [0..<length xs])
      else Inl ShapeError)"

definition ncols :: "'a mat \<Rightarrow> nat" where
  \<comment> \<open>the number of columns; a matrix without rows has none in the embedding\<close>
  "ncols m = (case m of [] \<Rightarrow> 0 | row # _ \<Rightarrow> length row)"

definition is_array2 :: "'a mat \<Rightarrow> bool" where
  \<comment> \<open>a two-dimensional array: a list of rows of one length\<close>
  "is_array2 m = list_all (\<lambda>row. length row = ncols m) m"

definition mat_op :: "('a \<Rightarrow> 'a \<Rightarrow> 'a) \<Rightarrow> 'a mat \<Rightarrow> 'a mat \<Rightarrow> error + 'a mat" where
  \<comment> \<open>\<^verbatim>\<open>a op b\<close> for two two-dimensional arrays\<close>
  "mat_op f a b =
     (if is_array2 a \<and> is_array2 b then
        (case (broadcast_dim (length a) (length b), broadcast_dim (ncols a) (ncols b)) of
           (Some r, Some c) \<Rightarrow>
             Inr (map (\<lambda>i. map (\<lambda>j. f (a ! stretch (length a) i ! stretch (ncols a) j)
                                      (b ! stretch (length b) i ! stretch (ncols b) j))
                            [0..<c]) [0..<r])
         | _ \<Rightarrow> Inl ShapeError)
      else Inl ShapeError)"

definition mat_iop :: "('a \<Rightarrow> 'a \<Rightarrow> 'a) \<Rightarrow> 'a mat \<Rightarrow> 'a mat \<Rightarrow> error + 'a mat" where
  \<comment> \<open>\<^verbatim>\<open>a op= b\<close>, in place: the result has the shape of \<open>a\<close>\<close>
  "mat_iop f a b =
     (if is_array2 a \<and> is_array2 b \<and> (length b = length a \<or> length b = 1) \<and>
         (ncols b = ncols a \<or> ncols b = 1)
      then Inr (map (\<lambda>i. map (\<lambda>j. f (a ! i ! j) (b ! stretch (length b) i ! stretch (ncols b) j))
                           [0..<ncols a]) [0..<length a])
      else Inl ShapeError)"

definition same_shape :: "'a mat \<Rightarrow> 'a mat \<Rightarrow> bool" where
  "same_shape a b = (map length a = map length b)"

definition axpy :: "'a \<Rightarrow> 'a mat \<Rightarrow> 'a mat \<Rightarrow> error + ('a::{plus,times}) mat" where
  \<comment> \<open>\<^verbatim>\<open>Y.axpy(a, X)\<close> of psi4: \<open>Y \<leftarrow> a * X + Y\<close>, refused when the sizes differ\<close>
  "axpy a x y =
     (if same_shape y x then Inr (map2 (map2 (\<lambda>yv xv. a * xv + yv)) y x) else Inl ShapeError)"

definition np_sum :: "('a::{zero,plus}) list \<Rightarrow> 'a" where
  \<comment> \<open>the sum of the terms of a contraction, taken from zero in the order of the index
      (the order in which \<^verbatim>\<open>contract\<close> adds is its own; it changes the rounding of doubles
      and nothing else)\<close>
  "np_sum xs = foldl (+) 0 xs"

definition dot :: "'a vec \<Rightarrow> 'a vec \<Rightarrow> error + ('a::{zero,plus,times})" where
  \<comment> \<open>\<^verbatim>\<open>contract('p,p->', a, b)\<close>\<close>
  "dot a b = (if length a = length b then Inr (np_sum (map2 (*) a b)) else Inl ShapeError)"

definition transpose_np :: "'a mat \<Rightarrow> 'a mat" where
  \<comment> \<open>\<^verbatim>\<open>m.T\<close>\<close>
  "transpose_np m = map (\<lambda>j. map (\<lambda>i. m ! i ! j) [0..<length m]) [0..<ncols m]"

definition is_square :: "nat \<Rightarrow> 'a mat \<Rightarrow> bool" where
  "is_square n m = (length m = n \<and> list_all (\<lambda>row. length row = n) m)"

definition symmetric :: "'a mat \<Rightarrow> bool" where
  "symmetric m =
     (is_square (length m) m \<and>
      list_all (\<lambda>i. list_all (\<lambda>j. m ! i ! j = m ! j ! i) [0..<length m]) [0..<length m])"

definition half :: "'a::{one,plus,inverse}" where
  \<comment> \<open>the literal \<^verbatim>\<open>0.5\<close>\<close>
  "half = 1 / (1 + 1)"

subsection \<open>Doubles\<close>

text \<open>
  A double is \<open>Finite s m e\<close>, the number \<open>m * 2 ^ e\<close> with the sign \<open>s\<close> (\<open>True\<close> for
  minus), an infinity with its sign, or \<^verbatim>\<open>nan\<close>. The finite doubles are those with
  \<open>0 \<le> m < 2 ^ 53\<close> and \<open>- 1074 \<le> e\<close> below \<open>2 ^ 1024\<close>; they are kept with an odd \<open>m\<close>, and the
  two zeros as \<open>Finite s 0 0\<close>. Every operation gives the double that is nearest to the
  exact result, the one with the even significand when two are equally near (IEEE 754
  with its default rounding, which is that of numpy and of Python).
\<close>

datatype binary64 = Finite bool int int | Infinity bool | NaN

function bit_length :: "int \<Rightarrow> int" where
  \<comment> \<open>the number of binary digits of \<open>m\<close>\<close>
  "bit_length m = (if m \<le> 0 then 0 else 1 + bit_length (m div 2))"
  by pat_completeness auto

termination bit_length
  by (relation "measure nat") auto

function odd_part :: "int \<Rightarrow> int \<Rightarrow> int \<times> int" where
  \<comment> \<open>\<open>m * 2 ^ e\<close> written with an odd \<open>m\<close>\<close>
  "odd_part m e =
     (if m \<le> 0 then (0, 0) else if even m then odd_part (m div 2) (e + 1) else (m, e))"
  by pat_completeness auto

termination odd_part
  by (relation "measure (\<lambda>(m, e). nat m)") auto

definition drop_bits :: "nat \<Rightarrow> int \<Rightarrow> int" where
  \<comment> \<open>\<open>m / 2 ^ k\<close> rounded to the nearest integer, to the even one from the middle\<close>
  "drop_bits k m =
     (if k = 0 then m
      else let q = m div 2 ^ k; r = m mod 2 ^ k; h = 2 ^ (k - 1)
           in if h < r \<or> (r = h \<and> odd q) then q + 1 else q)"

definition round_binary64 :: "bool \<Rightarrow> int \<Rightarrow> int \<Rightarrow> binary64" where
  \<comment> \<open>the double nearest to \<open>m * 2 ^ e\<close> with the sign \<open>s\<close>, for \<open>0 \<le> m\<close>: the significand
      keeps 53 bits, fewer where the exponent would fall below \<open>- 1074\<close>, and what rounds
      to \<open>2 ^ 1024\<close> or more is infinite\<close>
  "round_binary64 s m e =
     (let k = nat (max (bit_length m - 53) (- 1074 - e));
          q = drop_bits k m;
          e' = e + int k
      in if 1024 < bit_length q + e' then Infinity s
         else case odd_part q e' of (m', e'') \<Rightarrow> Finite s m' e'')"

definition signed :: "bool \<Rightarrow> int \<Rightarrow> int" where
  "signed s m = (if s then - m else m)"

fun binary64_add :: "binary64 \<Rightarrow> binary64 \<Rightarrow> binary64" where
  "binary64_add NaN y = NaN"
| "binary64_add (Infinity s) NaN = NaN"
| "binary64_add (Infinity s) (Infinity t) = (if s = t then Infinity s else NaN)"
| "binary64_add (Infinity s) (Finite t n f) = Infinity s"
| "binary64_add (Finite s m e) NaN = NaN"
| "binary64_add (Finite s m e) (Infinity t) = Infinity t"
| "binary64_add (Finite s m e) (Finite t n f) =
     (let g = min e f;
          z = signed s m * 2 ^ nat (e - g) + signed t n * 2 ^ nat (f - g)
      in if z = 0 then Finite (s \<and> t) 0 0 else round_binary64 (z < 0) \<bar>z\<bar> g)"

fun binary64_neg :: "binary64 \<Rightarrow> binary64" where
  "binary64_neg NaN = NaN"
| "binary64_neg (Infinity s) = Infinity (\<not> s)"
| "binary64_neg (Finite s m e) = Finite (\<not> s) m e"

fun binary64_abs :: "binary64 \<Rightarrow> binary64" where
  "binary64_abs NaN = NaN"
| "binary64_abs (Infinity s) = Infinity False"
| "binary64_abs (Finite s m e) = Finite False m e"

fun binary64_mul :: "binary64 \<Rightarrow> binary64 \<Rightarrow> binary64" where
  "binary64_mul NaN y = NaN"
| "binary64_mul (Infinity s) NaN = NaN"
| "binary64_mul (Infinity s) (Infinity t) = Infinity (s \<noteq> t)"
| "binary64_mul (Infinity s) (Finite t n f) = (if n = 0 then NaN else Infinity (s \<noteq> t))"
| "binary64_mul (Finite s m e) NaN = NaN"
| "binary64_mul (Finite s m e) (Infinity t) = (if m = 0 then NaN else Infinity (s \<noteq> t))"
| "binary64_mul (Finite s m e) (Finite t n f) = round_binary64 (s \<noteq> t) (m * n) (e + f)"

fun binary64_div :: "binary64 \<Rightarrow> binary64 \<Rightarrow> binary64" where
  "binary64_div NaN y = NaN"
| "binary64_div (Infinity s) NaN = NaN"
| "binary64_div (Infinity s) (Infinity t) = NaN"
| "binary64_div (Infinity s) (Finite t n f) = Infinity (s \<noteq> t)"
| "binary64_div (Finite s m e) NaN = NaN"
| "binary64_div (Finite s m e) (Infinity t) = Finite (s \<noteq> t) 0 0"
| "binary64_div (Finite s m e) (Finite t n f) =
     (if n = 0 then (if m = 0 then NaN else Infinity (s \<noteq> t))
      else
        \<comment> \<open>the quotient with more than 53 bits, and one more bit that tells whether a
            remainder is left\<close>
        let k = bit_length n + 55;
            q = (m * 2 ^ nat k) div n;
            r = (m * 2 ^ nat k) mod n
        in round_binary64 (s \<noteq> t) (2 * q + (if r = 0 then 0 else 1)) (e - f - k - 1))"

instantiation binary64 :: "{zero,one,plus,minus,uminus,times,inverse,abs}"
begin

definition zero_binary64 :: binary64 where
  "zero_binary64 = Finite False 0 0"

definition one_binary64 :: binary64 where
  "one_binary64 = Finite False 1 0"

definition plus_binary64 :: "binary64 \<Rightarrow> binary64 \<Rightarrow> binary64" where
  "plus_binary64 x y = binary64_add x y"

definition uminus_binary64 :: "binary64 \<Rightarrow> binary64" where
  "uminus_binary64 x = binary64_neg x"

definition minus_binary64 :: "binary64 \<Rightarrow> binary64 \<Rightarrow> binary64" where
  "minus_binary64 x y = binary64_add x (binary64_neg y)"

definition times_binary64 :: "binary64 \<Rightarrow> binary64 \<Rightarrow> binary64" where
  "times_binary64 x y = binary64_mul x y"

definition divide_binary64 :: "binary64 \<Rightarrow> binary64 \<Rightarrow> binary64" where
  "divide_binary64 x y = binary64_div x y"

definition inverse_binary64 :: "binary64 \<Rightarrow> binary64" where
  "inverse_binary64 x = binary64_div (Finite False 1 0) x"

definition abs_binary64 :: "binary64 \<Rightarrow> binary64" where
  "abs_binary64 x = binary64_abs x"

instance ..

end

definition exact_value :: "binary64 \<Rightarrow> real option" where
  \<comment> \<open>the real number that a finite double is\<close>
  "exact_value x =
     (case x of
        Finite s m e \<Rightarrow>
          Some ((if s then - 1 else 1) * real_of_int m *
                (if 0 \<le> e then 2 ^ nat e else 1 / 2 ^ nat (- e)))
      | Infinity s \<Rightarrow> None
      | NaN \<Rightarrow> None)"

section \<open>The data model\<close>

record 'a grid_block =
  gb_npoints :: nat
    \<comment> \<open>\<^verbatim>\<open>grid_block.npoints()\<close>\<close>
  gb_lpos :: "nat list"
    \<comment> \<open>\<^verbatim>\<open>grid_block.functions_local_to_global()\<close>\<close>
  gb_w :: "'a vec"
    \<comment> \<open>\<^verbatim>\<open>grid_block.w()\<close>\<close>
  gb_PHI :: "'a mat"
    \<comment> \<open>\<^verbatim>\<open>points_func.basis_values()["PHI"]\<close> after \<^verbatim>\<open>compute_points(grid_block)\<close>\<close>

text \<open>
  \<^verbatim>\<open>Vpot\<close> is the list of its blocks: \<^verbatim>\<open>Vpot.nblocks()\<close> is its length and
  \<^verbatim>\<open>Vpot.get_block(b)\<close> its element \<open>b\<close>.
\<close>

type_synonym 'a vpot = "'a grid_block list"

record 'a fragment =
  f_nbf :: nat
  f_nalpha :: nat
  f_nbeta :: nat
  f_energy :: 'a
  f_Enuc :: 'a
  f_Da :: "'a mat"
  f_Db :: "'a mat"
  f_Ca :: "'a mat"
  f_Cb :: "'a mat"
  f_eigs_a :: "'a vec"
  f_eigs_b :: "'a vec"
  f_density_da :: "'a vec list"
    \<comment> \<open>\<^verbatim>\<open>frag.ingredients["density"]["da"]\<close>, one array per block\<close>
  f_density_db :: "'a vec list"
  f_Vpot :: "'a vpot"
  f_orbitals :: "string \<rightharpoonup> (nat \<rightharpoonup> 'a vec list)"
    \<comment> \<open>\<^verbatim>\<open>frag.orbitals\<close>: a dictionary whose entries (at \<^verbatim>\<open>"alpha_r"\<close> and \<^verbatim>\<open>"beta_r"\<close>)
        are dictionaries keyed by \<^verbatim>\<open>str(i)\<close>, here by \<open>i\<close>, of one array per block\<close>

record 'a molecule =
  m_nbf :: nat
  m_nalpha :: nat
  m_nbeta :: nat
  m_energy :: 'a
  m_Enuc :: 'a
  m_Da :: "'a mat"
  m_Db :: "'a mat"
  m_density_da :: "'a vec list"
  m_density_db :: "'a vec list"
  m_grid_w :: "'a vec list"
    \<comment> \<open>\<^verbatim>\<open>molecule.ingredients["grid"]["w"]\<close>\<close>
  m_Vpot :: "'a vpot"
  m_ao_eri :: "'a tensor4"
    \<comment> \<open>\<^verbatim>\<open>molecule.mints.ao_eri().np\<close>\<close>

record 'a inversion =
  frags :: "'a fragment list"
  nfrag :: nat
  molecule :: "'a molecule"
  nbf :: nat
  nblocks :: nat
  frag_energy :: 'a
  frag_da_nm :: "'a mat"
  frag_db_nm :: "'a mat"
  frag_da_r :: "'a vec list"
  frag_db_r :: "'a vec list"
  vp :: "('a mat \<times> 'a mat) option"
    \<comment> \<open>\<^verbatim>\<open>self.vp\<close>: \<^verbatim>\<open>None\<close> or the list \<^verbatim>\<open>[vp_a, vp_b]\<close>\<close>
  ep :: "'a option"

section \<open>Validation and set-up\<close>

definition get_np_xyzw_len :: "'a vpot \<Rightarrow> error + nat" where
  \<comment> \<open>\<^verbatim>\<open>len(_core_vbase_get_np_xyzw(Vpot)[0])\<close>: psi4 stacks the coordinates of the
      points of every block with \<^verbatim>\<open>np.hstack\<close>, which refuses an empty list of arrays; the
      length is the number of points of the grid\<close>
  "get_np_xyzw_len v = (if v = [] then Inl ShapeError else Inr (sum_list (map gb_npoints v)))"

definition assert_grid_elements :: "'a fragment list \<Rightarrow> 'a molecule \<Rightarrow> error + nat" where
  "assert_grid_elements fs mol =
     (if length (m_density_da mol) = 0 then Inl ConfigurationError
      else case fs of
        [] \<Rightarrow> Inl IndexError
      | f0 # _ \<Rightarrow>
          if length (f_density_da f0) = 0 then Inl ConfigurationError
          else
            bnd (get_np_xyzw_len (m_Vpot mol)) (\<lambda>mol_points.
            bnd (get_np_xyzw_len (f_Vpot f0)) (\<lambda>fra_points.
              if mol_points \<noteq> fra_points then Inl GridMismatchError
              else Inr (length (m_Vpot mol)))))"

section \<open>Aggregation of the fragments\<close>

definition get_frag_energies :: "('a::{zero,plus}) inversion \<Rightarrow> 'a inversion" where
  "get_frag_energies s = s\<lparr>frag_energy := foldl (\<lambda>e f. e + f_energy f) 0 (frags s)\<rparr>"

definition nm_body ::
  "('a::{one,plus,times}) fragment \<Rightarrow> 'a mat \<times> 'a mat \<Rightarrow> error + 'a mat \<times> 'a mat" where
  \<comment> \<open>\<^verbatim>\<open>sum_a.axpy(1.0, frag.Da); sum_b.axpy(1.0, frag.Db)\<close>\<close>
  "nm_body f = (\<lambda>(sum_a, sum_b).
     bnd (axpy 1 (f_Da f) sum_a) (\<lambda>sum_a'.
     bnd (axpy 1 (f_Db f) sum_b) (\<lambda>sum_b'. Inr (sum_a', sum_b'))))"

definition get_frag_densities_nm ::
  "('a::{zero,one,plus,times}) inversion \<Rightarrow> error + 'a inversion" where
  "get_frag_densities_nm s =
     bnd (fold_err nm_body (frags s) (np_zeros2 (nbf s) (nbf s), np_zeros2 (nbf s) (nbf s)))
       (\<lambda>(sum_a, sum_b). Inr (s\<lparr>frag_da_nm := sum_a, frag_db_nm := sum_b\<rparr>))"

definition r_frag_body ::
  "nat \<Rightarrow> ('a::plus) fragment \<Rightarrow> 'a vec \<times> 'a vec \<Rightarrow> error + 'a vec \<times> 'a vec" where
  \<comment> \<open>\<^verbatim>\<open>block_sum_a += frag.ingredients["density"]["da"][block]\<close> and the same for
      \<^verbatim>\<open>db\<close>\<close>
  "r_frag_body block f = (\<lambda>(block_sum_a, block_sum_b).
     bnd (py_index (f_density_da f) block) (\<lambda>da.
     bnd (vec_iop (+) block_sum_a da) (\<lambda>block_sum_a'.
     bnd (py_index (f_density_db f) block) (\<lambda>db.
     bnd (vec_iop (+) block_sum_b db) (\<lambda>block_sum_b'. Inr (block_sum_a', block_sum_b'))))))"

definition r_block_body ::
  "('a::{zero,plus}) inversion \<Rightarrow> nat \<Rightarrow> 'a vec list \<times> 'a vec list
     \<Rightarrow> error + 'a vec list \<times> 'a vec list" where
  "r_block_body s block = (\<lambda>(sum_a, sum_b).
     bnd (py_index (m_density_da (molecule s)) block) (\<lambda>ma.
     bnd (py_index (m_density_db (molecule s)) block) (\<lambda>mb.
     bnd (fold_err (r_frag_body block) (frags s) (np_zeros_like ma, np_zeros_like mb))
       (\<lambda>(block_sum_a, block_sum_b). Inr (sum_a @ [block_sum_a], sum_b @ [block_sum_b])))))"

definition get_frag_densities_r :: "('a::{zero,plus}) inversion \<Rightarrow> error + 'a inversion" where
  "get_frag_densities_r s =
     bnd (fold_err (r_block_body s) [0..<nblocks s] ([], []))
       (\<lambda>(sum_a, sum_b). Inr (s\<lparr>frag_da_r := sum_a, frag_db_r := sum_b\<rparr>))"

definition Inversion_init ::
  "('a::{zero,one,plus,times}) fragment list \<Rightarrow> 'a molecule \<Rightarrow> error + 'a inversion" where
  \<comment> \<open>\<^verbatim>\<open>__init__\<close>. The aggregate fields are \<^verbatim>\<open>None\<close> until the three methods fill them;
      the record holds \<open>0\<close> and \<open>[]\<close> in their place, which nothing reads before they
      are set.\<close>
  "Inversion_init fragments mol =
     bnd (assert_grid_elements fragments mol) (\<lambda>nb.
     bnd (get_frag_densities_nm (get_frag_energies
            \<lparr>frags = fragments, nfrag = length fragments, molecule = mol, nbf = m_nbf mol,
             nblocks = nb, frag_energy = 0, frag_da_nm = [], frag_db_nm = [],
             frag_da_r = [], frag_db_r = [], vp = None, ep = None\<rparr>))
       get_frag_densities_r)"

section \<open>Residuals and the partition energy\<close>

datatype 'a delta_density =
    Grid "'a vec list" "'a vec list" 'a
      \<comment> \<open>the tuple \<^verbatim>\<open>(dd_a, dd_b, l1error)\<close>\<close>
  | Matrix "'a mat" "'a mat"
      \<comment> \<open>the tuple \<^verbatim>\<open>(dd_a, dd_b)\<close>\<close>
  | NoDelta
      \<comment> \<open>\<^verbatim>\<open>None\<close>, for any other option\<close>

definition dd_grid_body ::
  "('a::{zero,plus,minus,times,abs}) inversion \<Rightarrow> nat \<Rightarrow> 'a vec list \<times> 'a vec list \<times> 'a
     \<Rightarrow> error + 'a vec list \<times> 'a vec list \<times> 'a" where
  "dd_grid_body s block = (\<lambda>(dd_a, dd_b, l1error).
     bnd (py_index (frag_da_r s) block) (\<lambda>fa.
     bnd (py_index (m_density_da (molecule s)) block) (\<lambda>ma.
     bnd (vec_op (-) fa ma) (\<lambda>block_dd_a.
     bnd (py_index (frag_db_r s) block) (\<lambda>fb.
     bnd (py_index (m_density_db (molecule s)) block) (\<lambda>mb.
     bnd (vec_op (-) fb mb) (\<lambda>block_dd_b.
     bnd (py_index (m_grid_w (molecule s)) block) (\<lambda>wa.
     bnd (dot block_dd_a wa) (\<lambda>ia.
     bnd (py_index (m_grid_w (molecule s)) block) (\<lambda>wb.
     bnd (dot block_dd_b wb) (\<lambda>ib.
       Inr (dd_a @ [block_dd_a], dd_b @ [block_dd_b], l1error + \<bar>ia\<bar> + \<bar>ib\<bar>))))))))))))"

definition get_delta_density ::
  "('a::{zero,plus,minus,times,abs}) inversion \<Rightarrow> string \<Rightarrow> error + 'a delta_density" where
  "get_delta_density s option =
     (if option = ''grid'' then
        bnd (fold_err (dd_grid_body s) [0..<nblocks s] ([], [], 0))
          (\<lambda>(dd_a, dd_b, l1error). Inr (Grid dd_a dd_b l1error))
      else if option = ''matrix'' then
        bnd (mat_op (-) (m_Da (molecule s)) (frag_da_nm s)) (\<lambda>dd_a.
        bnd (mat_op (-) (m_Db (molecule s)) (frag_db_nm s)) (\<lambda>dd_b.
          Inr (Matrix dd_a dd_b)))
      else Inr NoDelta)"

definition get_ep :: "('a::minus) inversion \<Rightarrow> 'a inversion" where
  "get_ep s =
     s\<lparr>ep := Some (foldl (\<lambda>e f. e - (f_energy f - f_Enuc f))
                        (m_energy (molecule s) - m_Enuc (molecule s)) (frags s))\<rparr>"

section \<open>The update strategies\<close>

definition scale :: "('a::times) \<Rightarrow> 'a mat \<Rightarrow> 'a mat" where
  "scale c m = map (map ((*) c)) m"

definition is_tensor4 :: "nat \<Rightarrow> 'a tensor4 \<Rightarrow> bool" where
  "is_tensor4 n t =
     (length t = n \<and> list_all (\<lambda>a. length a = n \<and> list_all (is_square n) a) t)"

definition contract_imlj_ml ::
  "'a tensor4 \<Rightarrow> 'a mat \<Rightarrow> error + ('a::{zero,plus,times}) mat" where
  \<comment> \<open>\<^verbatim>\<open>contract('imlj, ml->ij', t, d)\<close> for the AO shapes: \<open>d\<close> of \<open>n\<close> rows and columns,
      \<open>t\<close> of \<open>n\<close> entries along each of its four axes; other shapes are an error\<close>
  "contract_imlj_ml t d =
     (let n = length d in
      if is_square n d \<and> is_tensor4 n t then
        Inr (map (\<lambda>i. map (\<lambda>j.
               np_sum (map (\<lambda>m. np_sum (map (\<lambda>l. t ! i ! m ! l ! j * d ! m ! l) [0..<n])) [0..<n]))
                        [0..<n]) [0..<n])
      else Inl ShapeError)"

definition contract_mnls_ls ::
  "'a tensor4 \<Rightarrow> 'a mat \<Rightarrow> error + ('a::{zero,plus,times}) mat" where
  \<comment> \<open>\<^verbatim>\<open>contract('mnls, ls -> mn', t, d)\<close>, for the same shapes\<close>
  "contract_mnls_ls t d =
     (let n = length d in
      if is_square n d \<and> is_tensor4 n t then
        Inr (map (\<lambda>m. map (\<lambda>k.
               np_sum (map (\<lambda>l. np_sum (map (\<lambda>s. t ! m ! k ! l ! s * d ! l ! s) [0..<n])) [0..<n]))
                        [0..<n]) [0..<n])
      else Inl ShapeError)"

definition symmetrize :: "'a mat \<Rightarrow> error + ('a::{one,plus,times,inverse}) mat" where
  \<comment> \<open>\<^verbatim>\<open>0.5 * (m + m.T)\<close>\<close>
  "symmetrize m = bnd (mat_op (+) m (transpose_np m)) (\<lambda>t. Inr (scale half t))"

definition vp_zpm ::
  "'a inversion \<Rightarrow> 'a mat \<Rightarrow> 'a mat
     \<Rightarrow> error + ('a::{zero,one,plus,uminus,times,inverse}) mat \<times> 'a mat" where
  "vp_zpm s dd_a dd_b =
     bnd (contract_imlj_ml (m_ao_eri (molecule s)) dd_a) (\<lambda>ca.
     bnd (contract_imlj_ml (m_ao_eri (molecule s)) dd_b) (\<lambda>cb.
       Inr (scale (- half) ca, scale (- half) cb)))"

definition vp_dd :: "'a inversion \<Rightarrow> 'a mat \<Rightarrow> 'a mat \<Rightarrow> error + 'a mat \<times> 'a mat" where
  "vp_dd s dd_a dd_b = Inr (dd_a, dd_b)"

subsection \<open>Zhang-Carter\<close>

definition np_zeros4 :: "nat \<Rightarrow> ('a::zero) tensor4" where
  "np_zeros4 n = replicate n (replicate n (np_zeros2 n n))"

definition add_scalar4 :: "('a::plus) \<Rightarrow> 'a tensor4 \<Rightarrow> 'a tensor4" where
  \<comment> \<open>\<^verbatim>\<open>x += c\<close> for an array \<open>c\<close> of shape (1, 1, 1, 1): it is added to every entry\<close>
  "add_scalar4 c x = map (map (map (map (\<lambda>v. v + c)))) x"

definition contract_rows :: "'a vec \<Rightarrow> 'a vec \<Rightarrow> ('a::{zero,plus,times})" where
  \<comment> \<open>\<^verbatim>\<open>contract('mi, na, li, sa -> mnls', ri, ra, ri, ra)\<close> for \<open>ri = C[None, i]\<close> and
      \<open>ra = C[None, a]\<close>, both of shape (1, K): the axes \<open>m\<close>, \<open>n\<close>, \<open>l\<close>, \<open>s\<close> have one
      entry, and the labels \<open>i\<close> and \<open>a\<close> are summed along the rows. The result has shape
      (1, 1, 1, 1); this is its entry.\<close>
  "contract_rows ri ra = np_sum (map (\<lambda>x. np_sum (map (\<lambda>y. x * y * x * y) ra)) ri)"

definition zc_term ::
  "'a mat \<Rightarrow> 'a vec \<Rightarrow> nat \<Rightarrow> nat \<Rightarrow> 'a tensor4
     \<Rightarrow> error + ('a::{zero,plus,minus,times,inverse}) tensor4" where
  \<comment> \<open>\<^verbatim>\<open>x += contract(..., C[None,i], C[None,a], C[None,i], C[None,a]) / (eigs[i] - eigs[a])\<close>\<close>
  "zc_term C eigs i a x =
     bnd (py_index C i) (\<lambda>ri.
     bnd (py_index C a) (\<lambda>ra.
     bnd (py_index eigs i) (\<lambda>ei.
     bnd (py_index eigs a) (\<lambda>ea. Inr (add_scalar4 (contract_rows ri ra / (ei - ea)) x)))))"

definition zc_pair ::
  "'a fragment \<Rightarrow> nat \<times> nat \<Rightarrow> 'a tensor4
     \<Rightarrow> error + ('a::{zero,plus,minus,times,inverse}) tensor4" where
  "zc_pair f = (\<lambda>(i, a) x.
     bnd (zc_term (f_Ca f) (f_eigs_a f) i a x) (zc_term (f_Cb f) (f_eigs_b f) i a))"

definition zc_frag ::
  "'a inversion \<Rightarrow> 'a fragment \<Rightarrow> 'a tensor4 option
     \<Rightarrow> error + ('a::{zero,plus,minus,times,inverse}) tensor4 option" where
  \<comment> \<open>one pass of \<^verbatim>\<open>for frag in self.frags\<close>; the variable \<^verbatim>\<open>x\<close> is \<open>None\<close> while it is
      unbound\<close>
  "zc_frag s f x =
     (if m_nalpha (molecule s) = m_nbeta (molecule s) then
        bnd (fold_err (zc_pair f)
               (List.product [0..<m_nalpha (molecule s)]
                             [m_nalpha (molecule s)..<m_nbf (molecule s)])
               (np_zeros4 (m_nbf (molecule s))))
          (\<lambda>x'. Inr (Some x'))
      else Inr x)"

definition vp_zc ::
  "('a tensor4 \<Rightarrow> 'a tensor4 option) \<Rightarrow> 'a inversion \<Rightarrow> 'a mat \<Rightarrow> 'a mat \<Rightarrow> real
     \<Rightarrow> error + ('a::{zero,one,plus,minus,times,inverse}) mat \<times> 'a mat" where
  \<comment> \<open>\<open>pinv\<close> is \<^verbatim>\<open>np.linalg.pinv\<close>, which returns the pseudo-inverse or raises its
      \<^verbatim>\<open>LinAlgError\<close> (\<open>None\<close>); \<open>rcond\<close> is accepted and not used\<close>
  "vp_zc pinv s da_mn db_mn rcond =
     bnd (mat_op (+) da_mn db_mn) (\<lambda>dd.
     bnd (fold_err (zc_frag s) (frags s) None) (\<lambda>x.
       case x of
         None \<Rightarrow> Inl (UnboundLocalError ''x'')
       | Some x \<Rightarrow>
           bnd (case pinv x of None \<Rightarrow> Inl LinAlgError | Some x_inv \<Rightarrow> Inr x_inv) (\<lambda>x_inv.
           bnd (contract_mnls_ls x_inv dd) (\<lambda>dvp.
           bnd (symmetrize dvp) (\<lambda>dvp'. Inr (dvp', dvp'))))))"

subsection \<open>Wu-Yang on the grid\<close>

definition orb_value :: "(nat \<rightharpoonup> 'a vec list) \<Rightarrow> nat \<Rightarrow> nat \<Rightarrow> nat \<Rightarrow> error + 'a" where
  \<comment> \<open>\<^verbatim>\<open>orb[str(i)][block][r]\<close>\<close>
  "orb_value orb i block r =
     (case orb i of
        None \<Rightarrow> Inl KeyError
      | Some blocks \<Rightarrow> bnd (py_index blocks block) (\<lambda>v. py_index v r))"

definition wy_num_entry ::
  "(nat \<rightharpoonup> 'a vec list) \<Rightarrow> nat \<Rightarrow> nat \<Rightarrow> nat \<Rightarrow> nat \<Rightarrow> nat \<Rightarrow> error + ('a::times)" where
  "wy_num_entry orb i_occ i_vir block r1 r2 =
     bnd (orb_value orb i_occ block r1) (\<lambda>a.
     bnd (orb_value orb i_vir block r1) (\<lambda>b.
     bnd (orb_value orb i_vir block r2) (\<lambda>c.
     bnd (orb_value orb i_occ block r2) (\<lambda>d. Inr (a * b * c * d)))))"

definition mat_div :: "'a mat \<Rightarrow> 'a \<Rightarrow> ('a::inverse) mat" where
  \<comment> \<open>\<^verbatim>\<open>num / den\<close>: every entry is divided\<close>
  "mat_div m d = map (map (\<lambda>v. v / d)) m"

definition wy_pair ::
  "(nat \<rightharpoonup> 'a vec list) \<Rightarrow> 'a vec \<Rightarrow> nat \<Rightarrow> nat \<Rightarrow> nat \<times> nat \<Rightarrow> 'a mat
     \<Rightarrow> error + ('a::{plus,minus,times,inverse}) mat" where
  \<comment> \<open>the body of the loops over \<^verbatim>\<open>i_occ\<close> and \<^verbatim>\<open>i_vir\<close>, for \<^verbatim>\<open>orb_a\<close> and
      \<^verbatim>\<open>frag.eigs_a.np\<close>\<close>
  "wy_pair orb_a eigs block npts = (\<lambda>(i_occ, i_vir) x_a.
     bnd (py_index eigs i_occ) (\<lambda>eo.
     bnd (py_index eigs i_vir) (\<lambda>ev.
     bnd (map_err (\<lambda>r1. map_err (wy_num_entry orb_a i_occ i_vir block r1) [0..<npts])
            [0..<npts]) (\<lambda>num.
       mat_iop (+) x_a (mat_div num (eo - ev))))))"

definition wy_frag ::
  "nat \<Rightarrow> nat \<Rightarrow> 'a fragment \<Rightarrow> 'a mat \<Rightarrow> error + ('a::{plus,minus,times,inverse}) mat" where
  \<comment> \<open>one pass of \<^verbatim>\<open>for frag in self.frags\<close>: both dictionaries are read, and the loops
      over the beta orbitals are commented out in the source\<close>
  "wy_frag block npts f x_a =
     (case f_orbitals f ''alpha_r'' of
        None \<Rightarrow> Inl KeyError
      | Some orb_a \<Rightarrow>
          (case f_orbitals f ''beta_r'' of
             None \<Rightarrow> Inl KeyError
           | Some orb_b \<Rightarrow>
               fold_err (wy_pair orb_a (f_eigs_a f) block npts)
                 (List.product [0..<f_nalpha f] [f_nalpha f..<f_nbf f]) x_a))"

definition wy_dvp_row ::
  "'a mat \<Rightarrow> 'a vec list \<Rightarrow> nat \<Rightarrow> 'a vec \<Rightarrow> nat \<Rightarrow> 'a vec
     \<Rightarrow> error + ('a::{one,plus,times,inverse}) vec" where
  \<comment> \<open>\<^verbatim>\<open>dvp_block += (1 / (x_a[r1, :] + x_a[r1, :])) * dd[block] * w\<close>\<close>
  "wy_dvp_row x_a dd block wts r1 dvp_block =
     bnd (py_index x_a r1) (\<lambda>row.
     bnd (py_index dd block) (\<lambda>ddb.
     bnd (vec_op (*) (map (\<lambda>v. 1 / (v + v)) row) ddb) (\<lambda>t.
     bnd (vec_op (*) t wts) (\<lambda>u. vec_iop (+) dvp_block u))))"

definition contract_pb_p_p_pa ::
  "nat \<Rightarrow> 'a mat \<Rightarrow> 'a vec \<Rightarrow> 'a vec \<Rightarrow> error + ('a::{zero,plus,times}) mat" where
  \<comment> \<open>\<^verbatim>\<open>contract('pb,p,p,pa->ab', phi, v, wts, phi)\<close> for \<open>phi\<close> with \<open>k\<close> columns\<close>
  "contract_pb_p_p_pa k phi v wts =
     (if length phi = length v \<and> length wts = length v \<and> list_all (\<lambda>row. length row = k) phi
      then Inr (map (\<lambda>a. map (\<lambda>b.
                  np_sum (map (\<lambda>p. phi ! p ! b * v ! p * wts ! p * phi ! p ! a) [0..<length v]))
                              [0..<k]) [0..<k])
      else Inl ShapeError)"

definition gather :: "'a mat \<Rightarrow> nat list \<Rightarrow> error + 'a mat" where
  \<comment> \<open>\<^verbatim>\<open>dvp[(lpos[:, None], lpos)]\<close>\<close>
  "gather dvp lpos = map_err (\<lambda>i. bnd (py_index dvp i) (\<lambda>row. map_err (py_index row) lpos)) lpos"

definition scatter :: "'a mat \<Rightarrow> nat list \<Rightarrow> 'a mat \<Rightarrow> 'a mat" where
  \<comment> \<open>\<^verbatim>\<open>dvp[(lpos[:, None], lpos)] = t\<close>: the entries are written one after the other, so
      that the last write to a position stays\<close>
  "scatter dvp lpos t =
     foldl (\<lambda>m (a, b). m[lpos ! a := (m ! (lpos ! a))[lpos ! b := t ! a ! b]]) dvp
       (List.product [0..<length lpos] [0..<length lpos])"

definition wy_block ::
  "'a inversion \<Rightarrow> 'a vec list \<Rightarrow> nat \<Rightarrow> 'a mat
     \<Rightarrow> error + ('a::{zero,one,plus,minus,times,inverse}) mat" where
  \<comment> \<open>one pass of \<^verbatim>\<open>for block in range(self.molecule.Vpot.nblocks())\<close>. The slice
      \<^verbatim>\<open>[:npoints, :lpos.shape[0]]\<close> keeps at most that many rows and columns; the
      contraction then takes the number of columns from the first row, and from
      \<^verbatim>\<open>lpos\<close> for a slice without rows. \<^verbatim>\<open>dvp[...] += v\<close> reads the entries, adds \<open>v\<close> to
      them in place and writes them back.\<close>
  "wy_block s dd block dvp =
     bnd (py_index (m_Vpot (molecule s)) block) (\<lambda>grid_block.
       let npts = gb_npoints grid_block;
           lpos = gb_lpos grid_block;
           wts = gb_w grid_block;
           phi = map (take (length lpos)) (take npts (gb_PHI grid_block))
       in
     bnd (fold_err (wy_frag block npts) (frags s) (np_zeros2 npts npts)) (\<lambda>x_a.
     bnd (fold_err (wy_dvp_row x_a dd block wts) [0..<npts] (np_zeros npts)) (\<lambda>dvp_block.
     bnd (contract_pb_p_p_pa (case phi of [] \<Rightarrow> length lpos | row # _ \<Rightarrow> length row)
            phi dvp_block wts) (\<lambda>vtmp.
     bnd (gather dvp lpos) (\<lambda>g.
     bnd (symmetrize vtmp) (\<lambda>sym.
     bnd (mat_iop (+) g sym) (\<lambda>t. Inr (scatter dvp lpos t))))))))"

definition vp_wy_r ::
  "'a inversion \<Rightarrow> 'a vec list \<Rightarrow> 'a vec list
     \<Rightarrow> error + ('a::{zero,one,plus,minus,times,inverse}) mat \<times> 'a mat" where
  \<comment> \<open>\<^verbatim>\<open>dd_a\<close> and \<^verbatim>\<open>dd_b\<close> are Python lists (of one array per block), so that
      \<^verbatim>\<open>dd_a + dd_b\<close> is the one followed by the other\<close>
  "vp_wy_r s dd_a dd_b =
     (if nblocks s \<noteq> length (m_Vpot (molecule s)) then Inl BlocksInconsistent
      else
        bnd (fold_err (wy_block s (dd_a @ dd_b)) [0..<length (m_Vpot (molecule s))]
               (np_zeros_like2 (m_Da (molecule s))))
          (\<lambda>dvp. Inr (dvp, dvp)))"

section \<open>The inversion driver\<close>

record 'a locals =
  vp_a :: "'a mat"
  vp_b :: "'a mat"
  l1_list :: "'a list"
  ep_list :: "'a option list"

datatype outcome = Returned | Raised error

definition choose_method ::
  "('a tensor4 \<Rightarrow> 'a tensor4 option) \<Rightarrow> 'a inversion \<Rightarrow> string \<Rightarrow> 'a vec list \<Rightarrow> 'a vec list
     \<Rightarrow> 'a mat \<Rightarrow> 'a mat
     \<Rightarrow> error + (('a::{zero,one,plus,minus,uminus,times,inverse}) mat \<times> 'a mat) option" where
  \<comment> \<open>the \<^verbatim>\<open>if method == ... elif ...\<close> chain; \<open>None\<close> when no branch is taken and
      \<^verbatim>\<open>dvp_a\<close>, \<^verbatim>\<open>dvp_b\<close> stay unbound. \<^verbatim>\<open>vp_zc\<close> is called with its default
      \<^verbatim>\<open>rcond=1e-6\<close>.\<close>
  "choose_method pinv s method dd_a dd_b dd_a_mn dd_b_mn =
     (if method = ''zpm'' then bnd (vp_zpm s dd_a_mn dd_b_mn) (\<lambda>r. Inr (Some r))
      else if method = ''dd'' then bnd (vp_dd s dd_a_mn dd_b_mn) (\<lambda>r. Inr (Some r))
      else if method = ''zc'' then bnd (vp_zc pinv s dd_a_mn dd_b_mn (1 / 1000000)) (\<lambda>r. Inr (Some r))
      else if method = ''wy_r'' then bnd (vp_wy_r s dd_a dd_b) (\<lambda>r. Inr (Some r))
      else Inr None)"

definition vp_increment ::
  "('a mat \<times> 'a mat \<Rightarrow> 'a fragment \<Rightarrow> 'a fragment) \<Rightarrow> ('a tensor4 \<Rightarrow> 'a tensor4 option) \<Rightarrow> string
     \<Rightarrow> 'a inversion \<times> 'a locals
     \<Rightarrow> (error + ('a::{zero,one,plus,minus,uminus,times,inverse,abs}) mat \<times> 'a mat)
         \<times> 'a inversion \<times> 'a locals" where
  \<comment> \<open>the body of \<^verbatim>\<open>for step in range(maxiter+1)\<close> from its start to the choice of the
      strategy: the first component is the exception that ended it, or the increment
      \<^verbatim>\<open>(dvp_a, dvp_b)\<close>; the others are the engine and the local variables at that point.
      \<open>scf\<close> is \<^verbatim>\<open>frag.scf\<close> with \<^verbatim>\<open>get_ingredients=True, get_orbitals=True\<close>, which changes
      the fragment in place. Printing shows values and changes none.\<close>
  "vp_increment scf pinv method = (\<lambda>(s, l).
     let s1 = get_frag_energies (s\<lparr>frags := map (scf (vp_a l, vp_b l)) (frags s)\<rparr>) in
     case get_frag_densities_r s1 of
       Inl e \<Rightarrow> (Inl e, s1, l)
     | Inr s2 \<Rightarrow>
     (case get_frag_densities_nm s2 of
       Inl e \<Rightarrow> (Inl e, s2, l)
     | Inr s3 \<Rightarrow>
     let s4 = get_ep s3 in
     (case get_delta_density s4 ''grid'' of
       Inl e \<Rightarrow> (Inl e, s4, l)
     | Inr (Matrix a b) \<Rightarrow> (Inl TypeError, s4, l)
     | Inr NoDelta \<Rightarrow> (Inl TypeError, s4, l)
     | Inr (Grid dd_a dd_b err) \<Rightarrow>
     (case get_delta_density s4 ''matrix'' of
       Inl e \<Rightarrow> (Inl e, s4, l)
     | Inr (Grid a b c) \<Rightarrow> (Inl TypeError, s4, l)
     | Inr NoDelta \<Rightarrow> (Inl TypeError, s4, l)
     | Inr (Matrix dd_a_mn dd_b_mn) \<Rightarrow>
     let l' = l\<lparr>l1_list := l1_list l @ [err], ep_list := ep_list l @ [ep s4]\<rparr> in
     (case choose_method pinv s4 method dd_a dd_b dd_a_mn dd_b_mn of
       Inl e \<Rightarrow> (Inl e, s4, l')
     | Inr None \<Rightarrow> (Inl (UnboundLocalError ''dvp_a''), s4, l')
     | Inr (Some dvp) \<Rightarrow> (Inr dvp, s4, l'))))))"

definition update_vp ::
  "'a \<Rightarrow> int \<Rightarrow> 'a mat \<times> 'a mat \<Rightarrow> 'a inversion \<times> 'a locals
     \<Rightarrow> error option \<times> ('a::{plus,times}) inversion \<times> 'a locals" where
  \<comment> \<open>\<^verbatim>\<open>vp_a.axpy(beta, dvp_a); vp_b.axpy(beta, dvp_b); self.vp = [vp_a, vp_b]\<close>. The two
      matrices are changed in place, and from the second pass on \<^verbatim>\<open>self.vp\<close> holds these
      very objects: it shows the change of \<^verbatim>\<open>vp_a\<close> also when \<^verbatim>\<open>vp_b.axpy\<close> fails.\<close>
  "update_vp beta step = (\<lambda>(dvp_a, dvp_b) (s, l).
     case axpy beta dvp_a (vp_a l) of
       Inl e \<Rightarrow> (Some e, s, l)
     | Inr va \<Rightarrow>
         (case axpy beta dvp_b (vp_b l) of
            Inl e \<Rightarrow>
              (Some e, s\<lparr>vp := (if step = 0 then vp s else Some (va, vp_b l))\<rparr>, l\<lparr>vp_a := va\<rparr>)
          | Inr vb \<Rightarrow> (None, s\<lparr>vp := Some (va, vb)\<rparr>, l\<lparr>vp_a := va, vp_b := vb\<rparr>)))"

definition vp_iteration ::
  "('a mat \<times> 'a mat \<Rightarrow> 'a fragment \<Rightarrow> 'a fragment) \<Rightarrow> ('a tensor4 \<Rightarrow> 'a tensor4 option) \<Rightarrow> string
     \<Rightarrow> 'a \<Rightarrow> int \<Rightarrow> 'a inversion \<times> 'a locals
     \<Rightarrow> error option \<times> ('a::{zero,one,plus,minus,uminus,times,inverse,abs}) inversion \<times> 'a locals"
  where
  \<comment> \<open>the body of the loop up to the test of \<^verbatim>\<open>step\<close>: the increment, then the update of
      the potential with it; the first component is the exception that ended the body, if
      any\<close>
  "vp_iteration scf pinv method beta step sl =
     (case vp_increment scf pinv method sl of
        (Inl e, sl') \<Rightarrow> (Some e, sl')
      | (Inr dvp, sl') \<Rightarrow> update_vp beta step dvp sl')"

fun vp_loop ::
  "('a mat \<times> 'a mat \<Rightarrow> 'a fragment \<Rightarrow> 'a fragment) \<Rightarrow> ('a tensor4 \<Rightarrow> 'a tensor4 option) \<Rightarrow> string
     \<Rightarrow> 'a \<Rightarrow> int \<Rightarrow> int list \<Rightarrow> 'a inversion \<times> 'a locals
     \<Rightarrow> outcome \<times> ('a::{zero,one,plus,minus,uminus,times,inverse,abs}) inversion \<times> 'a locals"
  where
  "vp_loop scf pinv method beta maxiter [] sl = (Returned, sl)"
| "vp_loop scf pinv method beta maxiter (step # steps) sl =
     (case vp_iteration scf pinv method beta step sl of
        (Some e, sl') \<Rightarrow> (Raised e, sl')
      | (None, sl') \<Rightarrow>
          if step = maxiter then (Raised MaxIterationsExceeded, sl')
          else vp_loop scf pinv method beta maxiter steps sl')"

definition vp_handler ::
  "('a mat \<times> 'a mat \<Rightarrow> 'a fragment \<Rightarrow> 'a fragment) \<Rightarrow> ('a tensor4 \<Rightarrow> 'a tensor4 option)
     \<Rightarrow> 'a inversion \<Rightarrow> string \<Rightarrow> 'a \<Rightarrow> int \<Rightarrow> real \<Rightarrow> string option \<Rightarrow> bool \<Rightarrow> bool
     \<Rightarrow> outcome \<times> ('a::{zero,one,plus,minus,uminus,times,inverse,abs}) inversion \<times> 'a locals"
  where
  \<comment> \<open>the result is how the call ended, the engine then, and the function's local
      variables then (in the three early returns the two lists do not exist yet, and are
      empty here)\<close>
  "vp_handler scf pinv s method beta maxiter atol guess print_scf plot_scf =
     (let l0 = \<lparr>vp_a = np_zeros2 (nbf s) (nbf s), vp_b = np_zeros2 (nbf s) (nbf s),
                 l1_list = [], ep_list = []\<rparr> in
      if guess = Some ''hartree'' then (Returned, s, l0)
      else if guess = Some ''xc'' then (Returned, s, l0)
      else if guess = Some ''hxc'' then (Returned, s, l0)
      else vp_loop scf pinv method beta maxiter [0..maxiter] (s, l0))"

section \<open>The properties, in the words of the specification\<close>

subsection \<open>Shapes that fit\<close>

definition ao_fit :: "'a inversion \<Rightarrow> bool" where
  \<comment> \<open>the density matrices of every fragment have the basis size of the engine\<close>
  "ao_fit s = list_all (\<lambda>f. is_square (nbf s) (f_Da f) \<and> is_square (nbf s) (f_Db f)) (frags s)"

definition block_fit :: "'a vec list \<Rightarrow> 'a vec list \<Rightarrow> nat \<Rightarrow> bool" where
  \<comment> \<open>both lists have a block \<open>b\<close>, of the same number of points\<close>
  "block_fit xs ys b = (b < length xs \<and> b < length ys \<and> length (xs ! b) = length (ys ! b))"

definition grid_fit :: "'a inversion \<Rightarrow> bool" where
  \<comment> \<open>the reference and every fragment have each block of the engine, with the point count
      of the reference\<close>
  "grid_fit s =
     list_all (\<lambda>b.
       b < length (m_density_da (molecule s)) \<and> b < length (m_density_db (molecule s)) \<and>
       list_all (\<lambda>f. block_fit (f_density_da f) (m_density_da (molecule s)) b \<and>
                      block_fit (f_density_db f) (m_density_db (molecule s)) b) (frags s))
       [0..<nblocks s]"

definition residual_fit :: "'a inversion \<Rightarrow> bool" where
  \<comment> \<open>the aggregates, the reference densities and the weights have each block of the engine
      with one point count, and the four AO matrices have the basis size\<close>
  "residual_fit s =
     (list_all (\<lambda>b.
        block_fit (frag_da_r s) (m_density_da (molecule s)) b \<and>
        block_fit (frag_db_r s) (m_density_db (molecule s)) b \<and>
        block_fit (m_grid_w (molecule s)) (m_density_da (molecule s)) b \<and>
        block_fit (m_grid_w (molecule s)) (m_density_db (molecule s)) b) [0..<nblocks s] \<and>
      is_square (nbf s) (m_Da (molecule s)) \<and> is_square (nbf s) (frag_da_nm s) \<and>
      is_square (nbf s) (m_Db (molecule s)) \<and> is_square (nbf s) (frag_db_nm s))"

subsection \<open>Sums, differences and integrals\<close>

definition accumulated2 :: "nat \<Rightarrow> ('a::{zero,one,plus,times}) mat list \<Rightarrow> 'a mat" where
  \<comment> \<open>entry by entry, the matrices of \<open>n\<close> rows and columns added one after the other to
      zero, each with the factor one: \<open>1 * m + acc\<close>\<close>
  "accumulated2 n ms =
     map (\<lambda>i. map (\<lambda>j. foldl (\<lambda>acc m. 1 * m ! i ! j + acc) 0 ms) [0..<n]) [0..<n]"

definition accumulated1 :: "nat \<Rightarrow> ('a::{zero,plus}) vec list \<Rightarrow> 'a vec" where
  \<comment> \<open>entry by entry, the arrays of \<open>n\<close> entries added one after the other to zero\<close>
  "accumulated1 n vs = map (\<lambda>p. foldl (\<lambda>acc v. acc + v ! p) 0 vs) [0..<n]"

definition elementwise_sum2 :: "nat \<Rightarrow> real mat list \<Rightarrow> real mat" where
  \<comment> \<open>the elementwise sum of matrices of \<open>n\<close> rows and columns\<close>
  "elementwise_sum2 n ms = map (\<lambda>i. map (\<lambda>j. \<Sum>m\<leftarrow>ms. m ! i ! j) [0..<n]) [0..<n]"

definition elementwise_sum1 :: "nat \<Rightarrow> real vec list \<Rightarrow> real vec" where
  \<comment> \<open>the elementwise sum of arrays of \<open>n\<close> entries\<close>
  "elementwise_sum1 n vs = map (\<lambda>p. \<Sum>v\<leftarrow>vs. v ! p) [0..<n]"

definition block_difference :: "('a::minus) vec \<Rightarrow> 'a vec \<Rightarrow> 'a vec" where
  \<comment> \<open>\<open>x\<close> minus \<open>y\<close>, point by point\<close>
  "block_difference x y = map (\<lambda>p. x ! p - y ! p) [0..<length y]"

definition weighted_integral :: "real vec \<Rightarrow> real vec \<Rightarrow> real" where
  \<comment> \<open>the grid-weighted integral of the values \<open>d\<close> of one block\<close>
  "weighted_integral d wts = (\<Sum>p\<leftarrow>[0..<length d]. d ! p * wts ! p)"

definition matrix_difference :: "nat \<Rightarrow> ('a::minus) mat \<Rightarrow> 'a mat \<Rightarrow> 'a mat" where
  \<comment> \<open>\<open>x\<close> minus \<open>y\<close>, entry by entry\<close>
  "matrix_difference n x y = map (\<lambda>i. map (\<lambda>j. x ! i ! j - y ! i ! j) [0..<n]) [0..<n]"

definition coulomb_increment :: "nat \<Rightarrow> real tensor4 \<Rightarrow> real mat \<Rightarrow> real mat" where
  \<comment> \<open>minus one half of the tensor contracted with the residual over its two middle
      indices\<close>
  "coulomb_increment n t d =
     map (\<lambda>i. map (\<lambda>j. - 0.5 * (\<Sum>m\<leftarrow>[0..<n]. \<Sum>l\<leftarrow>[0..<n]. t ! i ! m ! l ! j * d ! m ! l))
                    [0..<n]) [0..<n]"

subsection \<open>The driver\<close>

definition frag_fit :: "'a inversion \<Rightarrow> 'a fragment \<Rightarrow> bool" where
  \<comment> \<open>the arrays of a fragment have the basis size and the point counts of the engine\<close>
  "frag_fit s f =
     (is_square (nbf s) (f_Da f) \<and> is_square (nbf s) (f_Db f) \<and>
      list_all (\<lambda>b. block_fit (f_density_da f) (m_density_da (molecule s)) b \<and>
                     block_fit (f_density_db f) (m_density_db (molecule s)) b) [0..<nblocks s])"

definition reference_fit :: "'a inversion \<Rightarrow> bool" where
  \<comment> \<open>the arrays of the reference have the basis size and, per block, one point count\<close>
  "reference_fit s =
     (is_square (nbf s) (m_Da (molecule s)) \<and> is_square (nbf s) (m_Db (molecule s)) \<and>
      list_all (\<lambda>b. block_fit (m_grid_w (molecule s)) (m_density_da (molecule s)) b \<and>
                     block_fit (m_grid_w (molecule s)) (m_density_db (molecule s)) b)
        [0..<nblocks s])"

definition zc_fit :: "'a inversion \<Rightarrow> 'a fragment \<Rightarrow> bool" where
  \<comment> \<open>the coefficient matrices of the fragment have a row, and its arrays of eigenvalues
      an entry, for every basis function of the reference\<close>
  "zc_fit s f =
     (m_nbf (molecule s) \<le> length (f_Ca f) \<and> m_nbf (molecule s) \<le> length (f_Cb f) \<and>
      m_nbf (molecule s) \<le> length (f_eigs_a f) \<and> m_nbf (molecule s) \<le> length (f_eigs_b f))"

definition orb_fit :: "(nat \<rightharpoonup> 'a vec list) \<Rightarrow> nat \<Rightarrow> nat \<Rightarrow> nat \<Rightarrow> bool" where
  \<comment> \<open>the dictionary has the orbital \<open>i\<close>, with a value at each of the \<open>npts\<close> points of the
      block\<close>
  "orb_fit orb block npts i =
     (case orb i of
        None \<Rightarrow> False
      | Some blocks \<Rightarrow> block < length blocks \<and> npts \<le> length (blocks ! block))"

definition orbitals_fit :: "'a fragment \<Rightarrow> nat \<Rightarrow> nat \<Rightarrow> bool" where
  \<comment> \<open>the fragment has both dictionaries of orbitals and, when it has a pair of an
      occupied and a virtual alpha orbital, every alpha orbital and eigenvalue that the
      loops of \<open>vp_wy_r\<close> read\<close>
  "orbitals_fit f block npts =
     (f_orbitals f ''beta_r'' \<noteq> None \<and>
      (case f_orbitals f ''alpha_r'' of
         None \<Rightarrow> False
       | Some orb \<Rightarrow>
           (f_nalpha f < f_nbf f \<and> 0 < f_nalpha f \<longrightarrow>
              f_nbf f \<le> length (f_eigs_a f) \<and>
              list_all (orb_fit orb block npts) [0..<f_nbf f])))"

definition wy_grid_fit :: "'a inversion \<Rightarrow> bool" where
  \<comment> \<open>the engine has the blocks of the grid of the reference; per block the weights, the
      reference density and the rows of the basis values have the point count of the
      block, and the positions of its basis functions lie in the basis\<close>
  "wy_grid_fit s =
     (nblocks s = length (m_Vpot (molecule s)) \<and>
      list_all (\<lambda>block.
         let gb = m_Vpot (molecule s) ! block; npts = gb_npoints gb in
           length (gb_w gb) = npts \<and> npts \<le> length (gb_PHI gb) \<and>
           list_all (\<lambda>row. length (gb_lpos gb) \<le> length row) (take npts (gb_PHI gb)) \<and>
           list_all (\<lambda>i. i < nbf s) (gb_lpos gb) \<and>
           length (m_density_da (molecule s) ! block) = npts)
        [0..<nblocks s])"

definition strategy_fit :: "string \<Rightarrow> 'a inversion \<Rightarrow> bool" where
  \<comment> \<open>the strategy is one of the four, and the reference has the arrays that it reads, of
      the shapes of the basis and of the grid; "zc" is for equal alpha and beta occupation
      and at least one fragment\<close>
  "strategy_fit method s =
     (reference_fit s \<and>
      (method = ''dd'' \<or>
       method = ''zpm'' \<and> is_tensor4 (nbf s) (m_ao_eri (molecule s)) \<or>
       method = ''zc'' \<and> m_nalpha (molecule s) = m_nbeta (molecule s) \<and>
         m_nbf (molecule s) = nbf s \<and> frags s \<noteq> [] \<or>
       method = ''wy_r'' \<and> wy_grid_fit s))"

definition strategy_frag_fit :: "string \<Rightarrow> 'a inversion \<Rightarrow> 'a fragment \<Rightarrow> bool" where
  \<comment> \<open>the fragment has the arrays that the aggregation and the strategy read, of the
      shapes of the engine\<close>
  "strategy_frag_fit method s f =
     (frag_fit s f \<and>
      (method = ''zc'' \<longrightarrow> zc_fit s f) \<and>
      (method = ''wy_r'' \<longrightarrow>
         list_all (\<lambda>block. orbitals_fit f block (gb_npoints (m_Vpot (molecule s) ! block)))
           [0..<nblocks s]))"

definition loop_fit :: "string \<Rightarrow> 'a inversion \<Rightarrow> 'a inversion \<times> 'a locals \<Rightarrow> bool" where
  \<comment> \<open>what every pass of the loop keeps of the engine \<open>s0\<close> it started from\<close>
  "loop_fit method s0 = (\<lambda>(s, l).
     nbf s = nbf s0 \<and> nblocks s = nblocks s0 \<and> molecule s = molecule s0 \<and>
     (frags s = []) = (frags s0 = []) \<and>
     list_all (strategy_frag_fit method s0) (frags s) \<and>
     is_square (nbf s0) (vp_a l) \<and> is_square (nbf s0) (vp_b l))"

text \<open>
  \<open>iterations k n\<close> runs the body of the loop \<open>n\<close> times, for the indices \<open>k\<close>, \<open>k + 1\<close>, ...,
  and stops at the first body that raises.
\<close>

fun iterations ::
  "('a mat \<times> 'a mat \<Rightarrow> 'a fragment \<Rightarrow> 'a fragment) \<Rightarrow> ('a tensor4 \<Rightarrow> 'a tensor4 option) \<Rightarrow> string
     \<Rightarrow> 'a \<Rightarrow> nat \<Rightarrow> nat \<Rightarrow> 'a inversion \<times> 'a locals
     \<Rightarrow> error option \<times> ('a::{zero,one,plus,minus,uminus,times,inverse,abs}) inversion \<times> 'a locals"
  where
  "iterations scf pinv method beta k 0 sl = (None, sl)"
| "iterations scf pinv method beta k (Suc n) sl =
     (case vp_iteration scf pinv method beta (int k) sl of
        (Some e, sl') \<Rightarrow> (Some e, sl')
      | (None, sl') \<Rightarrow> iterations scf pinv method beta (Suc k) n sl')"

definition no_max :: "error + 'a \<Rightarrow> bool" where
  \<comment> \<open>the computation does not raise the exception of the iteration bound\<close>
  "no_max m = (m \<noteq> Inl MaxIterationsExceeded)"

subsection \<open>Orbital data of a fragment\<close>

definition same_orbitals :: "'a fragment \<Rightarrow> 'a fragment \<Rightarrow> bool" where
  \<comment> \<open>two fragments with the same orbital coefficients and eigenvalues\<close>
  "same_orbitals f g =
     (f_Ca f = f_Ca g \<and> f_Cb f = f_Cb g \<and> f_eigs_a f = f_eigs_a g \<and> f_eigs_b f = f_eigs_b g)"

definition same_alpha :: "'a fragment \<Rightarrow> 'a fragment \<Rightarrow> bool" where
  \<comment> \<open>two fragments with the same alpha-channel data: the occupation and basis counts,
      the eigenvalues and the orbitals on the grid; of the beta channel, both have the
      dictionary or both lack it\<close>
  "same_alpha f g =
     (f_nalpha f = f_nalpha g \<and> f_nbf f = f_nbf g \<and> f_eigs_a f = f_eigs_a g \<and>
      f_orbitals f ''alpha_r'' = f_orbitals g ''alpha_r'' \<and>
      (f_orbitals f ''beta_r'' = None) = (f_orbitals g ''beta_r'' = None))"

subsection \<open>Symmetry of the repulsion tensor\<close>


subsection \<open>The Wu-Yang increment\<close>

text \<open>
  The increment of \<open>vp_wy_r\<close>, entry by entry. The kernel of a block at the points \<open>r1\<close>
  and \<open>r2\<close> adds, for the fragments in their order and for every pair of an occupied and a
  virtual alpha orbital of the fragment, the product of the four orbital values divided
  by the difference of the two eigenvalues. No beta orbital and no beta eigenvalue
  appears in it.
\<close>

definition alpha_orbital :: "'a fragment \<Rightarrow> nat \<Rightarrow> nat \<Rightarrow> nat \<Rightarrow> 'a" where
  \<comment> \<open>the value of the alpha orbital \<open>i\<close> of the fragment at the point \<open>r\<close> of the block\<close>
  "alpha_orbital f i block r = the (the (f_orbitals f ''alpha_r'') i) ! block ! r"

definition alpha_term ::
  "('a::{minus,times,inverse}) fragment \<Rightarrow> nat \<Rightarrow> nat \<Rightarrow> nat \<Rightarrow> nat \<Rightarrow> nat \<Rightarrow> 'a" where
  "alpha_term f block r1 r2 i a =
     (alpha_orbital f i block r1 * alpha_orbital f a block r1 *
      alpha_orbital f a block r2 * alpha_orbital f i block r2)
     / (f_eigs_a f ! i - f_eigs_a f ! a)"

definition alpha_kernel ::
  "('a::{zero,plus,minus,times,inverse}) inversion \<Rightarrow> nat \<Rightarrow> nat \<Rightarrow> nat \<Rightarrow> 'a" where
  "alpha_kernel s block r1 r2 =
     foldl (\<lambda>acc f.
        foldl (\<lambda>acc (i, a). acc + alpha_term f block r1 r2 i a) acc
          (List.product [0..<f_nalpha f] [f_nalpha f..<f_nbf f]))
       0 (frags s)"

definition wy_grid_increment ::
  "('a::{zero,one,plus,minus,times,inverse}) inversion \<Rightarrow> 'a vec list \<Rightarrow> nat \<Rightarrow> nat \<Rightarrow> 'a" where
  \<comment> \<open>the residual of the block at the point \<open>p\<close>, mapped through the reciprocal of the
      kernel: the kernel of the alpha channel is added to itself where the sum of the
      kernels of the two channels would stand\<close>
  "wy_grid_increment s dd block p =
     foldl (\<lambda>acc r1.
        acc + 1 / (alpha_kernel s block r1 p + alpha_kernel s block r1 p) * dd ! block ! p
                * gb_w (m_Vpot (molecule s) ! block) ! p)
       0 [0..<gb_npoints (m_Vpot (molecule s) ! block)]"

definition wy_projection ::
  "('a::{zero,one,plus,minus,times,inverse}) inversion \<Rightarrow> 'a vec list \<Rightarrow> nat \<Rightarrow> nat \<Rightarrow> nat \<Rightarrow> 'a"
  where
  \<comment> \<open>the grid increment of the block projected on the basis functions \<open>a\<close> and \<open>b\<close> of the
      block, with the quadrature weights\<close>
  "wy_projection s dd block a b =
     np_sum (map (\<lambda>p. gb_PHI (m_Vpot (molecule s) ! block) ! p ! b * wy_grid_increment s dd block p
                       * gb_w (m_Vpot (molecule s) ! block) ! p
                       * gb_PHI (m_Vpot (molecule s) ! block) ! p ! a)
                 [0..<gb_npoints (m_Vpot (molecule s) ! block)])"

definition wy_block_increment ::
  "('a::{zero,one,plus,minus,times,inverse}) inversion \<Rightarrow> 'a vec list \<Rightarrow> nat \<Rightarrow> 'a mat \<Rightarrow> 'a mat"
  where
  \<comment> \<open>the symmetrized projection of the block added to the entries of \<open>dvp\<close> at the global
      positions of the basis functions of the block\<close>
  "wy_block_increment s dd block dvp =
     (let lpos = gb_lpos (m_Vpot (molecule s) ! block) in
      scatter dvp lpos
        (map (\<lambda>a. map (\<lambda>b. dvp ! (lpos ! a) ! (lpos ! b)
                            + half * (wy_projection s dd block a b + wy_projection s dd block b a))
                        [0..<length lpos]) [0..<length lpos]))"

definition wy_increment ::
  "('a::{zero,one,plus,minus,times,inverse}) inversion \<Rightarrow> 'a vec list \<Rightarrow> 'a mat" where
  "wy_increment s dd =
     foldl (\<lambda>dvp block. wy_block_increment s dd block dvp)
       (np_zeros2 (length (m_Da (molecule s))) (length (m_Da (molecule s)))) [0..<nblocks s]"

definition wy_block_fit :: "'a inversion \<Rightarrow> 'a vec list \<Rightarrow> nat \<Rightarrow> bool" where
  \<comment> \<open>the weights, the residual and the rows of the basis values of the block have the
      point count of the block, the positions of its basis functions lie in the reference
      density matrix, and the orbitals of the fragments fit\<close>
  "wy_block_fit s dd block =
     (let gb = m_Vpot (molecule s) ! block; npts = gb_npoints gb in
        length (gb_w gb) = npts \<and> npts \<le> length (gb_PHI gb) \<and>
        list_all (\<lambda>row. length (gb_lpos gb) \<le> length row) (take npts (gb_PHI gb)) \<and>
        list_all (\<lambda>i. i < length (m_Da (molecule s))) (gb_lpos gb) \<and>
        block < length dd \<and> length (dd ! block) = npts \<and>
        list_all (\<lambda>f. orbitals_fit f block npts) (frags s))"

definition wy_fit :: "'a inversion \<Rightarrow> 'a vec list \<Rightarrow> bool" where
  \<comment> \<open>the arrays that \<open>vp_wy_r\<close> reads have the shapes of the grid and of the basis\<close>
  "wy_fit s dd =
     (nblocks s = length (m_Vpot (molecule s)) \<and>
      is_square (length (m_Da (molecule s))) (m_Da (molecule s)) \<and>
      list_all (wy_block_fit s dd) [0..<nblocks s])"


subsection \<open>Shapes that numpy adds\<close>

definition broadcastable :: "'a mat \<Rightarrow> 'a mat \<Rightarrow> bool" where
  \<comment> \<open>two arrays of two dimensions whose shapes numpy broadcasts: per dimension the two
      lengths are equal or one of them is \<open>1\<close>\<close>
  "broadcastable a b =
     (is_array2 a \<and> is_array2 b \<and> broadcast_dim (length a) (length b) \<noteq> None \<and>
      broadcast_dim (ncols a) (ncols b) \<noteq> None)"
section \<open>Small systems\<close>

text \<open>
  The first system is the scenario of the specification: two fragments with one basis
  function and the density matrix \<open>[[0.5]]\<close>, a reference with \<open>[[1.0]]\<close>, one grid block
  with one point of weight \<open>1.0\<close>. Its numbers are written with \<open>0\<close>, \<open>1\<close> and the
  operations, so that it is a system of reals and a system of doubles. The second, of
  reals, has two basis functions, one occupied orbital, and one block of two points; its
  two fragments differ in their orbitals.
\<close>

definition ex_block :: "('a::{zero,one}) grid_block" where
  "ex_block = \<lparr>gb_npoints = 1, gb_lpos = [0], gb_w = [1], gb_PHI = [[1]]\<rparr>"

definition ex_frag :: "('a::{zero,one,plus,uminus,inverse}) fragment" where
  "ex_frag = \<lparr>f_nbf = 1, f_nalpha = 1, f_nbeta = 1, f_energy = - 1, f_Enuc = 0,
     f_Da = [[half]], f_Db = [[half]], f_Ca = [[1]], f_Cb = [[1]],
     f_eigs_a = [- half], f_eigs_b = [- half],
     f_density_da = [[half]], f_density_db = [[half]], f_Vpot = [ex_block],
     f_orbitals = [''alpha_r'' \<mapsto> [0 \<mapsto> [[1]]], ''beta_r'' \<mapsto> [0 \<mapsto> [[1]]]]\<rparr>"

definition ex_mol :: "('a::{zero,one,plus,uminus,inverse}) molecule" where
  "ex_mol = \<lparr>m_nbf = 1, m_nalpha = 1, m_nbeta = 1, m_energy = - (1 + 1 + 1), m_Enuc = half,
     m_Da = [[1]], m_Db = [[1]], m_density_da = [[1]], m_density_db = [[1]],
     m_grid_w = [[1]], m_Vpot = [ex_block], m_ao_eri = [[[[1]]]]\<rparr>"

definition ex_engine :: "real inversion" where
  \<comment> \<open>the engine that \<open>Inversion_init [ex_frag, ex_frag] ex_mol\<close> builds, of reals\<close>
  "ex_engine = \<lparr>frags = [ex_frag, ex_frag], nfrag = 2, molecule = ex_mol, nbf = 1,
     nblocks = 1, frag_energy = - 2, frag_da_nm = [[1]], frag_db_nm = [[1]],
     frag_da_r = [[1]], frag_db_r = [[1]], vp = None, ep = None\<rparr>"

definition ex2_block :: "real grid_block" where
  "ex2_block = \<lparr>gb_npoints = 2, gb_lpos = [0, 1], gb_w = [1, 1], gb_PHI = [[1, 0], [0, 1]]\<rparr>"

definition ex2_frag_a :: "real fragment" where
  "ex2_frag_a = \<lparr>f_nbf = 2, f_nalpha = 1, f_nbeta = 1, f_energy = - 1, f_Enuc = 1/4,
     f_Da = [[1/2, 0], [0, 0]], f_Db = [[1/2, 0], [0, 0]],
     f_Ca = [[1, 0], [0, 1]], f_Cb = [[1, 0], [0, 1]],
     f_eigs_a = [- 1, 1], f_eigs_b = [- 1, 1],
     f_density_da = [[1, 1/2]], f_density_db = [[1/2, 1/2]], f_Vpot = [ex2_block],
     f_orbitals = [''alpha_r'' \<mapsto> [0 \<mapsto> [[1, 2]], 1 \<mapsto> [[1, - 1]]],
                   ''beta_r'' \<mapsto> [0 \<mapsto> [[1, 2]], 1 \<mapsto> [[1, - 1]]]]\<rparr>"

definition ex2_frag_b :: "real fragment" where
  "ex2_frag_b = \<lparr>f_nbf = 2, f_nalpha = 1, f_nbeta = 1, f_energy = - 1, f_Enuc = 1/4,
     f_Da = [[0, 0], [0, 1/2]], f_Db = [[0, 0], [0, 1/2]],
     f_Ca = [[1, 1], [1, - 1]], f_Cb = [[1, 1], [1, - 1]],
     f_eigs_a = [- 2, 2], f_eigs_b = [- 2, 2],
     f_density_da = [[1, 1/2]], f_density_db = [[1/2, 1/2]], f_Vpot = [ex2_block],
     f_orbitals = [''alpha_r'' \<mapsto> [0 \<mapsto> [[1, 2]], 1 \<mapsto> [[1, - 1]]],
                   ''beta_r'' \<mapsto> [0 \<mapsto> [[1, 2]], 1 \<mapsto> [[1, - 1]]]]\<rparr>"

definition ex2_eri :: "real tensor4" where
  \<comment> \<open>a tensor with the symmetries of two-electron integrals over real orbitals\<close>
  "ex2_eri = [[[[1, 0], [0, 1/2]], [[0, 1/4], [1/4, 0]]],
              [[[0, 1/4], [1/4, 0]], [[1/2, 0], [0, 1]]]]"

definition ex2_mol :: "real molecule" where
  "ex2_mol = \<lparr>m_nbf = 2, m_nalpha = 1, m_nbeta = 1, m_energy = - 3, m_Enuc = 1/2,
     m_Da = [[1/2, 1/4], [1/4, 1/2]], m_Db = [[1/2, 1/4], [1/4, 1/2]],
     m_density_da = [[1, 2]], m_density_db = [[1/2, 1/2]],
     m_grid_w = [[1, 1]], m_Vpot = [ex2_block], m_ao_eri = ex2_eri\<rparr>"

definition ex2_engine :: "real inversion" where
  \<comment> \<open>the engine that \<open>Inversion_init [ex2_frag_a, ex2_frag_b] ex2_mol\<close> builds\<close>
  "ex2_engine = \<lparr>frags = [ex2_frag_a, ex2_frag_b], nfrag = 2, molecule = ex2_mol, nbf = 2,
     nblocks = 1, frag_energy = - 2,
     frag_da_nm = [[1/2, 0], [0, 1/2]], frag_db_nm = [[1/2, 0], [0, 1/2]],
     frag_da_r = [[2, 1]], frag_db_r = [[1, 1]], vp = None, ep = None\<rparr>"

definition scf_frozen :: "'a mat \<times> 'a mat \<Rightarrow> 'a fragment \<Rightarrow> 'a fragment" where
  \<comment> \<open>a solver that leaves the fragment as it is\<close>
  "scf_frozen v f = f"

definition pinv_const2 :: "real tensor4 \<Rightarrow> real tensor4 option" where
  \<comment> \<open>\<^verbatim>\<open>np.linalg.pinv\<close> on an array of shape (2, 2, 2, 2) whose entries are all one number
      \<open>c\<close>: each of its matrices is \<open>c\<close> times the matrix of ones, whose pseudo-inverse has
      the entries \<open>1 / (4 c)\<close>, or \<open>0\<close> for \<open>c = 0\<close>\<close>
  "pinv_const2 x = Some (map (map (map (map (\<lambda>c. if c = 0 then 0 else 1 / (4 * c))))) x)"

definition pinv_raises :: "'a tensor4 \<Rightarrow> 'a tensor4 option" where
  \<comment> \<open>a pseudo-inverse that fails, for the runs that do not take one\<close>
  "pinv_raises x = None"

definition ex2_open_engine :: "real inversion" where
  \<comment> \<open>the second system with a reference of two alpha electrons and one beta electron\<close>
  "ex2_open_engine = ex2_engine\<lparr>molecule := ex2_mol\<lparr>m_nalpha := 2\<rparr>\<rparr>"

definition ex2_frag_wide :: "real fragment" where
  \<comment> \<open>a fragment on a grid of three points, in two blocks: one point more than the grid of
      \<open>ex2_mol\<close>\<close>
  "ex2_frag_wide = ex2_frag_b\<lparr>f_Vpot := [ex2_block, ex_block],
     f_density_da := [[1, 1/2], [1/4]], f_density_db := [[1/2, 1/2], [1/4]]\<rparr>"

definition other_beta :: "real fragment \<Rightarrow> real fragment" where
  \<comment> \<open>the fragment with other beta-channel orbital data: no beta electron, no beta
      coefficients and eigenvalues, and an empty dictionary of beta orbitals\<close>
  "other_beta f = f\<lparr>f_nbeta := 0, f_Cb := [], f_eigs_b := [],
     f_orbitals := (f_orbitals f)(''beta_r'' \<mapsto> Map.empty)\<rparr>"

text \<open>
  The doubles nearest to \<open>0.1\<close> and to \<open>0.2\<close>, and two fragments of the first system with
  these densities at the one point of the grid and in the one entry of the density matrix.
\<close>

definition tenth :: binary64 where
  \<comment> \<open>\<^verbatim>\<open>0.1\<close>, the double \<open>0x3FB999999999999A\<close>\<close>
  "tenth = Finite False 3602879701896397 (- 55)"

definition fifth :: binary64 where
  \<comment> \<open>\<^verbatim>\<open>0.2\<close>, the double \<open>0x3FC999999999999A\<close>\<close>
  "fifth = Finite False 3602879701896397 (- 54)"

definition frag_tenth :: "binary64 fragment" where
  "frag_tenth = ex_frag\<lparr>f_Da := [[tenth]], f_Db := [[tenth]],
     f_density_da := [[tenth]], f_density_db := [[tenth]]\<rparr>"

definition frag_fifth :: "binary64 fragment" where
  "frag_fifth = ex_frag\<lparr>f_Da := [[fifth]], f_Db := [[fifth]],
     f_density_da := [[fifth]], f_density_db := [[fifth]]\<rparr>"

definition engine_tenth_fifth :: "binary64 inversion" where
  \<comment> \<open>the engine of the two fragments before their densities are added up\<close>
  "engine_tenth_fifth = \<lparr>frags = [frag_tenth, frag_fifth], nfrag = 2, molecule = ex_mol,
     nbf = 1, nblocks = 1, frag_energy = 0, frag_da_nm = [], frag_db_nm = [],
     frag_da_r = [], frag_db_r = [], vp = None, ep = None\<rparr>"

section \<open>Loops and arrays\<close>

declare bit_length.simps [simp del]

declare odd_part.simps [simp del]

lemma bnd_Inl [simp]: "bnd (Inl e) f = Inl e"
  by (simp add: bnd_def)

lemma bnd_Inr [simp]: "bnd (Inr x) f = f x"
  by (simp add: bnd_def)

lemma bnd_InrE:
  assumes "bnd m f = Inr r"
  obtains x where "m = Inr x" and "f x = Inr r"
  using assms by (cases m) simp_all

lemma fold_err_append:
  "fold_err body (xs @ ys) acc =
     (case fold_err body xs acc of Inl e \<Rightarrow> Inl e | Inr acc' \<Rightarrow> fold_err body ys acc')"
  by (induction xs arbitrary: acc) (auto split: sum.splits)

lemma is_square_nth: "is_square n m \<Longrightarrow> i < n \<Longrightarrow> length (m ! i) = n"
  by (simp add: is_square_def list_all_length)

lemma is_square_length: "is_square n m \<Longrightarrow> length m = n"
  by (simp add: is_square_def)

lemma square_same_shape: "is_square n a \<Longrightarrow> is_square n b \<Longrightarrow> same_shape a b"
  by (auto simp: same_shape_def is_square_def list_all_length intro!: nth_equalityI)

lemma square_map2:
  assumes "is_square n a" "is_square n b"
  shows "map2 (map2 f) a b = map (\<lambda>i. map (\<lambda>j. f (a ! i ! j) (b ! i ! j)) [0..<n]) [0..<n]"
proof (rule nth_equalityI)
  show "length (map2 (map2 f) a b) = length (map (\<lambda>i. map (\<lambda>j. f (a ! i ! j) (b ! i ! j)) [0..<n]) [0..<n])"
    using assms by (simp add: is_square_def)
next
  fix i assume "i < length (map2 (map2 f) a b)"
  then have i: "i < n" using assms by (simp add: is_square_def)
  have la: "length (a ! i) = n" and lb: "length (b ! i) = n"
    using assms i by (simp_all add: is_square_nth)
  have "map2 f (a ! i) (b ! i) = map (\<lambda>j. f (a ! i ! j) (b ! i ! j)) [0..<n]"
    by (rule nth_equalityI) (simp_all add: la lb)
  then show "map2 (map2 f) a b ! i = map (\<lambda>i. map (\<lambda>j. f (a ! i ! j) (b ! i ! j)) [0..<n]) [0..<n] ! i"
    using i assms by (simp add: is_square_def)
qed

lemma axpy_square:
  "is_square n x \<Longrightarrow> is_square n y \<Longrightarrow>
   axpy c x y = Inr (map (\<lambda>i. map (\<lambda>j. c * x ! i ! j + y ! i ! j) [0..<n]) [0..<n])"
  by (simp add: axpy_def square_same_shape square_map2)

lemma ncols_square: "is_square n m \<Longrightarrow> ncols m = n"
  by (cases m) (auto simp: ncols_def is_square_def)

lemma is_array2_square: "is_square n m \<Longrightarrow> is_array2 m"
  by (simp add: is_array2_def ncols_square) (simp add: is_square_def)

lemma broadcast_dim_same [simp]: "broadcast_dim n n = Some n"
  by (simp add: broadcast_dim_def)

lemma stretch_same: "i < d \<Longrightarrow> stretch d i = i"
  by (auto simp: stretch_def)

lemma mat_op_square:
  assumes "is_square n a" "is_square n b"
  shows "mat_op f a b = Inr (map (\<lambda>i. map (\<lambda>j. f (a ! i ! j) (b ! i ! j)) [0..<n]) [0..<n])"
proof -
  have l: "length a = n" "length b = n" "ncols a = n" "ncols b = n"
    using assms by (simp_all add: is_square_length ncols_square)
  show ?thesis
    using assms by (simp add: mat_op_def is_array2_square l stretch_same cong: map_cong)
qed

lemma mat_iop_square:
  assumes "is_square n a" "is_square n b"
  shows "mat_iop f a b = Inr (map (\<lambda>i. map (\<lambda>j. f (a ! i ! j) (b ! i ! j)) [0..<n]) [0..<n])"
proof -
  have l: "length a = n" "length b = n" "ncols a = n" "ncols b = n"
    using assms by (simp_all add: is_square_length ncols_square)
  show ?thesis
    using assms by (simp add: mat_iop_def is_array2_square l stretch_same cong: map_cong)
qed

lemma is_square_index [simp]: "is_square n (map (\<lambda>i. map (g i) [0..<n]) [0..<n])"
  by (simp add: is_square_def list_all_length)

lemma is_square_zeros [simp]: "is_square n (np_zeros2 n n)"
  by (simp add: is_square_def np_zeros2_def np_zeros_def list_all_length)

lemma zeros2_nth [simp]: "i < r \<Longrightarrow> j < c \<Longrightarrow> np_zeros2 r c ! i ! j = 0"
  by (simp add: np_zeros2_def np_zeros_def)

lemma square_index_eq:
  "is_square n m \<Longrightarrow> m = map (\<lambda>i. map (\<lambda>j. m ! i ! j) [0..<n]) [0..<n]"
  by (intro nth_equalityI) (auto simp: is_square_def list_all_length intro!: nth_equalityI)

lemma vec_op_eq:
  "length xs = n \<Longrightarrow> length ys = n \<Longrightarrow> vec_op f xs ys = Inr (map (\<lambda>p. f (xs ! p) (ys ! p)) [0..<n])"
  by (simp add: vec_op_def stretch_same cong: map_cong)

lemma vec_iop_eq:
  "length xs = n \<Longrightarrow> length ys = n \<Longrightarrow> vec_iop f xs ys = Inr (map (\<lambda>p. f (xs ! p) (ys ! p)) [0..<n])"
  by (simp add: vec_iop_def stretch_same cong: map_cong)

lemma foldl_plus_sum_list: "foldl (+) a xs = (a::'a::monoid_add) + sum_list xs"
  by (induction xs arbitrary: a) (simp_all add: add.assoc)

lemma np_sum_sum_list: "np_sum xs = (sum_list xs :: 'a::monoid_add)"
  by (simp add: np_sum_def foldl_plus_sum_list)

lemma half_real [simp]: "(half::real) = 1 / 2"
  by (simp add: half_def)

lemma dot_eq: "length a = length b \<Longrightarrow> dot a b = Inr (weighted_integral a b)"
proof -
  assume l: "length a = length b"
  have "map2 (*) a b = map (\<lambda>p. a ! p * b ! p) [0..<length a]"
    using l by (auto intro!: nth_equalityI)
  then show ?thesis using l by (simp add: dot_def weighted_integral_def np_sum_sum_list)
qed

lemma dot_Inr: "length a = length b \<Longrightarrow> \<exists>v. dot a b = Inr v"
  by (simp add: dot_def)

lemma scale_index:
  "scale c (map (\<lambda>i. map (g i) [0..<n]) [0..<n]) = map (\<lambda>i. map (\<lambda>j. c * g i j) [0..<n]) [0..<n]"
  by (simp add: scale_def comp_def)

lemma sum_list_zero_upt: "(\<And>k. k < n \<Longrightarrow> f k = (0::real)) \<Longrightarrow> (\<Sum>k\<leftarrow>[0..<n]. f k) = 0"
  by (induction n) simp_all

section \<open>Validation\<close>

lemma assert_grid_elements_first_only:
  "assert_grid_elements (f # fs) mol = assert_grid_elements [f] mol"
  by (simp add: assert_grid_elements_def)

lemma assert_grid_elements_first_mismatch:
  "m_density_da mol \<noteq> [] \<Longrightarrow> f_density_da f \<noteq> [] \<Longrightarrow>
   get_np_xyzw_len (m_Vpot mol) = Inr p \<Longrightarrow> get_np_xyzw_len (f_Vpot f) = Inr q \<Longrightarrow> p \<noteq> q \<Longrightarrow>
   Inversion_init (f # fs) mol = Inl GridMismatchError"
  by (simp add: Inversion_init_def assert_grid_elements_def)

section \<open>Aggregation\<close>

lemma nm_fold:
  assumes "\<forall>f\<in>set fs. is_square n (f_Da f) \<and> is_square n (f_Db f)"
    and "is_square n A" "is_square n B"
  shows "fold_err nm_body fs (A, B) =
     Inr (map (\<lambda>i. map (\<lambda>j. foldl (\<lambda>acc m. 1 * m ! i ! j + acc) (A ! i ! j) (map f_Da fs))
                          [0..<n]) [0..<n],
          map (\<lambda>i. map (\<lambda>j. foldl (\<lambda>acc m. 1 * m ! i ! j + acc) (B ! i ! j) (map f_Db fs))
                          [0..<n]) [0..<n])"
  using assms
proof (induction fs arbitrary: A B)
  case Nil
  show ?case
    using square_index_eq [OF Nil(2)] square_index_eq [OF Nil(3)] by simp
next
  case (Cons f fs)
  let ?A = "map (\<lambda>i. map (\<lambda>j. 1 * f_Da f ! i ! j + A ! i ! j) [0..<n]) [0..<n]"
  let ?B = "map (\<lambda>i. map (\<lambda>j. 1 * f_Db f ! i ! j + B ! i ! j) [0..<n]) [0..<n]"
  have fa: "is_square n (f_Da f)" and fb: "is_square n (f_Db f)" using Cons.prems(1) by simp_all
  have step: "nm_body f (A, B) = Inr (?A, ?B)"
    by (simp add: nm_body_def axpy_square [OF fa Cons.prems(2)] axpy_square [OF fb Cons.prems(3)])
  have rest: "\<forall>g\<in>set fs. is_square n (f_Da g) \<and> is_square n (f_Db g)" using Cons.prems(1) by simp
  show ?case
    by (simp add: step Cons.IH [OF rest is_square_index is_square_index] cong: map_cong)
qed

lemma r_fold:
  assumes "list_all (\<lambda>f. b < length (f_density_da f) \<and> length (f_density_da f ! b) = na \<and>
                          b < length (f_density_db f) \<and> length (f_density_db f ! b) = nb) fs"
    and "length A = na" "length B = nb"
  shows "fold_err (r_frag_body b) fs (A, B) =
     Inr (map (\<lambda>p. foldl (\<lambda>acc v. acc + v ! p) (A ! p) (map (\<lambda>f. f_density_da f ! b) fs)) [0..<na],
          map (\<lambda>p. foldl (\<lambda>acc v. acc + v ! p) (B ! p) (map (\<lambda>f. f_density_db f ! b) fs)) [0..<nb])"
  using assms
proof (induction fs arbitrary: A B)
  case Nil
  then show ?case by (auto intro!: nth_equalityI)
next
  case (Cons f fs)
  have step: "r_frag_body b f (A, B) =
      Inr (map (\<lambda>p. A ! p + f_density_da f ! b ! p) [0..<na],
           map (\<lambda>p. B ! p + f_density_db f ! b ! p) [0..<nb])"
    using Cons.prems by (simp add: r_frag_body_def py_index_def vec_iop_eq [of _ na] vec_iop_eq [of _ nb])
  show ?case
    using Cons.prems(1) by (simp add: step Cons.IH cong: map_cong)
qed

lemma r_block_body_eq:
  assumes "b < length (m_density_da (molecule s))" "b < length (m_density_db (molecule s))"
    and "list_all (\<lambda>f. block_fit (f_density_da f) (m_density_da (molecule s)) b \<and>
                        block_fit (f_density_db f) (m_density_db (molecule s)) b) (frags s)"
  shows "r_block_body s b (sa, sb) =
     Inr (sa @ [accumulated1 (length (m_density_da (molecule s) ! b))
                  (map (\<lambda>f. f_density_da f ! b) (frags s))],
          sb @ [accumulated1 (length (m_density_db (molecule s) ! b))
                  (map (\<lambda>f. f_density_db f ! b) (frags s))])"
proof -
  have fit: "list_all (\<lambda>f. b < length (f_density_da f) \<and>
                 length (f_density_da f ! b) = length (m_density_da (molecule s) ! b) \<and>
                 b < length (f_density_db f) \<and>
                 length (f_density_db f ! b) = length (m_density_db (molecule s) ! b)) (frags s)"
    using assms(3) by (simp add: list_all_iff block_fit_def)
  show ?thesis
    using assms(1,2)
    by (simp add: r_block_body_def py_index_def np_zeros_like_def np_zeros_def
        r_fold [OF fit] accumulated1_def cong: map_cong)
qed

lemma r_blocks_fold:
  assumes "list_all (\<lambda>b.
       b < length (m_density_da (molecule s)) \<and> b < length (m_density_db (molecule s)) \<and>
       list_all (\<lambda>f. block_fit (f_density_da f) (m_density_da (molecule s)) b \<and>
                      block_fit (f_density_db f) (m_density_db (molecule s)) b) (frags s))
       [0..<n]"
  shows "fold_err (r_block_body s) [0..<n] ([], []) =
     Inr (map (\<lambda>b. accumulated1 (length (m_density_da (molecule s) ! b))
                  (map (\<lambda>f. f_density_da f ! b) (frags s))) [0..<n],
          map (\<lambda>b. accumulated1 (length (m_density_db (molecule s) ! b))
                  (map (\<lambda>f. f_density_db f ! b) (frags s))) [0..<n])"
  using assms
proof (induction n)
  case 0
  show ?case by simp
next
  case (Suc n)
  have prev: "list_all (\<lambda>b.
       b < length (m_density_da (molecule s)) \<and> b < length (m_density_db (molecule s)) \<and>
       list_all (\<lambda>f. block_fit (f_density_da f) (m_density_da (molecule s)) b \<and>
                      block_fit (f_density_db f) (m_density_db (molecule s)) b) (frags s))
       [0..<n]"
    using Suc.prems by simp
  have last: "n < length (m_density_da (molecule s))" "n < length (m_density_db (molecule s))"
    "list_all (\<lambda>f. block_fit (f_density_da f) (m_density_da (molecule s)) n \<and>
                      block_fit (f_density_db f) (m_density_db (molecule s)) n) (frags s)"
    using Suc.prems by simp_all
  show ?case
    by (simp add: fold_err_append Suc.IH [OF prev] r_block_body_eq [OF last])
qed

lemma get_frag_densities_nm_eq:
  assumes "ao_fit s"
  shows "get_frag_densities_nm s =
           Inr (s\<lparr>frag_da_nm := accumulated2 (nbf s) (map f_Da (frags s)),
                  frag_db_nm := accumulated2 (nbf s) (map f_Db (frags s))\<rparr>)"
proof -
  have sq: "\<forall>f\<in>set (frags s). is_square (nbf s) (f_Da f) \<and> is_square (nbf s) (f_Db f)"
    using assms by (simp add: ao_fit_def list_all_iff)
  show ?thesis
    by (simp add: get_frag_densities_nm_def nm_fold [OF sq is_square_zeros is_square_zeros]
        accumulated2_def cong: map_cong)
qed

lemma get_frag_densities_r_eq:
  assumes "grid_fit s"
  shows "get_frag_densities_r s =
           Inr (s\<lparr>frag_da_r := map (\<lambda>b. accumulated1 (length (m_density_da (molecule s) ! b))
                                      (map (\<lambda>f. f_density_da f ! b) (frags s))) [0..<nblocks s],
                  frag_db_r := map (\<lambda>b. accumulated1 (length (m_density_db (molecule s) ! b))
                                      (map (\<lambda>f. f_density_db f ! b) (frags s))) [0..<nblocks s]\<rparr>)"
  using assms by (simp add: get_frag_densities_r_def grid_fit_def r_blocks_fold)

lemma foldl_axpy_sum: "foldl (\<lambda>acc m. g m + acc) a ms = (a::real) + (\<Sum>m\<leftarrow>ms. g m)"
  by (induction ms arbitrary: a) (simp_all add: algebra_simps)

lemma foldl_add_sum: "foldl (\<lambda>acc v. acc + g v) a vs = (a::real) + (\<Sum>v\<leftarrow>vs. g v)"
  by (induction vs arbitrary: a) (simp_all add: algebra_simps)

lemma accumulated2_exact: "accumulated2 n ms = elementwise_sum2 n ms"
  by (simp add: accumulated2_def elementwise_sum2_def foldl_axpy_sum)

lemma accumulated1_exact: "accumulated1 n vs = elementwise_sum1 n vs"
  by (simp add: accumulated1_def elementwise_sum1_def foldl_add_sum)

lemma is_square_accumulated2 [simp]: "is_square n (accumulated2 n ms)"
  by (simp add: accumulated2_def)

lemma length_accumulated1 [simp]: "length (accumulated1 n vs) = n"
  by (simp add: accumulated1_def)

section \<open>Residuals\<close>

lemma dd_grid_body_eq:
  assumes "block_fit (frag_da_r s) (m_density_da (molecule s)) b"
    and "block_fit (frag_db_r s) (m_density_db (molecule s)) b"
    and "block_fit (m_grid_w (molecule s)) (m_density_da (molecule s)) b"
    and "block_fit (m_grid_w (molecule s)) (m_density_db (molecule s)) b"
  shows "dd_grid_body s b (da, db, l1) =
     Inr (da @ [block_difference (frag_da_r s ! b) (m_density_da (molecule s) ! b)],
          db @ [block_difference (frag_db_r s ! b) (m_density_db (molecule s) ! b)],
          l1 + \<bar>np_sum (map2 (*) (block_difference (frag_da_r s ! b) (m_density_da (molecule s) ! b))
                  (m_grid_w (molecule s) ! b))\<bar>
             + \<bar>np_sum (map2 (*) (block_difference (frag_db_r s ! b) (m_density_db (molecule s) ! b))
                  (m_grid_w (molecule s) ! b))\<bar>)"
proof -
  have a: "vec_op (-) (frag_da_r s ! b) (m_density_da (molecule s) ! b) =
      Inr (block_difference (frag_da_r s ! b) (m_density_da (molecule s) ! b))"
    using assms(1) by (simp add: block_fit_def block_difference_def vec_op_eq)
  have b: "vec_op (-) (frag_db_r s ! b) (m_density_db (molecule s) ! b) =
      Inr (block_difference (frag_db_r s ! b) (m_density_db (molecule s) ! b))"
    using assms(2) by (simp add: block_fit_def block_difference_def vec_op_eq)
  have la: "length (block_difference (frag_da_r s ! b) (m_density_da (molecule s) ! b)) =
      length (m_grid_w (molecule s) ! b)"
    using assms(3) by (simp add: block_fit_def block_difference_def)
  have lb: "length (block_difference (frag_db_r s ! b) (m_density_db (molecule s) ! b)) =
      length (m_grid_w (molecule s) ! b)"
    using assms(4) by (simp add: block_fit_def block_difference_def)
  show ?thesis
    using assms by (simp add: dd_grid_body_def py_index_def block_fit_def a b dot_def la lb)
qed

lemma dd_grid_fold:
  assumes "list_all (\<lambda>b.
        block_fit (frag_da_r s) (m_density_da (molecule s)) b \<and>
        block_fit (frag_db_r s) (m_density_db (molecule s)) b \<and>
        block_fit (m_grid_w (molecule s)) (m_density_da (molecule s)) b \<and>
        block_fit (m_grid_w (molecule s)) (m_density_db (molecule s)) b) [0..<n]"
  shows "fold_err (dd_grid_body s) [0..<n] ([], [], 0) =
     Inr (map (\<lambda>b. block_difference (frag_da_r s ! b) (m_density_da (molecule s) ! b)) [0..<n],
          map (\<lambda>b. block_difference (frag_db_r s ! b) (m_density_db (molecule s) ! b)) [0..<n],
          foldl (\<lambda>l1 b. l1
             + \<bar>np_sum (map2 (*) (block_difference (frag_da_r s ! b) (m_density_da (molecule s) ! b))
                  (m_grid_w (molecule s) ! b))\<bar>
             + \<bar>np_sum (map2 (*) (block_difference (frag_db_r s ! b) (m_density_db (molecule s) ! b))
                  (m_grid_w (molecule s) ! b))\<bar>) 0 [0..<n])"
  using assms
proof (induction n)
  case 0
  show ?case by simp
next
  case (Suc n)
  have prev: "list_all (\<lambda>b.
        block_fit (frag_da_r s) (m_density_da (molecule s)) b \<and>
        block_fit (frag_db_r s) (m_density_db (molecule s)) b \<and>
        block_fit (m_grid_w (molecule s)) (m_density_da (molecule s)) b \<and>
        block_fit (m_grid_w (molecule s)) (m_density_db (molecule s)) b) [0..<n]"
    using Suc.prems by simp
  have last: "block_fit (frag_da_r s) (m_density_da (molecule s)) n"
        "block_fit (frag_db_r s) (m_density_db (molecule s)) n"
        "block_fit (m_grid_w (molecule s)) (m_density_da (molecule s)) n"
        "block_fit (m_grid_w (molecule s)) (m_density_db (molecule s)) n"
    using Suc.prems by simp_all
  show ?case
    by (simp add: fold_err_append Suc.IH [OF prev] dd_grid_body_eq [OF last])
qed

lemma get_delta_density_grid_fold:
  assumes "list_all (\<lambda>b.
        block_fit (frag_da_r s) (m_density_da (molecule s)) b \<and>
        block_fit (frag_db_r s) (m_density_db (molecule s)) b \<and>
        block_fit (m_grid_w (molecule s)) (m_density_da (molecule s)) b \<and>
        block_fit (m_grid_w (molecule s)) (m_density_db (molecule s)) b) [0..<nblocks s]"
  shows "get_delta_density s ''grid'' =
     Inr (Grid
       (map (\<lambda>b. block_difference (frag_da_r s ! b) (m_density_da (molecule s) ! b)) [0..<nblocks s])
       (map (\<lambda>b. block_difference (frag_db_r s ! b) (m_density_db (molecule s) ! b)) [0..<nblocks s])
       (foldl (\<lambda>l1 b. l1
             + \<bar>np_sum (map2 (*) (block_difference (frag_da_r s ! b) (m_density_da (molecule s) ! b))
                  (m_grid_w (molecule s) ! b))\<bar>
             + \<bar>np_sum (map2 (*) (block_difference (frag_db_r s ! b) (m_density_db (molecule s) ! b))
                  (m_grid_w (molecule s) ! b))\<bar>) 0 [0..<nblocks s]))"
  using assms by (simp add: get_delta_density_def dd_grid_fold)

lemma np_sum_weighted_integral:
  "length d = length w \<Longrightarrow> np_sum (map2 (*) d w) = weighted_integral d w"
proof -
  assume l: "length d = length w"
  have "map2 (*) d w = map (\<lambda>p. d ! p * w ! p) [0..<length d]"
    using l by (auto intro!: nth_equalityI)
  then show ?thesis by (simp add: weighted_integral_def np_sum_sum_list)
qed

lemma foldl_add2_sum:
  "foldl (\<lambda>l b. l + g b + h b) a bs = (a::real) + (\<Sum>b\<leftarrow>bs. g b + h b)"
  by (induction bs arbitrary: a) (simp_all add: algebra_simps)

lemma foldl_cong_set:
  "(\<And>a x. x \<in> set xs \<Longrightarrow> f a x = g a x) \<Longrightarrow> foldl f a xs = foldl g a xs"
  by (induction xs arbitrary: a) simp_all

lemma get_delta_density_grid_eq:
  fixes s :: "real inversion"
  assumes "list_all (\<lambda>b.
        block_fit (frag_da_r s) (m_density_da (molecule s)) b \<and>
        block_fit (frag_db_r s) (m_density_db (molecule s)) b \<and>
        block_fit (m_grid_w (molecule s)) (m_density_da (molecule s)) b \<and>
        block_fit (m_grid_w (molecule s)) (m_density_db (molecule s)) b) [0..<nblocks s]"
  shows "get_delta_density s ''grid'' =
     Inr (Grid
       (map (\<lambda>b. block_difference (frag_da_r s ! b) (m_density_da (molecule s) ! b)) [0..<nblocks s])
       (map (\<lambda>b. block_difference (frag_db_r s ! b) (m_density_db (molecule s) ! b)) [0..<nblocks s])
       (\<Sum>b\<leftarrow>[0..<nblocks s].
             \<bar>weighted_integral (block_difference (frag_da_r s ! b) (m_density_da (molecule s) ! b))
                  (m_grid_w (molecule s) ! b)\<bar>
           + \<bar>weighted_integral (block_difference (frag_db_r s ! b) (m_density_db (molecule s) ! b))
                  (m_grid_w (molecule s) ! b)\<bar>))"
proof -
  have w: "np_sum (map2 (*) (block_difference (frag_da_r s ! b) (m_density_da (molecule s) ! b))
                  (m_grid_w (molecule s) ! b)) =
           weighted_integral (block_difference (frag_da_r s ! b) (m_density_da (molecule s) ! b))
                  (m_grid_w (molecule s) ! b)
         \<and> np_sum (map2 (*) (block_difference (frag_db_r s ! b) (m_density_db (molecule s) ! b))
                  (m_grid_w (molecule s) ! b)) =
           weighted_integral (block_difference (frag_db_r s ! b) (m_density_db (molecule s) ! b))
                  (m_grid_w (molecule s) ! b)"
    if "b \<in> set [0..<nblocks s]" for b
  proof -
    from assms that
    have "block_fit (m_grid_w (molecule s)) (m_density_da (molecule s)) b \<and>
          block_fit (m_grid_w (molecule s)) (m_density_db (molecule s)) b"
      by (simp add: list_all_iff)
    then have "length (m_grid_w (molecule s) ! b) = length (m_density_da (molecule s) ! b)"
      "length (m_grid_w (molecule s) ! b) = length (m_density_db (molecule s) ! b)"
      by (auto simp: block_fit_def)
    then show ?thesis
      by (simp add: np_sum_weighted_integral block_difference_def)
  qed
  have "foldl (\<lambda>l1 b. l1
             + \<bar>np_sum (map2 (*) (block_difference (frag_da_r s ! b) (m_density_da (molecule s) ! b))
                  (m_grid_w (molecule s) ! b))\<bar>
             + \<bar>np_sum (map2 (*) (block_difference (frag_db_r s ! b) (m_density_db (molecule s) ! b))
                  (m_grid_w (molecule s) ! b))\<bar>) 0 [0..<nblocks s] =
        foldl (\<lambda>l1 b. l1
             + \<bar>weighted_integral (block_difference (frag_da_r s ! b) (m_density_da (molecule s) ! b))
                  (m_grid_w (molecule s) ! b)\<bar>
             + \<bar>weighted_integral (block_difference (frag_db_r s ! b) (m_density_db (molecule s) ! b))
                  (m_grid_w (molecule s) ! b)\<bar>) 0 [0..<nblocks s]"
    by (rule foldl_cong_set) (simp add: w)
  then show ?thesis
    by (simp add: get_delta_density_grid_fold [OF assms] foldl_add2_sum)
qed

lemma get_delta_density_matrix_eq:
  assumes "is_square (nbf s) (m_Da (molecule s))" "is_square (nbf s) (frag_da_nm s)"
    and "is_square (nbf s) (m_Db (molecule s))" "is_square (nbf s) (frag_db_nm s)"
  shows "get_delta_density s ''matrix'' =
     Inr (Matrix (matrix_difference (nbf s) (m_Da (molecule s)) (frag_da_nm s))
                 (matrix_difference (nbf s) (m_Db (molecule s)) (frag_db_nm s)))"
  using assms by (simp add: get_delta_density_def mat_op_square [of "nbf s"] matrix_difference_def)

section \<open>The update strategies\<close>

lemma vp_zpm_eq:
  fixes s :: "real inversion"
  assumes "is_square n a" and "is_square n b" and "is_tensor4 n (m_ao_eri (molecule s))"
  shows "vp_zpm s a b =
      Inr (coulomb_increment n (m_ao_eri (molecule s)) a, coulomb_increment n (m_ao_eri (molecule s)) b)"
  using assms
  by (simp add: vp_zpm_def contract_imlj_ml_def Let_def is_square_length scale_index
      coulomb_increment_def np_sum_sum_list)

lemma vp_zpm_square:
  assumes "is_square n a" and "is_square n b" and "is_tensor4 n (m_ao_eri (molecule s))"
  shows "\<exists>x y. vp_zpm s a b = Inr (x, y) \<and> is_square n x \<and> is_square n y"
  using assms
  by (simp add: vp_zpm_def contract_imlj_ml_def Let_def is_square_length scale_index)

lemma coulomb_increment_zero: "coulomb_increment n t (np_zeros2 n n) = np_zeros2 n n"
proof -
  have "(\<Sum>m\<leftarrow>[0..<n]. \<Sum>l\<leftarrow>[0..<n]. t ! i ! m ! l ! j * np_zeros2 n n ! m ! l) = 0" for i j
    by (intro sum_list_zero_upt) simp
  then show ?thesis
    by (auto simp: coulomb_increment_def intro!: nth_equalityI simp: np_zeros2_def np_zeros_def)
qed

lemma zc_frags_unbound:
  "m_nalpha (molecule s) \<noteq> m_nbeta (molecule s) \<Longrightarrow> fold_err (zc_frag s) fs x = Inr x"
  by (induction fs) (simp_all add: zc_frag_def)

section \<open>Zhang-Carter\<close>

lemma zc_frag_closed:
  "m_nalpha (molecule s) = m_nbeta (molecule s) \<Longrightarrow> zc_frag s f x = zc_frag s f None"
  by (simp add: zc_frag_def)

lemma zc_frag_same_orbitals:
  "same_orbitals f g \<Longrightarrow> molecule s = molecule t \<Longrightarrow> zc_frag s f x = zc_frag t g x"
  by (simp add: zc_frag_def zc_pair_def same_orbitals_def)

lemma zc_frags_last:
  assumes "m_nalpha (molecule s) = m_nbeta (molecule s)"
  shows "fold_err (zc_frag s) (fs @ [f]) x =
     (case fold_err (zc_frag s) fs x of Inl e \<Rightarrow> Inl e | Inr y \<Rightarrow> zc_frag s f None)"
proof (cases "fold_err (zc_frag s) fs x")
  case (Inl e)
  then show ?thesis by (simp add: fold_err_append)
next
  case (Inr y)
  have "fold_err (zc_frag s) [f] y = zc_frag s f None"
    using zc_frag_closed [OF assms, of f y] by (cases "zc_frag s f None") simp_all
  then show ?thesis by (simp add: fold_err_append Inr)
qed

lemma zc_frags_pass:
  "list_all (\<lambda>g. \<not> isl (zc_frag s g None)) fs \<Longrightarrow>
   m_nalpha (molecule s) = m_nbeta (molecule s) \<Longrightarrow> \<not> isl (fold_err (zc_frag s) fs x)"
proof (induction fs arbitrary: x)
  case Nil
  show ?case by simp
next
  case (Cons g fs)
  from Cons.prems have g: "\<not> isl (zc_frag s g x)"
    using zc_frag_closed [of s g x] by simp
  then obtain y where y: "zc_frag s g x = Inr y"
    by (cases "zc_frag s g x") simp_all
  show ?case
    using Cons.IH [of y] Cons.prems by (simp add: y)
qed

lemma vp_zc_frags:
  "vp_zc pinv s da db rc =
     bnd (mat_op (+) da db) (\<lambda>dd.
     bnd (fold_err (zc_frag s) (frags s) None) (\<lambda>x.
       case x of
         None \<Rightarrow> Inl (UnboundLocalError ''x'')
       | Some x \<Rightarrow>
           bnd (case pinv x of None \<Rightarrow> Inl LinAlgError | Some x_inv \<Rightarrow> Inr x_inv) (\<lambda>x_inv.
           bnd (contract_mnls_ls x_inv dd) (\<lambda>dvp.
           bnd (symmetrize dvp) (\<lambda>dvp'. Inr (dvp', dvp'))))))"
  by (simp add: vp_zc_def)

section \<open>Wu-Yang on the grid\<close>


lemma map_err_total:
  "(\<And>x. x \<in> set xs \<Longrightarrow> f x = Inr (g x)) \<Longrightarrow> map_err f xs = Inr (map g xs)"
  by (induction xs) simp_all

lemma fold_err_list_all2:
  "list_all2 (\<lambda>x y. body x = body' y) xs ys \<Longrightarrow> fold_err body xs acc = fold_err body' ys acc"
proof (induction xs ys arbitrary: acc rule: list_all2_induct)
  case Nil
  show ?case by simp
next
  case (Cons x xs y ys)
  then show ?case by (simp split: sum.splits)
qed

lemma fold_err_cong_body:
  "(\<And>x acc. body x acc = body' x acc) \<Longrightarrow> fold_err body xs acc = fold_err body' xs acc"
  by (induction xs arbitrary: acc) (simp_all split: sum.splits)

lemma wy_frag_same_alpha: "same_alpha f g \<Longrightarrow> wy_frag block npts f = wy_frag block npts g"
  by (rule ext) (auto simp: wy_frag_def same_alpha_def split: option.splits)

lemma wy_block_same_alpha:
  assumes "list_all2 same_alpha (frags s) (frags t)" and "molecule s = molecule t"
  shows "wy_block s dd block dvp = wy_block t dd block dvp"
proof -
  have "list_all2 (\<lambda>f g. wy_frag block npts f = wy_frag block npts g) (frags s) (frags t)" for npts
    using assms(1) by (rule list_all2_mono) (rule wy_frag_same_alpha)
  then have "fold_err (wy_frag block npts) (frags s) acc = fold_err (wy_frag block npts) (frags t) acc"
    for npts acc
    by (rule fold_err_list_all2)
  then show ?thesis
    by (simp add: wy_block_def assms(2))
qed

lemma vp_wy_r_same_alpha:
  assumes "list_all2 same_alpha (frags s) (frags t)" and "molecule s = molecule t"
    and "nblocks s = nblocks t"
  shows "vp_wy_r s dd_a dd_b = vp_wy_r t dd_a dd_b"
proof -
  have "fold_err (wy_block s dd) bs acc = fold_err (wy_block t dd) bs acc" for dd bs acc
    by (rule fold_err_cong_body) (rule wy_block_same_alpha [OF assms(1,2)])
  then show ?thesis
    by (simp add: vp_wy_r_def assms(2,3))
qed

section \<open>No step of an iteration raises the exception of the bound\<close>

lemma no_max_Inr [simp]: "no_max (Inr x)"
  by (simp add: no_max_def)

lemma no_max_Inl [simp]: "no_max (Inl e) = (e \<noteq> MaxIterationsExceeded)"
  by (simp add: no_max_def)

lemma no_max_bnd: "no_max m \<Longrightarrow> (\<And>x. no_max (f x)) \<Longrightarrow> no_max (bnd m f)"
  by (cases m) (simp_all add: no_max_def)

lemma no_max_fold_err: "(\<And>x a. no_max (body x a)) \<Longrightarrow> no_max (fold_err body xs acc)"
proof (induction xs arbitrary: acc)
  case Nil
  show ?case by simp
next
  case (Cons x xs)
  show ?case
    using Cons.prems [of x acc] Cons.IH [OF Cons.prems]
    by (cases "body x acc") (simp_all add: no_max_def)
qed

lemma no_max_map_err: "(\<And>x. no_max (f x)) \<Longrightarrow> no_max (map_err f xs)"
proof (induction xs)
  case Nil
  show ?case by simp
next
  case (Cons x xs)
  show ?case
    using Cons.prems [of x] Cons.IH [OF Cons.prems]
    by (cases "f x"; cases "map_err f xs") (simp_all add: no_max_def)
qed

lemma no_max_prod: "(\<And>a b. no_max (f a b)) \<Longrightarrow> no_max (case p of (a, b) \<Rightarrow> f a b)"
  by (cases p) simp

lemma no_max_py_index [simp]: "no_max (py_index xs i)"
  by (simp add: py_index_def)

lemma no_max_vec_op [simp]: "no_max (vec_op f xs ys)"
  by (simp add: vec_op_def split: option.split)

lemma no_max_vec_iop [simp]: "no_max (vec_iop f xs ys)"
  by (simp add: vec_iop_def)

lemma no_max_mat_op [simp]: "no_max (mat_op f a b)"
  by (simp add: mat_op_def split: option.split)

lemma no_max_mat_iop [simp]: "no_max (mat_iop f a b)"
  by (simp add: mat_iop_def)

lemma no_max_axpy [simp]: "no_max (axpy c x y)"
  by (simp add: axpy_def)

lemma no_max_dot [simp]: "no_max (dot a b)"
  by (simp add: dot_def)

lemma no_max_prod2: "(\<And>a b. no_max (f a b c)) \<Longrightarrow> no_max ((case p of (a, b) \<Rightarrow> f a b) c)"
  by (cases p) simp

lemmas no_max_intros = no_max_bnd no_max_fold_err no_max_map_err no_max_prod no_max_prod2

lemma no_max_get_frag_densities_nm: "no_max (get_frag_densities_nm s)"
  unfolding get_frag_densities_nm_def nm_body_def
  by (auto intro!: no_max_intros)

lemma no_max_get_frag_densities_r: "no_max (get_frag_densities_r s)"
  unfolding get_frag_densities_r_def r_block_body_def r_frag_body_def
  by (auto intro!: no_max_intros)

lemma no_max_get_delta_density: "no_max (get_delta_density s opt)"
  unfolding get_delta_density_def dd_grid_body_def
  by (auto intro!: no_max_intros)

lemma no_max_contract_imlj_ml [simp]: "no_max (contract_imlj_ml t d)"
  by (simp add: contract_imlj_ml_def Let_def)

lemma no_max_contract_mnls_ls [simp]: "no_max (contract_mnls_ls t d)"
  by (simp add: contract_mnls_ls_def Let_def)

lemma no_max_symmetrize [simp]: "no_max (symmetrize m)"
  unfolding symmetrize_def by (auto intro!: no_max_intros)

lemma no_max_vp_zpm: "no_max (vp_zpm s a b)"
  unfolding vp_zpm_def by (auto intro!: no_max_intros)

lemma no_max_zc_frag: "no_max (zc_frag s f x)"
  unfolding zc_frag_def zc_pair_def zc_term_def
  by (auto intro!: no_max_intros)

lemma no_max_vp_zc: "no_max (vp_zc pinv s a b rc)"
  unfolding vp_zc_def
  by (auto intro!: no_max_intros no_max_zc_frag split: option.split)

lemma no_max_orb_value [simp]: "no_max (orb_value orb i b r)"
  unfolding orb_value_def by (auto intro!: no_max_intros split: option.split)

lemma no_max_contract_pb [simp]: "no_max (contract_pb_p_p_pa k phi v wts)"
  by (simp add: contract_pb_p_p_pa_def)

lemma no_max_wy_frag: "no_max (wy_frag block npts f x)"
  unfolding wy_frag_def wy_pair_def wy_num_entry_def
  by (auto intro!: no_max_intros split: option.split)

lemma no_max_wy_block: "no_max (wy_block s dd b dvp)"
  unfolding wy_block_def wy_dvp_row_def gather_def Let_def
  by (auto intro!: no_max_intros no_max_wy_frag)

lemma no_max_vp_wy_r: "no_max (vp_wy_r s a b)"
  unfolding vp_wy_r_def
  by (auto intro!: no_max_intros no_max_wy_block)

lemma no_max_choose_method: "no_max (choose_method pinv s method a b c d)"
  unfolding choose_method_def vp_dd_def
  by (auto intro!: no_max_intros no_max_vp_zpm no_max_vp_zc no_max_vp_wy_r)

section \<open>The loop of the driver\<close>

lemma update_vp_None:
  "update_vp beta step dvp (s, l) = (None, s', l') \<Longrightarrow>
   vp s' = Some (vp_a l', vp_b l') \<and> l1_list l' = l1_list l \<and> ep_list l' = ep_list l \<and>
   (\<exists>va vb. axpy beta (fst dvp) (vp_a l) = Inr va \<and> axpy beta (snd dvp) (vp_b l) = Inr vb \<and>
            vp_a l' = va \<and> vp_b l' = vb)"
  by (cases dvp) (auto simp: update_vp_def split: sum.splits)

lemma update_vp_no_max: "fst (update_vp beta step dvp sl) \<noteq> Some MaxIterationsExceeded"
proof -
  obtain s l where sl: "sl = (s, l)" by (cases sl)
  obtain a b where dvp: "dvp = (a, b)" by (cases dvp)
  show ?thesis
    using no_max_axpy [of beta a "vp_a l"] no_max_axpy [of beta b "vp_b l"]
    by (auto simp: sl dvp update_vp_def no_max_def split: sum.splits)
qed

lemma vp_increment_no_max:
  fixes sl :: "'a::{zero,one,plus,minus,uminus,times,inverse,abs} inversion \<times> 'a locals"
  shows "fst (vp_increment scf pinv method sl) \<noteq> Inl MaxIterationsExceeded"
proof -
  obtain s l where sl: "sl = (s, l)" by (cases sl)
  show ?thesis
    unfolding sl vp_increment_def Let_def
    using no_max_get_frag_densities_r [where ?'a = 'a] no_max_get_frag_densities_nm [where ?'a = 'a]
      no_max_get_delta_density [where ?'a = 'a] no_max_choose_method [where ?'a = 'a]
    by (auto simp: no_max_def split: sum.splits delta_density.splits option.splits)
qed

lemma vp_increment_Inr:
  "vp_increment scf pinv method (s, l) = (Inr dvp, s', l') \<Longrightarrow>
   vp s' = vp s \<and> vp_a l' = vp_a l \<and> vp_b l' = vp_b l \<and>
   length (l1_list l') = Suc (length (l1_list l)) \<and>
   length (ep_list l') = Suc (length (ep_list l))"
  unfolding vp_increment_def Let_def
  by (auto simp: get_frag_energies_def get_ep_def get_frag_densities_r_def
      get_frag_densities_nm_def
      split: sum.splits delta_density.splits option.splits prod.splits elim!: bnd_InrE)

lemma vp_iteration_no_max:
  fixes sl :: "'a::{zero,one,plus,minus,uminus,times,inverse,abs} inversion \<times> 'a locals"
  shows "fst (vp_iteration scf pinv method beta step sl) \<noteq> Some MaxIterationsExceeded"
  using vp_increment_no_max [of scf pinv "method" sl] update_vp_no_max [where ?'a = 'a]
  by (auto simp: vp_iteration_def split: prod.splits sum.splits)

lemma vp_iteration_None:
  "vp_iteration scf pinv method beta step (s, l) = (None, s', l') \<Longrightarrow>
   vp s' = Some (vp_a l', vp_b l') \<and> length (l1_list l') = Suc (length (l1_list l)) \<and>
   length (ep_list l') = Suc (length (ep_list l))"
  unfolding vp_iteration_def
  by (auto split: sum.splits prod.splits dest!: update_vp_None vp_increment_Inr)

lemma iterations_no_max:
  "fst (iterations scf pinv method beta k n sl) \<noteq> Some MaxIterationsExceeded"
proof (induction n arbitrary: k sl)
  case 0
  show ?case by simp
next
  case (Suc n)
  show ?case
    using vp_iteration_no_max [of scf pinv "method" beta "int k" sl] Suc.IH
    by (cases "vp_iteration scf pinv method beta (int k) sl") (auto split: option.splits)
qed

lemma iterations_None:
  "iterations scf pinv method beta k n (s, l) = (None, s', l') \<Longrightarrow>
   length (l1_list l') = length (l1_list l) + n \<and>
   length (ep_list l') = length (ep_list l) + n \<and>
   (0 < n \<longrightarrow> vp s' = Some (vp_a l', vp_b l'))"
proof (induction n arbitrary: k s l)
  case 0
  then show ?case by simp
next
  case (Suc n)
  obtain r s1 l1 where it: "vp_iteration scf pinv method beta (int k) (s, l) = (r, s1, l1)"
    by (cases "vp_iteration scf pinv method beta (int k) (s, l)") auto
  from Suc.prems it have r: "r = None"
    by (cases r) simp_all
  from Suc.prems it r
  have rest: "iterations scf pinv method beta (Suc k) n (s1, l1) = (None, s', l')"
    by simp
  from it r have one: "vp s1 = Some (vp_a l1, vp_b l1)"
      "length (l1_list l1) = Suc (length (l1_list l))"
      "length (ep_list l1) = Suc (length (ep_list l))"
    using vp_iteration_None [of scf pinv "method" beta "int k" s l s1 l1] by simp_all
  show ?case
  proof (cases n)
    case 0
    with rest one show ?thesis by simp
  next
    case (Suc n')
    with Suc.IH [OF rest] one show ?thesis by simp
  qed
qed

lemma vp_loop_iterations:
  "k \<le> m \<Longrightarrow>
   vp_loop scf pinv method beta (int m) [int k..int m] sl =
     (case iterations scf pinv method beta k (Suc m - k) sl of
        (None, sl') \<Rightarrow> (Raised MaxIterationsExceeded, sl')
      | (Some e, sl') \<Rightarrow> (Raised e, sl'))"
proof (induction "m - k" arbitrary: k sl)
  case 0
  then have km: "k = m" by simp
  have l: "[int m..int m] = [int m]" by (simp add: upto_rec1)
  show ?case
    by (simp add: km l split: prod.splits option.splits)
next
  case (Suc d)
  then have lt: "k < m" and d: "d = m - Suc k" by simp_all
  have l: "[int k..int m] = int k # [int (Suc k)..int m]"
    using lt by (simp add: upto_rec1 [of "int k"] add.commute)
  have n: "Suc m - k = Suc (Suc m - Suc k)" using lt by simp
  have ih: "vp_loop scf pinv method beta (int m) [1 + int k..int m] sl' =
     (case iterations scf pinv method beta (Suc k) (m - k) sl' of
        (None, sl'') \<Rightarrow> (Raised MaxIterationsExceeded, sl'')
      | (Some e, sl'') \<Rightarrow> (Raised e, sl''))" for sl'
    using Suc.hyps(1) [OF d, of sl'] lt by simp
  show ?case
    unfolding l n using lt
    by (simp add: ih split: prod.splits option.splits)
qed

section \<open>The Wu-Yang increment, entry by entry\<close>


lemma orb_value_fit:
  "orb i = Some bs \<Longrightarrow> block < length bs \<Longrightarrow> r < length (bs ! block) \<Longrightarrow>
   orb_value orb i block r = Inr (the (orb i) ! block ! r)"
  by (simp add: orb_value_def py_index_def)

lemma orb_value_orb_fit:
  "orb_fit orb block npts i \<Longrightarrow> r < npts \<Longrightarrow>
   orb_value orb i block r = Inr (the (orb i) ! block ! r)"
  by (auto simp: orb_fit_def orb_value_def py_index_def split: option.splits)

lemma wy_pair_eq:
  assumes "orb_fit orb block npts i" "orb_fit orb block npts a"
    and "i < length eigs" "a < length eigs" and "is_square npts x"
  shows "wy_pair orb eigs block npts (i, a) x =
     Inr (map (\<lambda>r1. map (\<lambda>r2. x ! r1 ! r2
            + (the (orb i) ! block ! r1 * the (orb a) ! block ! r1
               * the (orb a) ! block ! r2 * the (orb i) ! block ! r2) / (eigs ! i - eigs ! a))
          [0..<npts]) [0..<npts])"
proof -
  let ?num = "map (\<lambda>r1. map (\<lambda>r2. the (orb i) ! block ! r1 * the (orb a) ! block ! r1
               * the (orb a) ! block ! r2 * the (orb i) ! block ! r2) [0..<npts]) [0..<npts]"
  have e: "wy_num_entry orb i a block r1 r2 =
      Inr (the (orb i) ! block ! r1 * the (orb a) ! block ! r1
               * the (orb a) ! block ! r2 * the (orb i) ! block ! r2)"
    if "r1 < npts" "r2 < npts" for r1 r2
    using that assms(1,2) by (simp add: wy_num_entry_def orb_value_orb_fit)
  have row: "map_err (wy_num_entry orb i a block r1) [0..<npts] =
      Inr (map (\<lambda>r2. the (orb i) ! block ! r1 * the (orb a) ! block ! r1
               * the (orb a) ! block ! r2 * the (orb i) ! block ! r2) [0..<npts])"
    if "r1 < npts" for r1
    by (rule map_err_total) (simp add: e that)
  have num: "map_err (\<lambda>r1. map_err (wy_num_entry orb i a block r1) [0..<npts]) [0..<npts] = Inr ?num"
    by (rule map_err_total) (simp add: row)
  have d: "mat_div ?num (eigs ! i - eigs ! a) =
      map (\<lambda>r1. map (\<lambda>r2. (the (orb i) ! block ! r1 * the (orb a) ! block ! r1
               * the (orb a) ! block ! r2 * the (orb i) ! block ! r2) / (eigs ! i - eigs ! a))
          [0..<npts]) [0..<npts]"
    by (simp add: mat_div_def comp_def)
  show ?thesis
    using assms(3,4)
    by (simp add: wy_pair_def py_index_def num d mat_iop_square [OF assms(5) is_square_index]
        cong: map_cong)
qed

lemma wy_pairs_fold:
  assumes "\<forall>(i, a)\<in>set ps. orb_fit orb block npts i \<and> orb_fit orb block npts a \<and>
             i < length eigs \<and> a < length eigs"
    and "is_square npts x"
  shows "fold_err (wy_pair orb eigs block npts) ps x =
     Inr (map (\<lambda>r1. map (\<lambda>r2.
            foldl (\<lambda>acc (i, a). acc
              + (the (orb i) ! block ! r1 * the (orb a) ! block ! r1
                 * the (orb a) ! block ! r2 * the (orb i) ! block ! r2) / (eigs ! i - eigs ! a))
              (x ! r1 ! r2) ps)
          [0..<npts]) [0..<npts])"
  using assms
proof (induction ps arbitrary: x)
  case Nil
  show ?case using square_index_eq [OF Nil(2)] by simp
next
  case (Cons p ps)
  obtain i a where p: "p = (i, a)" by (cases p)
  from Cons.prems(1) have fit: "orb_fit orb block npts i" "orb_fit orb block npts a"
      "i < length eigs" "a < length eigs"
    and rest: "\<forall>(i, a)\<in>set ps. orb_fit orb block npts i \<and> orb_fit orb block npts a \<and>
             i < length eigs \<and> a < length eigs"
    by (simp_all add: p)
  show ?case
    by (simp add: p wy_pair_eq [OF fit Cons.prems(2)] Cons.IH [OF rest is_square_index]
        cong: map_cong)
qed

lemma orbitals_fit_pairs:
  assumes "orbitals_fit f block npts"
  shows "\<exists>orb. f_orbitals f ''alpha_r'' = Some orb \<and> f_orbitals f ''beta_r'' \<noteq> None \<and>
     (\<forall>(i, a)\<in>set (List.product [0..<f_nalpha f] [f_nalpha f..<f_nbf f]).
        orb_fit orb block npts i \<and> orb_fit orb block npts a \<and>
        i < length (f_eigs_a f) \<and> a < length (f_eigs_a f))"
proof -
  from assms obtain orb where orb: "f_orbitals f ''alpha_r'' = Some orb"
    and b: "f_orbitals f ''beta_r'' \<noteq> None"
    and c: "f_nalpha f < f_nbf f \<and> 0 < f_nalpha f \<longrightarrow>
              f_nbf f \<le> length (f_eigs_a f) \<and> list_all (orb_fit orb block npts) [0..<f_nbf f]"
    by (auto simp: orbitals_fit_def split: option.splits)
  have "orb_fit orb block npts i \<and> orb_fit orb block npts a \<and>
        i < length (f_eigs_a f) \<and> a < length (f_eigs_a f)"
    if "i < f_nalpha f" "f_nalpha f \<le> a" "a < f_nbf f" for i a
    using c that by (auto simp: list_all_iff)
  then show ?thesis
    using orb b by auto
qed

lemma wy_frag_eq:
  assumes "orbitals_fit f block npts" and "is_square npts x"
  shows "wy_frag block npts f x =
     Inr (map (\<lambda>r1. map (\<lambda>r2.
            foldl (\<lambda>acc (i, a). acc + alpha_term f block r1 r2 i a) (x ! r1 ! r2)
              (List.product [0..<f_nalpha f] [f_nalpha f..<f_nbf f]))
          [0..<npts]) [0..<npts])"
proof -
  from orbitals_fit_pairs [OF assms(1)] obtain orb b
    where orb: "f_orbitals f ''alpha_r'' = Some orb" and b: "f_orbitals f ''beta_r'' = Some b"
    and fit: "\<forall>(i, a)\<in>set (List.product [0..<f_nalpha f] [f_nalpha f..<f_nbf f]).
        orb_fit orb block npts i \<and> orb_fit orb block npts a \<and>
        i < length (f_eigs_a f) \<and> a < length (f_eigs_a f)"
    by auto
  show ?thesis
    by (simp add: wy_frag_def orb b wy_pairs_fold [OF fit assms(2)] alpha_term_def
        alpha_orbital_def)
qed

lemma wy_frags_fold:
  assumes "list_all (\<lambda>f. orbitals_fit f block npts) fs" and "is_square npts x"
  shows "fold_err (wy_frag block npts) fs x =
     Inr (map (\<lambda>r1. map (\<lambda>r2.
            foldl (\<lambda>acc f.
               foldl (\<lambda>acc (i, a). acc + alpha_term f block r1 r2 i a) acc
                 (List.product [0..<f_nalpha f] [f_nalpha f..<f_nbf f]))
              (x ! r1 ! r2) fs)
          [0..<npts]) [0..<npts])"
  using assms
proof (induction fs arbitrary: x)
  case Nil
  show ?case using square_index_eq [OF Nil(2)] by simp
next
  case (Cons f fs)
  from Cons.prems(1) have f: "orbitals_fit f block npts"
    and rest: "list_all (\<lambda>f. orbitals_fit f block npts) fs"
    by simp_all
  show ?case
    by (simp add: wy_frag_eq [OF f Cons.prems(2)] Cons.IH [OF rest is_square_index]
        cong: map_cong)
qed

lemma wy_kernel_eq:
  assumes "list_all (\<lambda>f. orbitals_fit f block npts) (frags s)"
  shows "fold_err (wy_frag block npts) (frags s) (np_zeros2 npts npts) =
     Inr (map (\<lambda>r1. map (\<lambda>r2. alpha_kernel s block r1 r2) [0..<npts]) [0..<npts])"
  by (simp add: wy_frags_fold [OF assms is_square_zeros] alpha_kernel_def cong: map_cong)


lemma wy_dvp_row_eq:
  assumes "is_square npts x" and "block < length dd" and "length (dd ! block) = npts"
    and "length w = npts" and "r1 < npts" and "length acc = npts"
  shows "wy_dvp_row x dd block w r1 acc =
     Inr (map (\<lambda>p. acc ! p + 1 / (x ! r1 ! p + x ! r1 ! p) * dd ! block ! p * w ! p) [0..<npts])"
proof -
  have lx: "length x = npts" and lr: "length (x ! r1) = npts"
    using assms(1,5) by (simp_all add: is_square_def list_all_length)
  have t: "vec_op (*) (map (\<lambda>v. 1 / (v + v)) (x ! r1)) (dd ! block) =
      Inr (map (\<lambda>p. 1 / (x ! r1 ! p + x ! r1 ! p) * dd ! block ! p) [0..<npts])"
    using vec_op_eq [of "map (\<lambda>v. 1 / (v + v)) (x ! r1)" npts "dd ! block" "(*)"] lr assms(3)
    by (simp cong: map_cong)
  have u: "vec_op (*) (map (\<lambda>p. 1 / (x ! r1 ! p + x ! r1 ! p) * dd ! block ! p) [0..<npts]) w =
      Inr (map (\<lambda>p. 1 / (x ! r1 ! p + x ! r1 ! p) * dd ! block ! p * w ! p) [0..<npts])"
    using vec_op_eq [of "map (\<lambda>p. 1 / (x ! r1 ! p + x ! r1 ! p) * dd ! block ! p) [0..<npts]"
        npts w "(*)"] assms(4)
    by (simp cong: map_cong)
  have v: "vec_iop (+) acc (map (\<lambda>p. 1 / (x ! r1 ! p + x ! r1 ! p) * dd ! block ! p * w ! p) [0..<npts]) =
      Inr (map (\<lambda>p. acc ! p + 1 / (x ! r1 ! p + x ! r1 ! p) * dd ! block ! p * w ! p) [0..<npts])"
    using vec_iop_eq [of acc npts
        "map (\<lambda>p. 1 / (x ! r1 ! p + x ! r1 ! p) * dd ! block ! p * w ! p) [0..<npts]" "(+)"] assms(6)
    by (simp cong: map_cong)
  show ?thesis
    using assms(2,5) lx by (simp add: wy_dvp_row_def py_index_def t u v)
qed

lemma wy_dvp_rows_eq:
  assumes "is_square npts x" and "block < length dd" and "length (dd ! block) = npts"
    and "length w = npts" and "length acc = npts"
  shows "m \<le> npts \<Longrightarrow>
     fold_err (wy_dvp_row x dd block w) [0..<m] acc =
     Inr (map (\<lambda>p. foldl (\<lambda>acc r1. acc + 1 / (x ! r1 ! p + x ! r1 ! p) * dd ! block ! p * w ! p)
                       (acc ! p) [0..<m]) [0..<npts])"
proof (induction m)
  case 0
  show ?case using assms(5) by (auto intro!: nth_equalityI)
next
  case (Suc m)
  then have m: "m < npts" "m \<le> npts" by simp_all
  show ?case
    by (simp add: fold_err_append Suc.IH [OF m(2)]
        wy_dvp_row_eq [OF assms(1-4) m(1)] cong: map_cong)
qed

lemma map_by_index: "map f xs = map (\<lambda>a. f (xs ! a)) [0..<length xs]"
  by (rule nth_equalityI) simp_all

lemma gather_eq:
  assumes "is_square n dvp" and "list_all (\<lambda>i. i < n) lpos"
  shows "gather dvp lpos =
     Inr (map (\<lambda>a. map (\<lambda>b. dvp ! (lpos ! a) ! (lpos ! b)) [0..<length lpos]) [0..<length lpos])"
proof -
  have row: "map_err (py_index (dvp ! i)) lpos = Inr (map (\<lambda>j. dvp ! i ! j) lpos)"
    if "i < n" for i
    using assms that
    by (intro map_err_total) (simp add: py_index_def is_square_def list_all_iff list_all_length)
  have "gather dvp lpos = Inr (map (\<lambda>i. map (\<lambda>j. dvp ! i ! j) lpos) lpos)"
    unfolding gather_def using assms
    by (intro map_err_total) (simp add: py_index_def is_square_def list_all_iff row)
  also have "map (\<lambda>i. map (\<lambda>j. dvp ! i ! j) lpos) lpos =
      map (\<lambda>a. map (\<lambda>b. dvp ! (lpos ! a) ! (lpos ! b)) [0..<length lpos]) [0..<length lpos]"
    by (subst map_by_index) (simp add: map_by_index [of _ lpos, symmetric])
  finally show ?thesis .
qed

lemma transpose_np_square:
  "is_square n m \<Longrightarrow> transpose_np m = map (\<lambda>j. map (\<lambda>i. m ! i ! j) [0..<n]) [0..<n]"
  by (simp add: transpose_np_def ncols_square is_square_length)

lemma symmetrize_square:
  assumes "is_square n m"
  shows "symmetrize m = Inr (map (\<lambda>a. map (\<lambda>b. half * (m ! a ! b + m ! b ! a)) [0..<n]) [0..<n])"
  by (simp add: symmetrize_def transpose_np_square [OF assms]
      mat_op_square [OF assms is_square_index] scale_index cong: map_cong)


section \<open>Writes at the positions of a block\<close>

lemma symmetric_iff:
  "symmetric m \<longleftrightarrow>
     is_square (length m) m \<and> (\<forall>i<length m. \<forall>j<length m. m ! i ! j = m ! j ! i)"
  by (simp add: symmetric_def list_all_iff Ball_def)

lemma find_append_eq:
  "find P (xs @ ys) = (case find P xs of None \<Rightarrow> find P ys | Some x \<Rightarrow> Some x)"
  by (induction xs) simp_all

lemma find_map_Pair:
  "find (\<lambda>(a, b). P a \<and> Q b) (map (Pair x) ys) =
     (if P x then map_option (Pair x) (find Q ys) else None)"
  by (induction ys) simp_all

lemma find_product:
  "find (\<lambda>(a, b). P a \<and> Q b) (List.product xs ys) =
     (case find P xs of
        None \<Rightarrow> None
      | Some a \<Rightarrow> (case find Q ys of None \<Rightarrow> None | Some b \<Rightarrow> Some (a, b)))"
proof (induction xs)
  case Nil
  show ?case by simp
next
  case (Cons x xs)
  show ?case
    by (simp add: find_append_eq find_map_Pair Cons.IH split: option.splits)
qed

lemma product_append: "List.product (xs @ zs) ys = List.product xs ys @ List.product zs ys"
  by (induction xs) simp_all

lemma rev_product: "rev (List.product xs ys) = List.product (rev xs) (rev ys)"
  by (induction xs) (simp_all add: product_append rev_map)

lemma nth_update2:
  "i < length m \<Longrightarrow> j < length (m ! i) \<Longrightarrow>
   m[i := (m ! i)[j := v]] ! p ! q = (if p = i \<and> q = j then v else m ! p ! q)"
  by (cases "p = i") (simp_all add: nth_list_update)

lemma is_square_update2:
  "is_square n m \<Longrightarrow> is_square n (m[i := (m ! i)[j := v]])"
proof (cases "i < length m")
  case True
  assume "is_square n m"
  then show ?thesis
    using True by (auto simp: is_square_def list_all_length nth_list_update)
next
  case False
  assume "is_square n m"
  then show ?thesis
    using False by (simp add: list_update_beyond)
qed

lemma writes_nth:
  assumes "is_square n m" and "\<forall>(a, b)\<in>set ps. f a < n \<and> f b < n"
  shows "is_square n (foldl (\<lambda>m (a, b). m[f a := (m ! f a)[f b := t a b]]) m ps) \<and>
     (\<forall>p q. foldl (\<lambda>m (a, b). m[f a := (m ! f a)[f b := t a b]]) m ps ! p ! q =
        (case find (\<lambda>(a, b). f a = p \<and> f b = q) (rev ps) of
           None \<Rightarrow> m ! p ! q
         | Some (a, b) \<Rightarrow> t a b))"
  using assms(2)
proof (induction ps rule: rev_induct)
  case Nil
  show ?case using assms(1) by simp
next
  case (snoc x ps)
  obtain a b where x: "x = (a, b)" by (cases x)
  let ?m = "foldl (\<lambda>m (a, b). m[f a := (m ! f a)[f b := t a b]]) m ps"
  from snoc.prems have ab: "f a < n" "f b < n" and rest: "\<forall>(a, b)\<in>set ps. f a < n \<and> f b < n"
    by (simp_all add: x)
  from snoc.IH [OF rest] have sq: "is_square n ?m"
    and nth: "\<And>p q. ?m ! p ! q =
        (case find (\<lambda>(a, b). f a = p \<and> f b = q) (rev ps) of
           None \<Rightarrow> m ! p ! q
         | Some (a, b) \<Rightarrow> t a b)"
    by simp_all
  have la: "f a < length ?m" and lb: "f b < length (?m ! f a)"
    using sq ab by (simp_all add: is_square_def list_all_length)
  show ?case
    using is_square_update2 [OF sq] nth by (simp add: x nth_update2 [OF la lb])
qed

lemma scatter_nth:
  assumes "is_square n dvp" and "list_all (\<lambda>i. i < n) lpos"
  shows "is_square n (scatter dvp lpos t) \<and>
     (\<forall>p q. scatter dvp lpos t ! p ! q =
        (case find (\<lambda>a. lpos ! a = p) (rev [0..<length lpos]) of
           None \<Rightarrow> dvp ! p ! q
         | Some a \<Rightarrow>
            (case find (\<lambda>b. lpos ! b = q) (rev [0..<length lpos]) of
               None \<Rightarrow> dvp ! p ! q
             | Some b \<Rightarrow> t ! a ! b)))"
proof -
  have inb: "\<forall>(a, b)\<in>set (List.product [0..<length lpos] [0..<length lpos]).
      lpos ! a < n \<and> lpos ! b < n"
    using assms(2) by (auto simp: list_all_length)
  from writes_nth [OF assms(1) inb, of "\<lambda>a b. t ! a ! b"]
  show ?thesis
    unfolding scatter_def rev_product find_product
    by (auto split: option.splits)
qed




section \<open>One block of Wu-Yang\<close>


lemma wy_block_eq:
  assumes fit: "wy_block_fit s dd block" and blk: "block < length (m_Vpot (molecule s))"
    and sq: "is_square (length (m_Da (molecule s))) dvp"
    and dd': "block < length dd'" "dd' ! block = dd ! block"
  shows "wy_block s dd' block dvp = Inr (wy_block_increment s dd block dvp)"
proof -
  define gb where "gb = m_Vpot (molecule s) ! block"
  define npts where "npts = gb_npoints gb"
  define lpos where "lpos = gb_lpos gb"
  define w where "w = gb_w gb"
  define PHI where "PHI = gb_PHI gb"
  define L where "L = length lpos"
  define phi where "phi = map (take L) (take npts PHI)"
  define x where "x = map (\<lambda>r1. map (\<lambda>r2. alpha_kernel s block r1 r2) [0..<npts]) [0..<npts]"
  define v where "v = map (\<lambda>p. wy_grid_increment s dd block p) [0..<npts]"
  define vtmp where "vtmp = map (\<lambda>a. map (\<lambda>b. wy_projection s dd block a b) [0..<L]) [0..<L]"
  from fit have lw: "length w = npts" and lphi: "npts \<le> length PHI"
    and rows: "list_all (\<lambda>row. L \<le> length row) (take npts PHI)"
    and inb: "list_all (\<lambda>i. i < length (m_Da (molecule s))) lpos"
    and bd: "block < length dd" and ld: "length (dd ! block) = npts"
    and orb: "list_all (\<lambda>f. orbitals_fit f block npts) (frags s)"
    by (simp_all add: wy_block_fit_def Let_def gb_def npts_def lpos_def w_def PHI_def L_def)
  have xa: "fold_err (wy_frag block npts) (frags s) (np_zeros2 npts npts) = Inr x"
    unfolding x_def by (rule wy_kernel_eq [OF orb])
  have xs: "is_square npts x" by (simp add: x_def)
  have ld': "length (dd' ! block) = npts" using dd' ld by simp
  have "fold_err (wy_dvp_row x dd' block w) [0..<npts] (np_zeros npts) =
      Inr (map (\<lambda>p. foldl (\<lambda>acc r1. acc + 1 / (x ! r1 ! p + x ! r1 ! p) * dd' ! block ! p * w ! p)
                       (np_zeros npts ! p) [0..<npts]) [0..<npts])"
    by (rule wy_dvp_rows_eq [OF xs dd'(1) ld' lw]) (simp_all add: np_zeros_def)
  also have "map (\<lambda>p. foldl (\<lambda>acc r1. acc + 1 / (x ! r1 ! p + x ! r1 ! p) * dd' ! block ! p * w ! p)
                       (np_zeros npts ! p) [0..<npts]) [0..<npts] = v"
  proof -
    have "foldl (\<lambda>acc r1. acc + 1 / (x ! r1 ! p + x ! r1 ! p) * dd' ! block ! p * w ! p)
                       (np_zeros npts ! p) [0..<npts] = wy_grid_increment s dd block p"
      if "p < npts" for p
    proof -
      have z: "np_zeros npts ! p = (0::'a)" using that by (simp add: np_zeros_def)
      show ?thesis
        unfolding wy_grid_increment_def gb_def [symmetric] npts_def [symmetric] w_def [symmetric] z
        by (rule foldl_cong_set) (simp add: x_def that dd')
    qed
    then show ?thesis by (simp add: v_def)
  qed
  finally have va: "fold_err (wy_dvp_row x dd' block w) [0..<npts] (np_zeros npts) = Inr v" .
  have lv: "length v = npts" by (simp add: v_def)
  have pl: "length phi = npts" using lphi by (simp add: phi_def)
  have pr: "list_all (\<lambda>row. length row = L) phi"
    using rows by (auto simp: phi_def list_all_iff)
  have pk: "(case phi of [] \<Rightarrow> length (gb_lpos gb) | row # _ \<Rightarrow> length row) = L"
    using pr by (cases phi) (simp_all add: L_def lpos_def)
  have pe: "phi ! p ! b = PHI ! p ! b" if "p < npts" "b < L" for p b
    using that lphi by (simp add: phi_def)
  have "contract_pb_p_p_pa L phi v w =
      Inr (map (\<lambda>a. map (\<lambda>b. np_sum (map (\<lambda>p. phi ! p ! b * v ! p * w ! p * phi ! p ! a) [0..<npts]))
                          [0..<L]) [0..<L])"
    using pl pr lw lv by (simp add: contract_pb_p_p_pa_def)
  also have "map (\<lambda>a. map (\<lambda>b. np_sum (map (\<lambda>p. phi ! p ! b * v ! p * w ! p * phi ! p ! a) [0..<npts]))
                          [0..<L]) [0..<L] = vtmp"
  proof -
    have "np_sum (map (\<lambda>p. phi ! p ! b * v ! p * w ! p * phi ! p ! a) [0..<npts]) =
        wy_projection s dd block a b"
      if "a < L" "b < L" for a b
      unfolding wy_projection_def gb_def [symmetric] npts_def [symmetric] w_def [symmetric]
        PHI_def [symmetric]
      by (rule arg_cong [of _ _ np_sum], rule map_cong [OF refl]) (simp add: pe v_def that)
    then show ?thesis by (simp add: vtmp_def)
  qed
  finally have vt: "contract_pb_p_p_pa L phi v w = Inr vtmp" .
  have vs: "is_square L vtmp" by (simp add: vtmp_def)
  have g: "gather dvp lpos =
      Inr (map (\<lambda>a. map (\<lambda>b. dvp ! (lpos ! a) ! (lpos ! b)) [0..<L]) [0..<L])"
    unfolding L_def by (rule gather_eq [OF sq inb])
  have sy: "symmetrize vtmp =
      Inr (map (\<lambda>a. map (\<lambda>b. half * (vtmp ! a ! b + vtmp ! b ! a)) [0..<L]) [0..<L])"
    by (rule symmetrize_square [OF vs])
  have ad: "mat_iop (+) (map (\<lambda>a. map (\<lambda>b. dvp ! (lpos ! a) ! (lpos ! b)) [0..<L]) [0..<L])
        (map (\<lambda>a. map (\<lambda>b. half * (vtmp ! a ! b + vtmp ! b ! a)) [0..<L]) [0..<L]) =
      Inr (map (\<lambda>a. map (\<lambda>b. dvp ! (lpos ! a) ! (lpos ! b)
                            + half * (wy_projection s dd block a b + wy_projection s dd block b a))
                        [0..<L]) [0..<L])"
    by (simp add: mat_iop_square [OF is_square_index is_square_index] vtmp_def cong: map_cong)
  show ?thesis
    using blk
    by (simp add: wy_block_def py_index_def Let_def gb_def [symmetric] npts_def [symmetric]
        lpos_def [symmetric] w_def [symmetric] PHI_def [symmetric] L_def [symmetric]
        phi_def [symmetric] xa va pk vt g sy ad wy_block_increment_def)
qed


section \<open>The increment of Wu-Yang\<close>


lemma wy_block_increment_square:
  assumes "is_square n dvp"
    and "list_all (\<lambda>i. i < n) (gb_lpos (m_Vpot (molecule s) ! block))"
  shows "is_square n (wy_block_increment s dd block dvp)"
  using scatter_nth [OF assms] by (simp add: wy_block_increment_def Let_def)

lemma wy_blocks_fold:
  assumes "\<forall>block<k. wy_block_fit s dd block \<and> block < length (m_Vpot (molecule s)) \<and>
             block < length dd' \<and> dd' ! block = dd ! block"
    and "is_square (length (m_Da (molecule s))) dvp"
  shows "fold_err (wy_block s dd') [0..<k] dvp =
           Inr (foldl (\<lambda>dvp block. wy_block_increment s dd block dvp) dvp [0..<k])
       \<and> is_square (length (m_Da (molecule s)))
           (foldl (\<lambda>dvp block. wy_block_increment s dd block dvp) dvp [0..<k])"
  using assms(1)
proof (induction k)
  case 0
  show ?case using assms(2) by simp
next
  case (Suc k)
  let ?acc = "foldl (\<lambda>dvp block. wy_block_increment s dd block dvp) dvp [0..<k]"
  from Suc.prems have prev: "\<forall>block<k. wy_block_fit s dd block \<and>
         block < length (m_Vpot (molecule s)) \<and> block < length dd' \<and> dd' ! block = dd ! block"
    and fit: "wy_block_fit s dd k" and blk: "k < length (m_Vpot (molecule s))"
    and d: "k < length dd'" "dd' ! k = dd ! k"
    by simp_all
  from Suc.IH [OF prev] have f: "fold_err (wy_block s dd') [0..<k] dvp = Inr ?acc"
    and sq: "is_square (length (m_Da (molecule s))) ?acc"
    by simp_all
  have inb: "list_all (\<lambda>i. i < length (m_Da (molecule s))) (gb_lpos (m_Vpot (molecule s) ! k))"
    using fit by (simp add: wy_block_fit_def Let_def)
  show ?case
    using wy_block_increment_square [OF sq inb, of dd]
    by (simp add: fold_err_append f wy_block_eq [OF fit blk sq d])
qed

lemma zeros_like2_square: "is_square n m \<Longrightarrow> np_zeros_like2 m = np_zeros2 n n"
  by (auto simp: np_zeros_like2_def np_zeros_like_def np_zeros2_def is_square_def list_all_length
      intro!: nth_equalityI)

lemma vp_wy_r_eq:
  assumes "wy_fit s dd_a"
  shows "vp_wy_r s dd_a dd_b = Inr (wy_increment s dd_a, wy_increment s dd_a)"
proof -
  from assms have nb: "nblocks s = length (m_Vpot (molecule s))"
    and sq: "is_square (length (m_Da (molecule s))) (m_Da (molecule s))"
    and fits: "list_all (wy_block_fit s dd_a) [0..<nblocks s]"
    unfolding wy_fit_def by blast+
  have "\<forall>block<nblocks s. wy_block_fit s dd_a block \<and> block < length (m_Vpot (molecule s)) \<and>
             block < length (dd_a @ dd_b) \<and> (dd_a @ dd_b) ! block = dd_a ! block"
    using fits nb by (auto simp: list_all_iff wy_block_fit_def Let_def nth_append)
  from wy_blocks_fold [OF this is_square_zeros]
  show ?thesis
    using nb by (simp add: vp_wy_r_def zeros_like2_square [OF sq] wy_increment_def)
qed

lemma wy_increment_square:
  assumes "wy_fit s dd"
  shows "is_square (length (m_Da (molecule s))) (wy_increment s dd)"
proof -
  from assms have nb: "nblocks s = length (m_Vpot (molecule s))"
    and fits: "list_all (wy_block_fit s dd) [0..<nblocks s]"
    unfolding wy_fit_def by blast+
  have "\<forall>block<nblocks s. wy_block_fit s dd block \<and> block < length (m_Vpot (molecule s)) \<and>
             block < length dd \<and> dd ! block = dd ! block"
    using fits nb by (auto simp: list_all_iff wy_block_fit_def Let_def)
  from wy_blocks_fold [OF this is_square_zeros]
  show ?thesis by (simp add: wy_increment_def)
qed


section \<open>Symmetric aggregates and residuals\<close>



lemma symmetric_zeros [simp]: "symmetric (np_zeros2 n n)"
  by (simp add: symmetric_iff np_zeros2_def np_zeros_def is_square_def list_all_length)








section \<open>Symmetric increments\<close>




















section \<open>Zhang-Carter on fitting arrays\<close>


lemma is_tensor4_zeros [simp]: "is_tensor4 n (np_zeros4 n)"
  by (simp add: is_tensor4_def np_zeros4_def list_all_length)

lemma is_tensor4_add_scalar: "is_tensor4 n x \<Longrightarrow> is_tensor4 n (add_scalar4 c x)"
  by (simp add: is_tensor4_def add_scalar4_def is_square_def list_all_length)

lemma zc_term_fit:
  assumes "i < length C" "a < length C" "i < length eigs" "a < length eigs" "is_tensor4 n x"
  shows "\<exists>y. zc_term C eigs i a x = Inr y \<and> is_tensor4 n y"
  using assms by (simp add: zc_term_def py_index_def is_tensor4_add_scalar)

lemma zc_pairs_fit:
  assumes "\<forall>(i, a)\<in>set ps. i < length (f_Ca f) \<and> a < length (f_Ca f) \<and>
             i < length (f_Cb f) \<and> a < length (f_Cb f) \<and>
             i < length (f_eigs_a f) \<and> a < length (f_eigs_a f) \<and>
             i < length (f_eigs_b f) \<and> a < length (f_eigs_b f)"
    and "is_tensor4 n x"
  shows "\<exists>y. fold_err (zc_pair f) ps x = Inr y \<and> is_tensor4 n y"
  using assms
proof (induction ps arbitrary: x)
  case Nil
  then show ?case by simp
next
  case (Cons p ps)
  obtain i a where p: "p = (i, a)" by (cases p)
  from Cons.prems(1) have b: "i < length (f_Ca f)" "a < length (f_Ca f)"
      "i < length (f_Cb f)" "a < length (f_Cb f)"
      "i < length (f_eigs_a f)" "a < length (f_eigs_a f)"
      "i < length (f_eigs_b f)" "a < length (f_eigs_b f)"
    and rest: "\<forall>(i, a)\<in>set ps. i < length (f_Ca f) \<and> a < length (f_Ca f) \<and>
             i < length (f_Cb f) \<and> a < length (f_Cb f) \<and>
             i < length (f_eigs_a f) \<and> a < length (f_eigs_a f) \<and>
             i < length (f_eigs_b f) \<and> a < length (f_eigs_b f)"
    by (simp_all add: p)
  from zc_term_fit [OF b(1,2,5,6) Cons.prems(2)]
  obtain y where y: "zc_term (f_Ca f) (f_eigs_a f) i a x = Inr y" "is_tensor4 n y" by blast
  from zc_term_fit [OF b(3,4,7,8) y(2)]
  obtain z where z: "zc_term (f_Cb f) (f_eigs_b f) i a y = Inr z" "is_tensor4 n z" by blast
  show ?case
    using Cons.IH [OF rest z(2)] by (simp add: p zc_pair_def y z)
qed

lemma zc_frag_fit:
  assumes "zc_fit s f" and "m_nalpha (molecule s) = m_nbeta (molecule s)"
  shows "\<exists>y. zc_frag s f x = Inr (Some y) \<and> is_tensor4 (m_nbf (molecule s)) y"
proof -
  have "\<forall>(i, a)\<in>set (List.product [0..<m_nalpha (molecule s)]
                             [m_nalpha (molecule s)..<m_nbf (molecule s)]).
             i < length (f_Ca f) \<and> a < length (f_Ca f) \<and>
             i < length (f_Cb f) \<and> a < length (f_Cb f) \<and>
             i < length (f_eigs_a f) \<and> a < length (f_eigs_a f) \<and>
             i < length (f_eigs_b f) \<and> a < length (f_eigs_b f)"
    using assms(1) by (auto simp: zc_fit_def)
  from zc_pairs_fit [OF this is_tensor4_zeros, of "m_nbf (molecule s)"]
  obtain y where "fold_err (zc_pair f) (List.product [0..<m_nalpha (molecule s)]
                             [m_nalpha (molecule s)..<m_nbf (molecule s)])
                   (np_zeros4 (m_nbf (molecule s))) = Inr y" "is_tensor4 (m_nbf (molecule s)) y"
    by blast
  then show ?thesis using assms(2) by (simp add: zc_frag_def)
qed

lemma zc_frags_fit:
  assumes "list_all (zc_fit s) fs" and "m_nalpha (molecule s) = m_nbeta (molecule s)"
    and "fs \<noteq> []"
  shows "\<exists>y. fold_err (zc_frag s) fs x = Inr (Some y) \<and> is_tensor4 (m_nbf (molecule s)) y"
  using assms(1,3)
proof (induction fs arbitrary: x)
  case Nil
  then show ?case by simp
next
  case (Cons f fs)
  from Cons.prems have f: "zc_fit s f" and rest: "list_all (zc_fit s) fs" by simp_all
  from zc_frag_fit [OF f assms(2), of x]
  obtain y where y: "zc_frag s f x = Inr (Some y)" "is_tensor4 (m_nbf (molecule s)) y" by blast
  show ?case
  proof (cases "fs = []")
    case True
    then show ?thesis using y by simp
  next
    case False
    from Cons.IH [OF rest False, of "Some y"] show ?thesis by (simp add: y)
  qed
qed

lemma vp_zc_fit:
  assumes fr: "list_all (zc_fit s) (frags s)" and eq: "m_nalpha (molecule s) = m_nbeta (molecule s)"
    and ne: "frags s \<noteq> []"
    and pi: "\<forall>x. is_tensor4 (m_nbf (molecule s)) x \<longrightarrow>
               (\<exists>y. pinv x = Some y \<and> is_tensor4 (m_nbf (molecule s)) y)"
    and sq: "is_square (m_nbf (molecule s)) a" "is_square (m_nbf (molecule s)) b"
  shows "\<exists>x y. vp_zc pinv s a b rc = Inr (x, y) \<and> is_square (m_nbf (molecule s)) x \<and>
     is_square (m_nbf (molecule s)) y"
proof -
  let ?n = "m_nbf (molecule s)"
  let ?dd = "map (\<lambda>i. map (\<lambda>j. a ! i ! j + b ! i ! j) [0..<?n]) [0..<?n]"
  have dd: "mat_op (+) a b = Inr ?dd" by (rule mat_op_square [OF sq])
  from zc_frags_fit [OF fr eq ne, of None]
  obtain x where x: "fold_err (zc_frag s) (frags s) None = Inr (Some x)" "is_tensor4 ?n x" by blast
  from pi x(2) obtain y where y: "pinv x = Some y" "is_tensor4 ?n y" by blast
  let ?dvp = "map (\<lambda>m. map (\<lambda>k.
               np_sum (map (\<lambda>l. np_sum (map (\<lambda>s. y ! m ! k ! l ! s * ?dd ! l ! s) [0..<?n])) [0..<?n]))
                        [0..<?n]) [0..<?n]"
  have c: "contract_mnls_ls y ?dd = Inr ?dvp"
    using y(2) by (simp add: contract_mnls_ls_def Let_def)
  have "is_square ?n ?dvp" by (rule is_square_index)
  from symmetrize_square [OF this]
  show ?thesis
    by (simp add: vp_zc_frags dd x y c del: length_map map_map)
qed


section \<open>Iterations on fitting arrays\<close>


lemma is_square_matrix_difference [simp]: "is_square n (matrix_difference n x y)"
  by (simp add: matrix_difference_def)

lemma axpy_square_ex:
  "is_square n x \<Longrightarrow> is_square n y \<Longrightarrow> \<exists>z. axpy c x y = Inr z \<and> is_square n z"
  by (simp add: axpy_square)

lemma vp_increment_fit:
  assumes ref: "reference_fit s0"
    and scf: "\<forall>v f. strategy_frag_fit method s0 f \<longrightarrow> strategy_frag_fit method s0 (scf v f)"
    and fit: "loop_fit method s0 (s, l)"
  shows "\<exists>s4 l' dd_a dd_b ma mb.
     vp_increment scf pinv method (s, l) =
       (case choose_method pinv s4 method dd_a dd_b ma mb of
          Inl e \<Rightarrow> Inl e
        | Inr None \<Rightarrow> Inl (UnboundLocalError ''dvp_a'')
        | Inr (Some dvp) \<Rightarrow> Inr dvp, s4, l') \<and>
     nbf s4 = nbf s0 \<and> nblocks s4 = nblocks s0 \<and> molecule s4 = molecule s0 \<and>
     frags s4 = map (scf (vp_a l, vp_b l)) (frags s) \<and>
     list_all (strategy_frag_fit method s0) (frags s4) \<and>
     is_square (nbf s0) ma \<and> is_square (nbf s0) mb \<and>
     vp_a l' = vp_a l \<and> vp_b l' = vp_b l \<and>
     length dd_a = nblocks s0 \<and>
     (\<forall>b<nblocks s0. length (dd_a ! b) = length (m_density_da (molecule s0) ! b))"
proof -
  let ?n = "nbf s0"
  define s1 where "s1 = get_frag_energies (s\<lparr>frags := map (scf (vp_a l, vp_b l)) (frags s)\<rparr>)"
  from fit have c: "nbf s = nbf s0" "nblocks s = nblocks s0" "molecule s = molecule s0"
    and fr: "list_all (strategy_frag_fit method s0) (frags s)"
    by (simp_all add: loop_fit_def)
  have c1: "nbf s1 = ?n" "nblocks s1 = nblocks s0" "molecule s1 = molecule s0"
    "frags s1 = map (scf (vp_a l, vp_b l)) (frags s)"
    by (simp_all add: s1_def get_frag_energies_def c)
  have sfr1: "list_all (strategy_frag_fit method s0) (frags s1)"
    using fr scf by (simp add: c1 list_all_iff)
  then have fr1: "list_all (frag_fit s0) (frags s1)"
    by (simp add: list_all_iff strategy_frag_fit_def)
  have blocks: "list_all (\<lambda>b. block_fit (m_grid_w (molecule s0)) (m_density_da (molecule s0)) b \<and>
                     block_fit (m_grid_w (molecule s0)) (m_density_db (molecule s0)) b)
        [0..<nblocks s0]"
    and mda: "is_square ?n (m_Da (molecule s0))" and mdb: "is_square ?n (m_Db (molecule s0))"
    using ref by (simp_all add: reference_fit_def)
  have g1: "grid_fit s1"
    using fr1 blocks unfolding grid_fit_def c1(2,3)
    by (auto simp: list_all_iff frag_fit_def block_fit_def)
  define s2 where "s2 = s1\<lparr>frag_da_r := map (\<lambda>b. accumulated1 (length (m_density_da (molecule s1) ! b))
                                      (map (\<lambda>f. f_density_da f ! b) (frags s1))) [0..<nblocks s1],
                  frag_db_r := map (\<lambda>b. accumulated1 (length (m_density_db (molecule s1) ! b))
                                      (map (\<lambda>f. f_density_db f ! b) (frags s1))) [0..<nblocks s1]\<rparr>"
  have r: "get_frag_densities_r s1 = Inr s2"
    unfolding s2_def by (rule get_frag_densities_r_eq [OF g1])
  have c2: "nbf s2 = ?n" "nblocks s2 = nblocks s0" "molecule s2 = molecule s0"
    "frags s2 = frags s1"
    using c1 by (simp_all add: s2_def)
  have a2: "ao_fit s2"
    using fr1 unfolding ao_fit_def c2 by (auto simp: list_all_iff frag_fit_def)
  define s3 where "s3 = s2\<lparr>frag_da_nm := accumulated2 (nbf s2) (map f_Da (frags s2)),
                  frag_db_nm := accumulated2 (nbf s2) (map f_Db (frags s2))\<rparr>"
  have nm: "get_frag_densities_nm s2 = Inr s3"
    unfolding s3_def by (rule get_frag_densities_nm_eq [OF a2])
  define s4 where "s4 = get_ep s3"
  have c4: "nbf s4 = ?n" "nblocks s4 = nblocks s0" "molecule s4 = molecule s0"
    "frags s4 = frags s1"
    using c2 by (simp_all add: s4_def s3_def get_ep_def)
  have da_r: "frag_da_r s4 = map (\<lambda>b. accumulated1 (length (m_density_da (molecule s0) ! b))
                                      (map (\<lambda>f. f_density_da f ! b) (frags s1))) [0..<nblocks s0]"
    and db_r: "frag_db_r s4 = map (\<lambda>b. accumulated1 (length (m_density_db (molecule s0) ! b))
                                      (map (\<lambda>f. f_density_db f ! b) (frags s1))) [0..<nblocks s0]"
    using c1 by (simp_all add: s4_def s3_def s2_def get_ep_def)
  have da_nm: "is_square ?n (frag_da_nm s4)" and db_nm: "is_square ?n (frag_db_nm s4)"
    using c2 by (simp_all add: s4_def s3_def get_ep_def)
  have gfit: "list_all (\<lambda>b.
        block_fit (frag_da_r s4) (m_density_da (molecule s4)) b \<and>
        block_fit (frag_db_r s4) (m_density_db (molecule s4)) b \<and>
        block_fit (m_grid_w (molecule s4)) (m_density_da (molecule s4)) b \<and>
        block_fit (m_grid_w (molecule s4)) (m_density_db (molecule s4)) b) [0..<nblocks s4]"
    unfolding c4 da_r db_r using blocks
    by (auto simp: list_all_iff block_fit_def)
  define dd_a where "dd_a = map (\<lambda>b. block_difference (frag_da_r s4 ! b) (m_density_da (molecule s4) ! b))
      [0..<nblocks s4]"
  obtain dd_b err where grid: "get_delta_density s4 ''grid'' = Inr (Grid dd_a dd_b err)"
    using get_delta_density_grid_fold [OF gfit] unfolding dd_a_def by blast
  have ldd: "length dd_a = nblocks s0"
    "\<forall>b<nblocks s0. length (dd_a ! b) = length (m_density_da (molecule s0) ! b)"
    by (simp_all add: dd_a_def c4 block_difference_def)
  define ma where "ma = matrix_difference ?n (m_Da (molecule s0)) (frag_da_nm s4)"
  define mb where "mb = matrix_difference ?n (m_Db (molecule s0)) (frag_db_nm s4)"
  have sq: "is_square ?n ma" "is_square ?n mb"
    by (simp_all add: ma_def mb_def)
  have matrix: "get_delta_density s4 ''matrix'' = Inr (Matrix ma mb)"
    using get_delta_density_matrix_eq [of s4] mda mdb da_nm db_nm unfolding c4 ma_def mb_def
    by simp
  define l' where "l' = l\<lparr>l1_list := l1_list l @ [err], ep_list := ep_list l @ [ep s4]\<rparr>"
  have vl': "vp_a l' = vp_a l" "vp_b l' = vp_b l"
    by (simp_all add: l'_def)
  have it: "vp_increment scf pinv method (s, l) =
       (case choose_method pinv s4 method dd_a dd_b ma mb of
          Inl e \<Rightarrow> Inl e
        | Inr None \<Rightarrow> Inl (UnboundLocalError ''dvp_a'')
        | Inr (Some dvp) \<Rightarrow> Inr dvp, s4, l')"
    by (simp only: vp_increment_def Let_def prod.case s1_def [symmetric] r sum.case nm
        s4_def [symmetric] grid delta_density.case matrix l'_def [symmetric])
       (simp split: sum.splits option.splits)
  show ?thesis
    using it c4 c1(4) sfr1 sq vl' ldd by (intro exI [of _ s4] exI [of _ l'] exI [of _ dd_a]
        exI [of _ dd_b] exI [of _ ma] exI [of _ mb]) simp
qed

lemma choose_method_fit:
  assumes sf: "strategy_fit method s0"
    and pi: "method = ''zc'' \<longrightarrow>
       (\<forall>x. is_tensor4 (nbf s0) x \<longrightarrow> (\<exists>y. pinv x = Some y \<and> is_tensor4 (nbf s0) y))"
    and c4: "nbf s4 = nbf s0" "nblocks s4 = nblocks s0" "molecule s4 = molecule s0"
    and ne: "(frags s4 = []) = (frags s0 = [])"
    and fr: "list_all (strategy_frag_fit method s0) (frags s4)"
    and sq: "is_square (nbf s0) ma" "is_square (nbf s0) mb"
    and ldd: "length dd_a = nblocks s0"
      "\<forall>b<nblocks s0. length (dd_a ! b) = length (m_density_da (molecule s0) ! b)"
  shows "\<exists>dvp. choose_method pinv s4 method dd_a dd_b ma mb = Inr (Some dvp) \<and>
     is_square (nbf s0) (fst dvp) \<and> is_square (nbf s0) (snd dvp)"
proof -
  let ?n = "nbf s0"
  from sf have ref: "reference_fit s0" by (simp add: strategy_fit_def)
  from sf consider (dd) "method = ''dd''"
    | (zpm) "method = ''zpm''" "is_tensor4 ?n (m_ao_eri (molecule s0))"
    | (zc) "method = ''zc''" "m_nalpha (molecule s0) = m_nbeta (molecule s0)"
        "m_nbf (molecule s0) = ?n" "frags s0 \<noteq> []"
    | (wy) "method = ''wy_r''" "wy_grid_fit s0"
    by (auto simp: strategy_fit_def)
  then show ?thesis
  proof cases
    case dd
    then show ?thesis using sq by (simp add: choose_method_def vp_dd_def)
  next
    case zpm
    from vp_zpm_square [OF sq, of s4] zpm(2) c4 show ?thesis
      by (auto simp: choose_method_def zpm(1))
  next
    case zc
    have zf: "list_all (zc_fit s4) (frags s4)"
      using fr zc(1) by (simp add: list_all_iff strategy_frag_fit_def zc_fit_def c4)
    have p: "\<forall>x. is_tensor4 (m_nbf (molecule s4)) x \<longrightarrow>
               (\<exists>y. pinv x = Some y \<and> is_tensor4 (m_nbf (molecule s4)) y)"
      using pi zc by (simp add: c4)
    from vp_zc_fit [OF zf _ _ p, of ma mb "1 / 1000000"] zc sq ne c4
    show ?thesis
      by (auto simp: choose_method_def)
  next
    case wy
    have mda: "is_square ?n (m_Da (molecule s0))"
      using ref by (simp add: reference_fit_def)
    then have lda: "length (m_Da (molecule s0)) = ?n" by (simp add: is_square_def)
    have "wy_block_fit s4 dd_a block" if "block < nblocks s0" for block
      using wy(2) fr that ldd lda wy(1)
      by (simp add: wy_grid_fit_def wy_block_fit_def Let_def c4 list_all_iff strategy_frag_fit_def)
    then have wf: "wy_fit s4 dd_a"
      using wy(2) mda by (simp add: wy_fit_def c4 lda list_all_iff wy_grid_fit_def)
    from vp_wy_r_eq [OF wf, of dd_b] wy_increment_square [OF wf]
    show ?thesis
      by (simp add: choose_method_def wy(1) c4 lda)
  qed
qed

lemma vp_iteration_fit:
  assumes sf: "strategy_fit method s0"
    and pi: "method = ''zc'' \<longrightarrow>
       (\<forall>x. is_tensor4 (nbf s0) x \<longrightarrow> (\<exists>y. pinv x = Some y \<and> is_tensor4 (nbf s0) y))"
    and scf: "\<forall>v f. strategy_frag_fit method s0 f \<longrightarrow> strategy_frag_fit method s0 (scf v f)"
    and fit: "loop_fit method s0 (s, l)"
  shows "\<exists>sl'. vp_iteration scf pinv method beta step (s, l) = (None, sl') \<and> loop_fit method s0 sl'"
proof -
  let ?n = "nbf s0"
  from sf have ref: "reference_fit s0" by (simp add: strategy_fit_def)
  from fit have va: "is_square ?n (vp_a l)" and vb: "is_square ?n (vp_b l)"
    and ne: "(frags s = []) = (frags s0 = [])"
    by (simp_all add: loop_fit_def)
  from vp_increment_fit [OF ref scf fit, of pinv]
  obtain s4 l' dd_a dd_b ma mb where inc: "vp_increment scf pinv method (s, l) =
       (case choose_method pinv s4 method dd_a dd_b ma mb of
          Inl e \<Rightarrow> Inl e
        | Inr None \<Rightarrow> Inl (UnboundLocalError ''dvp_a'')
        | Inr (Some dvp) \<Rightarrow> Inr dvp, s4, l')"
    and c4: "nbf s4 = nbf s0" "nblocks s4 = nblocks s0" "molecule s4 = molecule s0"
    and f4: "frags s4 = map (scf (vp_a l, vp_b l)) (frags s)"
    and fr: "list_all (strategy_frag_fit method s0) (frags s4)"
    and sq: "is_square ?n ma" "is_square ?n mb"
    and vl': "vp_a l' = vp_a l" "vp_b l' = vp_b l"
    and ldd: "length dd_a = nblocks s0"
      "\<forall>b<nblocks s0. length (dd_a ! b) = length (m_density_da (molecule s0) ! b)"
    by blast
  have ne4: "(frags s4 = []) = (frags s0 = [])" using ne by (simp add: f4)
  from choose_method_fit [OF sf pi c4 ne4 fr sq ldd, of dd_b]
  obtain dvp where ch: "choose_method pinv s4 method dd_a dd_b ma mb = Inr (Some dvp)"
    and sa: "is_square ?n (fst dvp)" and sb: "is_square ?n (snd dvp)" by blast
  obtain za where za: "axpy beta (fst dvp) (vp_a l') = Inr za" "is_square ?n za"
    using axpy_square_ex [OF sa va] unfolding vl' by blast
  obtain zb where zb: "axpy beta (snd dvp) (vp_b l') = Inr zb" "is_square ?n zb"
    using axpy_square_ex [OF sb vb] unfolding vl' by blast
  have up: "update_vp beta step dvp (s4, l') =
      (None, s4\<lparr>vp := Some (za, zb)\<rparr>, l'\<lparr>vp_a := za, vp_b := zb\<rparr>)"
    using za zb by (cases dvp) (simp add: update_vp_def)
  have it: "vp_iteration scf pinv method beta step (s, l) =
      (None, s4\<lparr>vp := Some (za, zb)\<rparr>, l'\<lparr>vp_a := za, vp_b := zb\<rparr>)"
    by (simp add: vp_iteration_def inc ch up)
  have "loop_fit method s0 (s4\<lparr>vp := Some (za, zb)\<rparr>, l'\<lparr>vp_a := za, vp_b := zb\<rparr>)"
    using c4 fr za(2) zb(2) ne4 by (simp add: loop_fit_def)
  with it show ?thesis by blast
qed

lemma iterations_fit:
  assumes sf: "strategy_fit method s0"
    and pi: "method = ''zc'' \<longrightarrow>
       (\<forall>x. is_tensor4 (nbf s0) x \<longrightarrow> (\<exists>y. pinv x = Some y \<and> is_tensor4 (nbf s0) y))"
    and scf: "\<forall>v f. strategy_frag_fit method s0 f \<longrightarrow> strategy_frag_fit method s0 (scf v f)"
  shows "loop_fit method s0 sl \<Longrightarrow> fst (iterations scf pinv method beta k n sl) = None"
proof (induction n arbitrary: k sl)
  case 0
  show ?case by simp
next
  case (Suc n)
  obtain s l where sl: "sl = (s, l)" by (cases sl)
  obtain sl' where it: "vp_iteration scf pinv method beta (int k) (s, l) = (None, sl')"
    and fit': "loop_fit method s0 sl'"
    using vp_iteration_fit [OF sf pi scf, of s l beta "int k"] Suc.prems sl by blast
  show ?case
    using Suc.IH [OF fit'] by (simp add: sl it)
qed


section \<open>The small systems\<close>

lemmas init_defs = Inversion_init_def assert_grid_elements_def get_np_xyzw_len_def
    get_frag_energies_def get_frag_densities_nm_def nm_body_def axpy_def same_shape_def
    np_zeros2_def np_zeros_def get_frag_densities_r_def r_block_body_def r_frag_body_def
    py_index_def np_zeros_like_def vec_iop_def stretch_def

lemma ex_engine_built: "Inversion_init [ex_frag, ex_frag] ex_mol = Inr ex_engine"
  by (simp add: init_defs ex_engine_def ex_frag_def ex_mol_def ex_block_def)

lemma ex2_engine_built: "Inversion_init [ex2_frag_a, ex2_frag_b] ex2_mol = Inr ex2_engine"
  by (simp add: init_defs ex2_engine_def ex2_frag_a_def ex2_frag_b_def ex2_mol_def ex2_block_def
      numeral_2_eq_2)

lemma scenario_one_basis_function:
  "get_delta_density ex_engine ''matrix'' = Inr (Matrix [[0]] [[0]]) \<and>
   vp_dd ex_engine [[0]] [[0]] = Inr ([[0]], [[0]]) \<and>
   frag_da_nm ex_engine = [[1]]"
  by code_simp

lemma scenario_doubles_wy_r:
  "(case Inversion_init [ex_frag, ex_frag] (ex_mol :: binary64 molecule) of
      Inl e \<Rightarrow> False
    | Inr s \<Rightarrow>
        vp_wy_r s [[0]] [[0]] = Inr ([[NaN]], [[NaN]]) \<and>
        fst (vp_handler scf_frozen pinv_raises s ''wy_r'' 1 2 (1 / 100000) None True True) =
          Raised MaxIterationsExceeded \<and>
        l1_list (snd (snd (vp_handler scf_frozen pinv_raises s ''wy_r'' 1 2 (1 / 100000)
          None True True))) = [0, 0, 0] \<and>
        vp (fst (snd (vp_handler scf_frozen pinv_raises s ''wy_r'' 1 2 (1 / 100000)
          None True True))) = Some ([[NaN]], [[NaN]]))"
  by code_simp

lemma tenth_plus_fifth:
  "tenth + fifth = Finite False 1351079888211149 (- 52) \<and>
   exact_value tenth = Some (3602879701896397 / 2 ^ 55) \<and>
   exact_value fifth = Some (3602879701896397 / 2 ^ 54) \<and>
   exact_value (tenth + fifth) = Some (1351079888211149 / 2 ^ 52) \<and>
   (1351079888211149 / 2 ^ 52 :: real) \<noteq> 3602879701896397 / 2 ^ 55 + 3602879701896397 / 2 ^ 54"
  by code_simp


section \<open>Shapes of sums, of the pseudo-inverse and of the aggregations\<close>

lemma mat_op_broadcastable:
  "mat_op f a b = Inl e \<longleftrightarrow> \<not> broadcastable a b \<and> e = ShapeError"
  by (auto simp: mat_op_def broadcastable_def split: option.splits)

lemma pinv_const2_fit: "is_tensor4 n x \<Longrightarrow> \<exists>y. pinv_const2 x = Some y \<and> is_tensor4 n y"
  by (simp add: pinv_const2_def is_tensor4_def is_square_def list_all_iff)

lemma get_frag_densities_r_frags:
  "get_frag_densities_r s = Inr s' \<Longrightarrow> frags s' = frags s \<and> molecule s' = molecule s"
  by (auto simp: get_frag_densities_r_def elim!: bnd_InrE)


section \<open>The claims\<close>

text \<open>
  Claim C8, amended. For any number of fragments whose arrays have the shapes of the
  engine, both aggregations succeed, and each entry of the aggregate density is the sum of
  the entries of the fragments accumulated from zero in the order of the fragments, with
  the addition of the numbers of the arrays: \<open>1 * d + acc\<close> for the AO matrices (psi4's
  \<^verbatim>\<open>axpy\<close> with the factor \<^verbatim>\<open>1.0\<close>), \<open>acc + d\<close> for the grid arrays, alpha and beta each
  on its own. Over the reals this is the elementwise sum (\<open>accumulated2_exact\<close>,
  \<open>accumulated1_exact\<close>); over the doubles every addition rounds.
\<close>

theorem aggregate_density_accumulated:
  assumes "ao_fit s" and "grid_fit s"
  shows "get_frag_densities_nm s =
           Inr (s\<lparr>frag_da_nm := accumulated2 (nbf s) (map f_Da (frags s)),
                  frag_db_nm := accumulated2 (nbf s) (map f_Db (frags s))\<rparr>)
       \<and> get_frag_densities_r s =
           Inr (s\<lparr>frag_da_r := map (\<lambda>b. accumulated1 (length (m_density_da (molecule s) ! b))
                                      (map (\<lambda>f. f_density_da f ! b) (frags s))) [0..<nblocks s],
                  frag_db_r := map (\<lambda>b. accumulated1 (length (m_density_db (molecule s) ! b))
                                      (map (\<lambda>f. f_density_db f ! b) (frags s))) [0..<nblocks s]\<rparr>)"
  using get_frag_densities_nm_eq [OF assms(1)] get_frag_densities_r_eq [OF assms(2)] by simp

theorem aggregate_density_accumulated_witness:
  "ao_fit engine_tenth_fifth \<and> grid_fit engine_tenth_fifth \<and>
   (case get_frag_densities_nm engine_tenth_fifth of
      Inl e \<Rightarrow> False
    | Inr s' \<Rightarrow> frag_da_nm s' = [[Finite False 1351079888211149 (- 52)]] \<and>
        frag_db_nm s' = [[Finite False 1351079888211149 (- 52)]]) \<and>
   (case get_frag_densities_r engine_tenth_fifth of
      Inl e \<Rightarrow> False
    | Inr s' \<Rightarrow> frag_da_r s' = [[Finite False 1351079888211149 (- 52)]] \<and>
        frag_db_r s' = [[Finite False 1351079888211149 (- 52)]])"
proof -
  have a: "ao_fit engine_tenth_fifth" by code_simp
  have g: "grid_fit engine_tenth_fifth" by code_simp
  have v1: "accumulated2 (nbf engine_tenth_fifth) (map f_Da (frags engine_tenth_fifth)) =
      [[Finite False 1351079888211149 (- 52)]]"
    by code_simp
  have v2: "accumulated2 (nbf engine_tenth_fifth) (map f_Db (frags engine_tenth_fifth)) =
      [[Finite False 1351079888211149 (- 52)]]"
    by code_simp
  have v3: "map (\<lambda>b. accumulated1 (length (m_density_da (molecule engine_tenth_fifth) ! b))
                 (map (\<lambda>f. f_density_da f ! b) (frags engine_tenth_fifth)))
              [0..<nblocks engine_tenth_fifth]
            = [[Finite False 1351079888211149 (- 52)]]"
    by code_simp
  have v4: "map (\<lambda>b. accumulated1 (length (m_density_db (molecule engine_tenth_fifth) ! b))
                 (map (\<lambda>f. f_density_db f ! b) (frags engine_tenth_fifth)))
              [0..<nblocks engine_tenth_fifth]
            = [[Finite False 1351079888211149 (- 52)]]"
    by code_simp
  show ?thesis
    using aggregate_density_accumulated [OF a g] a g by (simp add: v1 v2 v3 v4)
qed

text \<open>
  Claim C8 as it was stated fails for the doubles that the arrays hold. Two fragments with
  the densities \<^verbatim>\<open>0.1\<close> and \<^verbatim>\<open>0.2\<close>, in the one entry of the density matrix and at the one
  point of the grid, have the aggregate \<^verbatim>\<open>0.30000000000000004\<close>: the double
  \<open>1351079888211149 / 2\<^sup>5\<^sup>2\<close>, which is not the sum of the two doubles.
\<close>

theorem aggregate_density_rounded_counterexample:
  "exact_value (f_Da frag_tenth ! 0 ! 0) = Some (3602879701896397 / 2 ^ 55) \<and>
   exact_value (f_Da frag_fifth ! 0 ! 0) = Some (3602879701896397 / 2 ^ 54) \<and>
   exact_value (f_density_da frag_tenth ! 0 ! 0) = Some (3602879701896397 / 2 ^ 55) \<and>
   exact_value (f_density_da frag_fifth ! 0 ! 0) = Some (3602879701896397 / 2 ^ 54) \<and>
   (case get_frag_densities_nm engine_tenth_fifth of
      Inl e \<Rightarrow> False
    | Inr s' \<Rightarrow>
        exact_value (frag_da_nm s' ! 0 ! 0) = Some (1351079888211149 / 2 ^ 52) \<and>
        exact_value (frag_da_nm s' ! 0 ! 0) \<noteq>
          Some (3602879701896397 / 2 ^ 55 + 3602879701896397 / 2 ^ 54)) \<and>
   (case get_frag_densities_r engine_tenth_fifth of
      Inl e \<Rightarrow> False
    | Inr s' \<Rightarrow>
        exact_value (frag_da_r s' ! 0 ! 0) = Some (1351079888211149 / 2 ^ 52) \<and>
        exact_value (frag_da_r s' ! 0 ! 0) \<noteq>
          Some (3602879701896397 / 2 ^ 55 + 3602879701896397 / 2 ^ 54))"
  by code_simp

text \<open>
  Claim C2. The residual in "grid" mode is, per block and per spin channel, the aggregate
  minus the reference, with a scalar error that is the sum over the blocks and the two spin
  channels of the absolute value of the weighted integral of the difference of the block
  (the absolute value of the integral, not the integral of absolute values). In "matrix"
  mode it is the reference minus the aggregate, as AO matrices: the opposite sign.
\<close>

theorem delta_density_modes:
  assumes "residual_fit s"
  shows "get_delta_density s ''grid'' =
     Inr (Grid
       (map (\<lambda>b. block_difference (frag_da_r s ! b) (m_density_da (molecule s) ! b)) [0..<nblocks s])
       (map (\<lambda>b. block_difference (frag_db_r s ! b) (m_density_db (molecule s) ! b)) [0..<nblocks s])
       (\<Sum>b\<leftarrow>[0..<nblocks s].
             \<bar>weighted_integral (block_difference (frag_da_r s ! b) (m_density_da (molecule s) ! b))
                  (m_grid_w (molecule s) ! b)\<bar>
           + \<bar>weighted_integral (block_difference (frag_db_r s ! b) (m_density_db (molecule s) ! b))
                  (m_grid_w (molecule s) ! b)\<bar>))
   \<and> get_delta_density s ''matrix'' =
     Inr (Matrix (matrix_difference (nbf s) (m_Da (molecule s)) (frag_da_nm s))
                 (matrix_difference (nbf s) (m_Db (molecule s)) (frag_db_nm s)))"
  using assms get_delta_density_grid_eq [of s] get_delta_density_matrix_eq [of s]
  by (simp add: residual_fit_def)

theorem delta_density_modes_witness:
  "residual_fit ex2_engine \<and>
   get_delta_density ex2_engine ''grid'' = Inr (Grid [[1, - 1]] [[1/2, 1/2]] 1) \<and>
   get_delta_density ex2_engine ''matrix'' =
     Inr (Matrix [[0, 1/4], [1/4, 0]] [[0, 1/4], [1/4, 0]])"
proof -
  have r: "residual_fit ex2_engine" by code_simp
  have v1: "map (\<lambda>b. block_difference (frag_da_r ex2_engine ! b)
                        (m_density_da (molecule ex2_engine) ! b)) [0..<nblocks ex2_engine]
            = [[1, - 1]]"
    by code_simp
  have v2: "map (\<lambda>b. block_difference (frag_db_r ex2_engine ! b)
                        (m_density_db (molecule ex2_engine) ! b)) [0..<nblocks ex2_engine]
            = [[1/2, 1/2]]"
    by code_simp
  have v3: "(\<Sum>b\<leftarrow>[0..<nblocks ex2_engine].
             \<bar>weighted_integral (block_difference (frag_da_r ex2_engine ! b)
                  (m_density_da (molecule ex2_engine) ! b)) (m_grid_w (molecule ex2_engine) ! b)\<bar>
           + \<bar>weighted_integral (block_difference (frag_db_r ex2_engine ! b)
                  (m_density_db (molecule ex2_engine) ! b)) (m_grid_w (molecule ex2_engine) ! b)\<bar>)
            = 1"
    by code_simp
  have v4: "matrix_difference (nbf ex2_engine) (m_Da (molecule ex2_engine)) (frag_da_nm ex2_engine)
            = [[0, 1/4], [1/4, 0]]"
    by code_simp
  have v5: "matrix_difference (nbf ex2_engine) (m_Db (molecule ex2_engine)) (frag_db_nm ex2_engine)
            = [[0, 1/4], [1/4, 0]]"
    by code_simp
  show ?thesis
    using delta_density_modes [OF r] r by (simp add: v1 v2 v3 v4 v5)
qed

text \<open>
  Claim C7. For residuals and a repulsion tensor of the basis size, \<open>vp_zpm\<close> returns for
  each spin channel, by the one formula, minus one half of the tensor contracted with the
  residual of that channel over two of its four indices; the increment of the zero
  residual is the zero matrix.
\<close>

theorem vp_zpm_formula:
  assumes "is_square n dd_a" and "is_square n dd_b" and "is_tensor4 n (m_ao_eri (molecule s))"
  shows "vp_zpm s dd_a dd_b =
           Inr (coulomb_increment n (m_ao_eri (molecule s)) dd_a,
                coulomb_increment n (m_ao_eri (molecule s)) dd_b)
       \<and> vp_zpm s (np_zeros2 n n) (np_zeros2 n n) = Inr (np_zeros2 n n, np_zeros2 n n)"
  using vp_zpm_eq [OF assms] vp_zpm_eq [OF is_square_zeros is_square_zeros assms(3)]
  by (simp add: coulomb_increment_zero)

theorem vp_zpm_formula_witness:
  "is_square 2 [[0, 1/4], [1/4, 0]] \<and> is_tensor4 2 (m_ao_eri (molecule ex2_engine)) \<and>
   vp_zpm ex2_engine [[0, 1/4], [1/4, 0]] [[0, 1/4], [1/4, 0]] =
     Inr ([[0, - 3/32], [- 3/32, 0]], [[0, - 3/32], [- 3/32, 0]]) \<and>
   vp_zpm ex2_engine [[0, 0], [0, 0]] [[0, 0], [0, 0]] = Inr ([[0, 0], [0, 0]], [[0, 0], [0, 0]])"
proof -
  have q: "is_square 2 [[0, 1/4], [1/4, 0]]" by code_simp
  have t: "is_tensor4 2 (m_ao_eri (molecule ex2_engine))" by code_simp
  have v: "coulomb_increment 2 (m_ao_eri (molecule ex2_engine)) [[0, 1/4], [1/4, 0]]
           = [[0, - 3/32], [- 3/32, 0]]"
    by code_simp
  have z: "np_zeros2 2 2 = [[0, 0], [0, 0 :: real]]" by code_simp
  show ?thesis
    using vp_zpm_formula [OF q q t] q t by (simp add: v z)
qed

text \<open>
  Claim C3, amended. When the alpha and beta occupation counts of the reference differ,
  \<open>vp_zc\<close> raises and returns no increment, but the source has no \<^verbatim>\<open>raise\<close> for this case
  and no exception of the name UnimplementedVariantError: no pass of the loop over the
  fragments binds \<^verbatim>\<open>x\<close>, and the read of \<^verbatim>\<open>x\<close> in \<^verbatim>\<open>np.linalg.pinv(x)\<close> after the loop
  fails with Python's \<^verbatim>\<open>UnboundLocalError\<close>. Before that only the sum
  \<^verbatim>\<open>da_mn + db_mn\<close> can fail, for two residuals whose shapes numpy does not broadcast.
\<close>

theorem vp_zc_unequal_occupation:
  assumes "m_nalpha (molecule s) \<noteq> m_nbeta (molecule s)"
  shows "vp_zc pinv s da_mn db_mn rcond =
     (if broadcastable da_mn db_mn then Inl (UnboundLocalError ''x'') else Inl ShapeError)
     \<and> vp_zc pinv s da_mn db_mn rcond \<noteq> Inl UnimplementedVariantError"
proof (cases "mat_op (+) da_mn db_mn")
  case (Inl e)
  then show ?thesis
    using mat_op_broadcastable [of "(+)" da_mn db_mn e] by (simp add: vp_zc_frags)
next
  case (Inr dd)
  then have "broadcastable da_mn db_mn"
    using mat_op_broadcastable [of "(+)" da_mn db_mn ShapeError] by auto
  then show ?thesis
    using Inr assms by (simp add: vp_zc_frags zc_frags_unbound)
qed

theorem vp_zc_unequal_occupation_witness:
  "m_nalpha (molecule ex2_open_engine) \<noteq> m_nbeta (molecule ex2_open_engine) \<and>
   broadcastable [[0, 1/4], [1/4, 0]] [[1, 1/4 :: real]] \<and>
   vp_zc pinv_const2 ex2_open_engine [[0, 1/4], [1/4, 0]] [[1, 1/4]] (1 / 1000000) =
     Inl (UnboundLocalError ''x'') \<and>
   \<not> broadcastable [[0, 1/4], [1/4, 0]] [[1, 1/4, 0 :: real]] \<and>
   vp_zc pinv_const2 ex2_open_engine [[0, 1/4], [1/4, 0]] [[1, 1/4, 0]] (1 / 1000000) =
     Inl ShapeError"
proof -
  have h: "m_nalpha (molecule ex2_open_engine) \<noteq> m_nbeta (molecule ex2_open_engine)"
    by code_simp
  have b1: "broadcastable [[0, 1/4], [1/4, 0]] [[1, 1/4 :: real]]"
    by code_simp
  have b2: "\<not> broadcastable [[0, 1/4], [1/4, 0]] [[1, 1/4, 0 :: real]]"
    by code_simp
  have v1: "vp_zc pinv_const2 ex2_open_engine [[0, 1/4], [1/4, 0]] [[1, 1/4]] (1 / 1000000) =
     Inl (UnboundLocalError ''x'')"
    using vp_zc_unequal_occupation [OF h, of pinv_const2 "[[0, 1/4], [1/4, 0]]"
        "[[1, 1/4]]" "1 / 1000000"] b1
    by simp
  have v2: "vp_zc pinv_const2 ex2_open_engine [[0, 1/4], [1/4, 0]] [[1, 1/4, 0]] (1 / 1000000) =
     Inl ShapeError"
    using vp_zc_unequal_occupation [OF h, of pinv_const2 "[[0, 1/4], [1/4, 0]]"
        "[[1, 1/4, 0]]" "1 / 1000000"] b2
    by simp
  show ?thesis
    using h b1 b2 v1 v2 by (simp only: simp_thms)
qed

text \<open>
  Claim C3 as it was stated fails in the exception: in the second system with a reference
  of two alpha electrons and one beta electron the call ends with the
  \<^verbatim>\<open>UnboundLocalError\<close> of the name \<^verbatim>\<open>x\<close>, which is not an UnimplementedVariantError.
\<close>

theorem vp_zc_unequal_occupation_counterexample:
  "m_nalpha (molecule ex2_open_engine) \<noteq> m_nbeta (molecule ex2_open_engine) \<and>
   vp_zc pinv_const2 ex2_open_engine [[0, 1/4], [1/4, 0]] [[0, 1/4], [1/4, 0]] (1 / 1000000) =
     Inl (UnboundLocalError ''x'') \<and>
   vp_zc pinv_const2 ex2_open_engine [[0, 1/4], [1/4, 0]] [[0, 1/4], [1/4, 0]] (1 / 1000000) \<noteq>
     Inl UnimplementedVariantError"
  by code_simp

text \<open>
  Claim C9. With one of the three initial guesses "hartree", "xc" and "hxc" the driver
  returns at once: whatever the solver, the strategy and the bound, the engine is the one
  it was given (its fragments, potential and partition energy unchanged), and no entry of
  the two histories exists.
\<close>

theorem vp_handler_guess_returns:
  assumes "guess \<in> {Some ''hartree'', Some ''xc'', Some ''hxc''}"
  shows "vp_handler scf pinv s method beta maxiter atol guess print_scf plot_scf =
     (Returned, s, \<lparr>vp_a = np_zeros2 (nbf s) (nbf s), vp_b = np_zeros2 (nbf s) (nbf s),
                    l1_list = [], ep_list = []\<rparr>)"
  using assms by (auto simp: vp_handler_def)

theorem vp_handler_guess_returns_witness:
  "Some ''xc'' \<in> {Some ''hartree'', Some ''xc'', Some ''hxc''} \<and>
   vp_handler scf_frozen pinv_const2 ex2_engine ''zpm'' 1 40 (1 / 100000) (Some ''xc'') True True =
     (Returned, ex2_engine,
      \<lparr>vp_a = [[0, 0], [0, 0]], vp_b = [[0, 0], [0, 0]], l1_list = [], ep_list = []\<rparr>)"
proof -
  have g: "Some ''xc'' \<in> {Some ''hartree'', Some ''xc'', Some ''hxc''}" by simp
  have z: "np_zeros2 (nbf ex2_engine) (nbf ex2_engine) = [[0, 0], [0, 0 :: real]]" by code_simp
  show ?thesis
    using vp_handler_guess_returns [OF g, of scf_frozen pinv_const2 ex2_engine "''zpm''" 1 40
        "1 / 100000" True True] g
    by (simp add: z)
qed

text \<open>
  Claim C1, amended. For a bound \<open>maxiter \<ge> 0\<close> and no initial guess, the driver runs the body
  of its loop for the indices \<open>0\<close> to \<open>maxiter\<close>, that is \<open>maxiter + 1\<close> times and not
  \<open>maxiter\<close> times, unless a body itself raises; it never returns. It raises
  MaxIterationsExceeded exactly when all these bodies have ended, after the update of the
  potential of the last one: the history then has \<open>maxiter + 1\<close> entries and the potential
  of the engine is the updated one. No body raises that exception. The tolerance (and the
  two flags) change nothing. With each of the four strategies the exception of the bound
  is the one raised when the arrays have fitting shapes, the solver keeps them and, for
  "zc", the occupation is equal and the pseudo-inverse returns an array of the shape of its
  argument: no division stops a body, for a division by zero gives an infinity or a NaN
  and the loop goes on with it (\<open>scenario_doubles_wy_r\<close>).
\<close>

theorem vp_handler_bound_plus_one:
  assumes "0 \<le> maxiter"
  shows "vp_handler scf pinv s method beta maxiter atol None print_scf plot_scf =
       (case iterations scf pinv method beta 0 (Suc (nat maxiter))
               (s, \<lparr>vp_a = np_zeros2 (nbf s) (nbf s), vp_b = np_zeros2 (nbf s) (nbf s),
                    l1_list = [], ep_list = []\<rparr>) of
          (None, sl) \<Rightarrow> (Raised MaxIterationsExceeded, sl)
        | (Some e, sl) \<Rightarrow> (Raised e, sl))
     \<and> (\<forall>atol' print_scf' plot_scf'.
          vp_handler scf pinv s method beta maxiter atol' None print_scf' plot_scf' =
          vp_handler scf pinv s method beta maxiter atol None print_scf plot_scf)
     \<and> fst (vp_handler scf pinv s method beta maxiter atol None print_scf plot_scf) \<noteq> Returned
     \<and> (fst (vp_handler scf pinv s method beta maxiter atol None print_scf plot_scf) =
            Raised MaxIterationsExceeded \<longrightarrow>
          length (l1_list (snd (snd
            (vp_handler scf pinv s method beta maxiter atol None print_scf plot_scf)))) =
            nat maxiter + 1 \<and>
          vp (fst (snd (vp_handler scf pinv s method beta maxiter atol None print_scf plot_scf))) =
            Some (vp_a (snd (snd
                    (vp_handler scf pinv s method beta maxiter atol None print_scf plot_scf))),
                  vp_b (snd (snd
                    (vp_handler scf pinv s method beta maxiter atol None print_scf plot_scf)))))
     \<and> (strategy_fit method s \<and> list_all (strategy_frag_fit method s) (frags s) \<and>
          (\<forall>v f. strategy_frag_fit method s f \<longrightarrow> strategy_frag_fit method s (scf v f)) \<and>
          (method = ''zc'' \<longrightarrow>
             (\<forall>x. is_tensor4 (nbf s) x \<longrightarrow> (\<exists>y. pinv x = Some y \<and> is_tensor4 (nbf s) y))) \<longrightarrow>
          fst (vp_handler scf pinv s method beta maxiter atol None print_scf plot_scf) =
            Raised MaxIterationsExceeded)"
proof -
  let ?l0 = "\<lparr>vp_a = np_zeros2 (nbf s) (nbf s), vp_b = np_zeros2 (nbf s) (nbf s),
               l1_list = [], ep_list = []\<rparr>"
  let ?it = "iterations scf pinv method beta 0 (Suc (nat maxiter)) (s, ?l0)"
  have m: "int (nat maxiter) = maxiter" using assms by simp
  have loop: "vp_loop scf pinv method beta maxiter [0..maxiter] (s, ?l0) =
      (case ?it of (None, sl) \<Rightarrow> (Raised MaxIterationsExceeded, sl)
                 | (Some e, sl) \<Rightarrow> (Raised e, sl))"
  proof -
    have "vp_loop scf pinv method beta (int (nat maxiter)) [int 0..int (nat maxiter)] (s, ?l0) =
      (case iterations scf pinv method beta 0 (Suc (nat maxiter) - 0) (s, ?l0) of
         (None, sl) \<Rightarrow> (Raised MaxIterationsExceeded, sl)
       | (Some e, sl) \<Rightarrow> (Raised e, sl))"
      by (rule vp_loop_iterations) simp
    then show ?thesis
      unfolding m by (simp only: of_nat_0 diff_zero)
  qed
  have eq: "vp_handler scf pinv s method beta maxiter a None p q =
      (case ?it of (None, sl) \<Rightarrow> (Raised MaxIterationsExceeded, sl)
                 | (Some e, sl) \<Rightarrow> (Raised e, sl))" for a p q
    by (simp add: vp_handler_def loop)
  obtain r s' l' where it: "?it = (r, s', l')"
    by (cases ?it) auto
  have nm: "r \<noteq> Some MaxIterationsExceeded"
    using iterations_no_max [of scf pinv "method" beta 0 "Suc (nat maxiter)" "(s, ?l0)"] it by simp
  have cnt: "length (l1_list l') = nat maxiter + 1 \<and> vp s' = Some (vp_a l', vp_b l')"
    if "r = None"
    using iterations_None [of scf pinv "method" beta 0 "Suc (nat maxiter)" s ?l0 s' l'] it that
    by simp
  have fit: "r = None"
    if sf: "strategy_fit method s" and fr: "list_all (strategy_frag_fit method s) (frags s)"
      and sc: "\<forall>v f. strategy_frag_fit method s f \<longrightarrow> strategy_frag_fit method s (scf v f)"
      and pi: "method = ''zc'' \<longrightarrow>
             (\<forall>x. is_tensor4 (nbf s) x \<longrightarrow> (\<exists>y. pinv x = Some y \<and> is_tensor4 (nbf s) y))"
  proof -
    have "loop_fit method s (s, ?l0)"
      using fr by (simp add: loop_fit_def)
    from iterations_fit [OF sf pi sc this, of beta 0 "Suc (nat maxiter)"] it
    show ?thesis by simp
  qed
  let ?h = "vp_handler scf pinv s method beta maxiter atol None print_scf plot_scf"
  have h: "?h = (case r of None \<Rightarrow> (Raised MaxIterationsExceeded, s', l')
                 | Some e \<Rightarrow> (Raised e, s', l'))"
    unfolding eq it by (cases r) simp_all
  have c1: "?h = (case ?it of (None, sl) \<Rightarrow> (Raised MaxIterationsExceeded, sl)
                 | (Some e, sl) \<Rightarrow> (Raised e, sl))"
    by (rule eq)
  have c2: "\<forall>atol' print_scf' plot_scf'.
      vp_handler scf pinv s method beta maxiter atol' None print_scf' plot_scf' = ?h"
    by (simp add: eq)
  have c3: "fst ?h \<noteq> Returned"
    unfolding h by (cases r) simp_all
  have c4: "fst ?h = Raised MaxIterationsExceeded \<longrightarrow>
      length (l1_list (snd (snd ?h))) = nat maxiter + 1 \<and>
      vp (fst (snd ?h)) = Some (vp_a (snd (snd ?h)), vp_b (snd (snd ?h)))"
    unfolding h using nm cnt by (cases r) simp_all
  have c5: "strategy_fit method s \<and> list_all (strategy_frag_fit method s) (frags s) \<and>
      (\<forall>v f. strategy_frag_fit method s f \<longrightarrow> strategy_frag_fit method s (scf v f)) \<and>
      (method = ''zc'' \<longrightarrow>
         (\<forall>x. is_tensor4 (nbf s) x \<longrightarrow> (\<exists>y. pinv x = Some y \<and> is_tensor4 (nbf s) y))) \<longrightarrow>
      fst ?h = Raised MaxIterationsExceeded"
  proof (intro impI, elim conjE)
    assume "strategy_fit method s" "list_all (strategy_frag_fit method s) (frags s)"
      "\<forall>v f. strategy_frag_fit method s f \<longrightarrow> strategy_frag_fit method s (scf v f)"
      "method = ''zc'' \<longrightarrow>
         (\<forall>x. is_tensor4 (nbf s) x \<longrightarrow> (\<exists>y. pinv x = Some y \<and> is_tensor4 (nbf s) y))"
    then have "r = None" by (rule fit)
    then show "fst ?h = Raised MaxIterationsExceeded"
      unfolding h by simp
  qed
  from c1 c2 c3 c4 c5 show ?thesis
    by (intro conjI)
qed

theorem vp_handler_bound_plus_one_witness:
  "(0::int) \<le> 1 \<and>
   strategy_fit ''zpm'' ex2_engine \<and>
   list_all (strategy_frag_fit ''zpm'' ex2_engine) (frags ex2_engine) \<and>
   fst (vp_handler scf_frozen pinv_const2 ex2_engine ''zpm'' 1 1 (1 / 100000) None True True) =
     Raised MaxIterationsExceeded \<and>
   length (l1_list (snd (snd
     (vp_handler scf_frozen pinv_const2 ex2_engine ''zpm'' 1 1 (1 / 100000) None True True)))) = 2 \<and>
   vp_handler scf_frozen pinv_const2 ex2_engine ''zpm'' 1 1 (1 / 100000) None True True =
     vp_handler scf_frozen pinv_const2 ex2_engine ''zpm'' 1 1 1000 None False False \<and>
   strategy_fit ''wy_r'' ex2_engine \<and>
   list_all (strategy_frag_fit ''wy_r'' ex2_engine) (frags ex2_engine) \<and>
   fst (vp_handler scf_frozen pinv_raises ex2_engine ''wy_r'' 1 1 (1 / 100000) None True True) =
     Raised MaxIterationsExceeded \<and>
   strategy_fit ''zc'' ex2_engine \<and>
   list_all (strategy_frag_fit ''zc'' ex2_engine) (frags ex2_engine) \<and>
   fst (vp_handler scf_frozen pinv_const2 ex2_engine ''zc'' 1 1 (1 / 100000) None True True) =
     Raised MaxIterationsExceeded"
proof -
  have m: "(0::int) \<le> 1" by simp
  have z1: "strategy_fit ''zpm'' ex2_engine" by code_simp
  have z2: "list_all (strategy_frag_fit ''zpm'' ex2_engine) (frags ex2_engine)" by code_simp
  have w1: "strategy_fit ''wy_r'' ex2_engine" by code_simp
  have w2: "list_all (strategy_frag_fit ''wy_r'' ex2_engine) (frags ex2_engine)" by code_simp
  have c1: "strategy_fit ''zc'' ex2_engine" by code_simp
  have c2: "list_all (strategy_frag_fit ''zc'' ex2_engine) (frags ex2_engine)" by code_simp
  have k: "\<forall>v f. strategy_frag_fit meth ex2_engine f \<longrightarrow>
      strategy_frag_fit meth ex2_engine (scf_frozen v f)" for meth
    by (simp add: scf_frozen_def)
  have pz: "''zpm'' = ''zc'' \<longrightarrow> (\<forall>x. is_tensor4 (nbf ex2_engine) x \<longrightarrow>
      (\<exists>y. pinv_const2 x = Some y \<and> is_tensor4 (nbf ex2_engine) y))"
    by simp
  have pw: "''wy_r'' = ''zc'' \<longrightarrow> (\<forall>x. is_tensor4 (nbf ex2_engine) x \<longrightarrow>
      (\<exists>y. pinv_raises x = Some y \<and> is_tensor4 (nbf ex2_engine) y))"
    by simp
  have p: "''zc'' = ''zc'' \<longrightarrow> (\<forall>x. is_tensor4 (nbf ex2_engine) x \<longrightarrow>
      (\<exists>y. pinv_const2 x = Some y \<and> is_tensor4 (nbf ex2_engine) y))"
    using pinv_const2_fit by blast
  note thz = vp_handler_bound_plus_one [OF m, of scf_frozen pinv_const2 ex2_engine "''zpm''" 1
      "1 / 100000" True True]
  note thw = vp_handler_bound_plus_one [OF m, of scf_frozen pinv_raises ex2_engine "''wy_r''" 1
      "1 / 100000" True True]
  note thc = vp_handler_bound_plus_one [OF m, of scf_frozen pinv_const2 ex2_engine "''zc''" 1
      "1 / 100000" True True]
  have e: "fst (vp_handler scf_frozen pinv_const2 ex2_engine ''zpm'' 1 1 (1 / 100000) None True True) =
      Raised MaxIterationsExceeded"
    using thz z1 z2 k [of "''zpm''"] pz by blast
  have n: "length (l1_list (snd (snd
      (vp_handler scf_frozen pinv_const2 ex2_engine ''zpm'' 1 1 (1 / 100000) None True True)))) =
      nat 1 + 1"
    using thz e by blast
  have a: "vp_handler scf_frozen pinv_const2 ex2_engine ''zpm'' 1 1 1000 None False False =
      vp_handler scf_frozen pinv_const2 ex2_engine ''zpm'' 1 1 (1 / 100000) None True True"
    using thz by blast
  have ew: "fst (vp_handler scf_frozen pinv_raises ex2_engine ''wy_r'' 1 1 (1 / 100000) None True True) =
      Raised MaxIterationsExceeded"
    using thw w1 w2 k [of "''wy_r''"] pw by blast
  have ec: "fst (vp_handler scf_frozen pinv_const2 ex2_engine ''zc'' 1 1 (1 / 100000) None True True) =
      Raised MaxIterationsExceeded"
    using thc c1 c2 k [of "''zc''"] p by blast
  show ?thesis
    using m z1 z2 w1 w2 c1 c2 e n ew ec by (simp only: a) simp
qed

text \<open>
  Claim C1 as it was stated fails for the count of the iterations: with the bound \<open>0\<close> the
  driver does not raise after no iteration but after one, which has solved the fragments,
  recorded one entry of the history and updated the potential. And the exception of the
  bound is not always the one raised: with the strategy "zc" and a reference of unequal
  occupation the first iteration ends in the failure of \<open>vp_zc\<close>, whatever the bound.
\<close>

theorem vp_handler_bound_zero_counterexample:
  "fst (vp_handler scf_frozen pinv_const2 ex2_engine ''dd'' 1 0 (1 / 100000) None False False) =
     Raised MaxIterationsExceeded \<and>
   l1_list (snd (snd
     (vp_handler scf_frozen pinv_const2 ex2_engine ''dd'' 1 0 (1 / 100000) None False False))) = [1] \<and>
   vp (fst (snd
     (vp_handler scf_frozen pinv_const2 ex2_engine ''dd'' 1 0 (1 / 100000) None False False))) =
     Some ([[0, 1/4], [1/4, 0]], [[0, 1/4], [1/4, 0]]) \<and>
   \<not> (\<forall>maxiter\<ge>0. length (l1_list (snd (snd
     (vp_handler scf_frozen pinv_const2 ex2_engine ''dd'' 1 maxiter (1 / 100000) None False False)))) =
       nat maxiter) \<and>
   fst (vp_handler scf_frozen pinv_const2 ex2_open_engine ''zc'' 1 3 (1 / 100000) None False False) =
     Raised (UnboundLocalError ''x'') \<and>
   l1_list (snd (snd
     (vp_handler scf_frozen pinv_const2 ex2_open_engine ''zc'' 1 3 (1 / 100000) None False False))) =
     [1]"
proof -
  have a: "fst (vp_handler scf_frozen pinv_const2 ex2_engine ''dd'' 1 0 (1 / 100000) None False False) =
     Raised MaxIterationsExceeded"
    by code_simp
  have b: "l1_list (snd (snd
     (vp_handler scf_frozen pinv_const2 ex2_engine ''dd'' 1 0 (1 / 100000) None False False))) = [1]"
    by code_simp
  have c: "vp (fst (snd
     (vp_handler scf_frozen pinv_const2 ex2_engine ''dd'' 1 0 (1 / 100000) None False False))) =
     Some ([[0, 1/4], [1/4, 0]], [[0, 1/4], [1/4, 0]])"
    by code_simp
  have d: "\<not> (\<forall>maxiter\<ge>0. length (l1_list (snd (snd
     (vp_handler scf_frozen pinv_const2 ex2_engine ''dd'' 1 maxiter (1 / 100000) None False False)))) =
       nat maxiter)"
  proof
    assume "\<forall>maxiter\<ge>0. length (l1_list (snd (snd
     (vp_handler scf_frozen pinv_const2 ex2_engine ''dd'' 1 maxiter (1 / 100000) None False False)))) =
       nat maxiter"
    then have "length (l1_list (snd (snd
     (vp_handler scf_frozen pinv_const2 ex2_engine ''dd'' 1 0 (1 / 100000) None False False)))) = nat 0"
      by simp
    then show False by (simp add: b)
  qed
  have e: "fst (vp_handler scf_frozen pinv_const2 ex2_open_engine ''zc'' 1 3 (1 / 100000) None False False) =
     Raised (UnboundLocalError ''x'')"
    by code_simp
  have f: "l1_list (snd (snd
     (vp_handler scf_frozen pinv_const2 ex2_open_engine ''zc'' 1 3 (1 / 100000) None False False))) =
     [1]"
    by code_simp
  show ?thesis using a b c d e f by (simp only: simp_thms)
qed

text \<open>
  Claim C5. The construction compares the point count of the reference with that of the
  first fragment only (\<^verbatim>\<open>self.frags[0]\<close>), though the docstring of
  \<^verbatim>\<open>assert_grid_elements\<close> speaks of the fragments. A second fragment on a grid of three
  points passes with a reference on a grid of two points: the engine is built, with the
  one block of the reference. The same fragment in the first place is refused.
\<close>

theorem grid_mismatch_second_fragment:
  "get_np_xyzw_len (m_Vpot ex2_mol) = Inr 2 \<and> get_np_xyzw_len (f_Vpot ex2_frag_a) = Inr 2 \<and>
   get_np_xyzw_len (f_Vpot ex2_frag_wide) = Inr 3 \<and>
   (case Inversion_init [ex2_frag_a, ex2_frag_wide] ex2_mol of
      Inl e \<Rightarrow> False
    | Inr s \<Rightarrow> nblocks s = 1 \<and> frag_da_r s = [[2, 1]] \<and> frag_db_r s = [[1, 1]]) \<and>
   (case Inversion_init [ex2_frag_wide, ex2_frag_a] ex2_mol of
      Inl e \<Rightarrow> e = GridMismatchError
    | Inr s \<Rightarrow> False)"
  by code_simp

text \<open>
  Claim C10. With equal alpha and beta occupation of the reference, \<open>vp_zc\<close> sets \<^verbatim>\<open>x\<close> to
  zero at the start of the pass of every fragment, so that only the pass of the last
  fragment is left when the pseudo-inverse is taken: when the passes of the earlier
  fragments do not raise, the result is the one for the last fragment alone, and for any
  fragment with the orbital coefficients and eigenvalues of the last one; whatever the
  call returns, the call with that fragment alone returns too.
\<close>

theorem vp_zc_last_fragment_only:
  assumes eq: "m_nalpha (molecule s) = m_nbeta (molecule s)"
    and fr: "frags s = fs @ [f]"
    and so: "same_orbitals f g"
  shows "(list_all (\<lambda>h. \<not> isl (zc_frag s h None)) fs \<longrightarrow>
            vp_zc pinv s da_mn db_mn rcond = vp_zc pinv (s\<lparr>frags := [g]\<rparr>) da_mn db_mn rcond)
       \<and> (\<forall>r. vp_zc pinv s da_mn db_mn rcond = Inr r \<longrightarrow>
            vp_zc pinv (s\<lparr>frags := [g]\<rparr>) da_mn db_mn rcond = Inr r)"
proof -
  have "zc_frag (s\<lparr>frags := [g]\<rparr>) g None = zc_frag s f None"
    using zc_frag_same_orbitals [OF so, of s "s\<lparr>frags := [g]\<rparr>" None] by simp
  then have one: "fold_err (zc_frag (s\<lparr>frags := [g]\<rparr>)) (frags (s\<lparr>frags := [g]\<rparr>)) None =
      zc_frag s f None"
    by (cases "zc_frag s f None") simp_all
  have all: "fold_err (zc_frag s) (fs @ [f]) None =
     (case fold_err (zc_frag s) fs None of Inl e \<Rightarrow> Inl e | Inr y \<Rightarrow> zc_frag s f None)"
    by (rule zc_frags_last [OF eq])
  have a: "vp_zc pinv s da_mn db_mn rcond = vp_zc pinv (s\<lparr>frags := [g]\<rparr>) da_mn db_mn rcond"
    if "list_all (\<lambda>h. \<not> isl (zc_frag s h None)) fs"
  proof -
    from zc_frags_pass [OF that eq, of None]
    obtain y where "fold_err (zc_frag s) fs None = Inr y"
      by (cases "fold_err (zc_frag s) fs None") simp_all
    then have "fold_err (zc_frag s) (fs @ [f]) None = zc_frag s f None"
      by (simp add: all)
    then show ?thesis
      unfolding vp_zc_frags one fr by simp
  qed
  have b: "vp_zc pinv (s\<lparr>frags := [g]\<rparr>) da_mn db_mn rcond = Inr r"
    if "vp_zc pinv s da_mn db_mn rcond = Inr r" for r
  proof -
    from that obtain dd where dd: "mat_op (+) da_mn db_mn = Inr dd"
      by (cases "mat_op (+) da_mn db_mn") (simp_all add: vp_zc_frags)
    from that dd obtain x where x: "fold_err (zc_frag s) (fs @ [f]) None = Inr x"
      by (cases "fold_err (zc_frag s) (fs @ [f]) None") (simp_all add: vp_zc_frags fr)
    then have "fold_err (zc_frag s) (fs @ [f]) None = zc_frag s f None"
      by (simp add: all split: sum.splits)
    with that show ?thesis
      unfolding vp_zc_frags one fr by simp
  qed
  from a b show ?thesis by blast
qed


theorem vp_zc_last_fragment_only_witness:
  "m_nalpha (molecule ex2_engine) = m_nbeta (molecule ex2_engine) \<and>
   frags ex2_engine = [ex2_frag_a] @ [ex2_frag_b] \<and>
   same_orbitals ex2_frag_b ex2_frag_b \<and>
   list_all (\<lambda>h. \<not> isl (zc_frag ex2_engine h None)) [ex2_frag_a] \<and>
   vp_zc pinv_const2 ex2_engine [[0, 1/4], [1/4, 0]] [[0, 1/4], [1/4, 0]] (1 / 1000000) =
     vp_zc pinv_const2 (ex2_engine\<lparr>frags := [ex2_frag_b]\<rparr>)
       [[0, 1/4], [1/4, 0]] [[0, 1/4], [1/4, 0]] (1 / 1000000) \<and>
   vp_zc pinv_const2 (ex2_engine\<lparr>frags := [ex2_frag_b]\<rparr>)
       [[0, 1/4], [1/4, 0]] [[0, 1/4], [1/4, 0]] (1 / 1000000) =
     Inr ([[- 1/8, - 1/8], [- 1/8, - 1/8]], [[- 1/8, - 1/8], [- 1/8, - 1/8]]) \<and>
   vp_zc pinv_const2 (ex2_engine\<lparr>frags := [ex2_frag_a]\<rparr>)
       [[0, 1/4], [1/4, 0]] [[0, 1/4], [1/4, 0]] (1 / 1000000) =
     Inr ([[- 1/4, - 1/4], [- 1/4, - 1/4]], [[- 1/4, - 1/4], [- 1/4, - 1/4]])"
proof -
  have e: "m_nalpha (molecule ex2_engine) = m_nbeta (molecule ex2_engine)" by code_simp
  have f: "frags ex2_engine = [ex2_frag_a] @ [ex2_frag_b]" by (simp add: ex2_engine_def)
  have o: "same_orbitals ex2_frag_b ex2_frag_b" by (simp add: same_orbitals_def)
  have p: "list_all (\<lambda>h. \<not> isl (zc_frag ex2_engine h None)) [ex2_frag_a]" by code_simp
  have b: "vp_zc pinv_const2 (ex2_engine\<lparr>frags := [ex2_frag_b]\<rparr>)
       [[0, 1/4], [1/4, 0]] [[0, 1/4], [1/4, 0]] (1 / 1000000) =
     Inr ([[- 1/8, - 1/8], [- 1/8, - 1/8]], [[- 1/8, - 1/8], [- 1/8, - 1/8]])"
    by code_simp
  have a: "vp_zc pinv_const2 (ex2_engine\<lparr>frags := [ex2_frag_a]\<rparr>)
       [[0, 1/4], [1/4, 0]] [[0, 1/4], [1/4, 0]] (1 / 1000000) =
     Inr ([[- 1/4, - 1/4], [- 1/4, - 1/4]], [[- 1/4, - 1/4], [- 1/4, - 1/4]])"
    by code_simp
  have l: "vp_zc pinv_const2 ex2_engine [[0, 1/4], [1/4, 0]] [[0, 1/4], [1/4, 0]] (1 / 1000000) =
     vp_zc pinv_const2 (ex2_engine\<lparr>frags := [ex2_frag_b]\<rparr>)
       [[0, 1/4], [1/4, 0]] [[0, 1/4], [1/4, 0]] (1 / 1000000)"
    using vp_zc_last_fragment_only [OF e f o, of pinv_const2 "[[0, 1/4], [1/4, 0]]"
        "[[0, 1/4], [1/4, 0]]" "1 / 1000000"] p
    by blast
  show ?thesis
    using e f o p l a b by (simp only: simp_thms)
qed

text \<open>
  Claim C6. \<open>vp_wy_r\<close> returns one matrix for both spin channels. On arrays of the shapes of
  the grid and of the basis it returns, twice, the matrix \<open>wy_increment\<close>: per block, the
  symmetrized projection on the basis functions of the block of the array whose entry \<open>p\<close>
  is the sum over the points \<open>r1\<close> of \<open>1 / (K[r1][p] + K[r1][p]) * dd_a[block][p] * w[p]\<close>,
  where \<open>K\<close> is the kernel \<open>alpha_kernel\<close> built from the alpha orbitals and eigenvalues of
  the fragments: the kernel of the alpha channel is added to itself, no kernel of the beta
  channel is built, and the beta residual is not read. Fragments with the same
  alpha-channel data give the same result, whatever their beta-channel data.
\<close>

theorem vp_wy_r_alpha_only:
  "(wy_fit s dd_a \<longrightarrow> vp_wy_r s dd_a dd_b = Inr (wy_increment s dd_a, wy_increment s dd_a))
   \<and> (\<forall>a b. vp_wy_r s dd_a dd_b = Inr (a, b) \<longrightarrow> a = b)
   \<and> (list_all2 same_alpha (frags s) fs \<longrightarrow>
        vp_wy_r (s\<lparr>frags := fs\<rparr>) dd_a dd_b = vp_wy_r s dd_a dd_b)"
proof -
  have a: "a = b" if "vp_wy_r s dd_a dd_b = Inr (a, b)" for a b
    using that by (auto simp: vp_wy_r_def bnd_def split: if_splits sum.splits)
  have b: "vp_wy_r (s\<lparr>frags := fs\<rparr>) dd_a dd_b = vp_wy_r s dd_a dd_b"
    if "list_all2 same_alpha (frags s) fs"
    using that by (intro vp_wy_r_same_alpha [symmetric]) simp_all
  have c: "vp_wy_r s dd_a dd_b = Inr (wy_increment s dd_a, wy_increment s dd_a)"
    if "wy_fit s dd_a"
    using that by (rule vp_wy_r_eq)
  from a b c show ?thesis by blast
qed

theorem vp_wy_r_alpha_only_witness:
  "wy_fit ex2_engine [[1, - 1]] \<and>
   map (\<lambda>r1. map (alpha_kernel ex2_engine 0 r1) [0..<2]) [0..<2] = [[- 3/4, 3/2], [3/2, - 3]] \<and>
   map (wy_grid_increment ex2_engine [[1, - 1]] 0) [0..<2] = [- 1/3, - 1/6] \<and>
   wy_increment ex2_engine [[1, - 1]] = [[- 1/3, 0], [0, - 1/6]] \<and>
   vp_wy_r ex2_engine [[1, - 1]] [[1/2, 1/2]] =
     Inr (wy_increment ex2_engine [[1, - 1]], wy_increment ex2_engine [[1, - 1]]) \<and>
   vp_wy_r ex2_engine [[1, - 1]] [[7, 1/3]] =
     Inr ([[- 1/3, 0], [0, - 1/6]], [[- 1/3, 0], [0, - 1/6]]) \<and>
   list_all2 same_alpha (frags ex2_engine) (map other_beta (frags ex2_engine)) \<and>
   vp_wy_r (ex2_engine\<lparr>frags := map other_beta (frags ex2_engine)\<rparr>) [[1, - 1]] [[1/2, 1/2]] =
     vp_wy_r ex2_engine [[1, - 1]] [[1/2, 1/2]]"
proof -
  have f: "wy_fit ex2_engine [[1, - 1]]" by code_simp
  have k: "map (\<lambda>r1. map (alpha_kernel ex2_engine 0 r1) [0..<2]) [0..<2] =
      [[- 3/4, 3/2], [3/2, - 3]]"
    by code_simp
  have g: "map (wy_grid_increment ex2_engine [[1, - 1]] 0) [0..<2] = [- 1/3, - 1/6]"
    by code_simp
  have i: "wy_increment ex2_engine [[1, - 1]] = [[- 1/3, 0], [0, - 1/6]]"
    by code_simp
  have h: "list_all2 same_alpha (frags ex2_engine) (map other_beta (frags ex2_engine))"
    by (simp add: ex2_engine_def same_alpha_def other_beta_def ex2_frag_a_def ex2_frag_b_def)
  have v: "vp_wy_r ex2_engine [[1, - 1]] [[1/2, 1/2]] =
     Inr (wy_increment ex2_engine [[1, - 1]], wy_increment ex2_engine [[1, - 1]])"
    using vp_wy_r_alpha_only [of ex2_engine "[[1, - 1]]" "[[1/2, 1/2]]"] f
    by blast
  have w: "vp_wy_r ex2_engine [[1, - 1]] [[7, 1/3]] =
     Inr (wy_increment ex2_engine [[1, - 1]], wy_increment ex2_engine [[1, - 1]])"
    using vp_wy_r_alpha_only [of ex2_engine "[[1, - 1]]" "[[7, 1/3]]"] f
    by blast
  have e: "vp_wy_r (ex2_engine\<lparr>frags := map other_beta (frags ex2_engine)\<rparr>)
      [[1, - 1]] [[1/2, 1/2]] = vp_wy_r ex2_engine [[1, - 1]] [[1/2, 1/2]]"
    using vp_wy_r_alpha_only [of ex2_engine "[[1, - 1]]" "[[1/2, 1/2]]"
        "map other_beta (frags ex2_engine)"] h
    by blast
  show ?thesis
    using f k g h e v w [unfolded i] i by (simp only: simp_thms)
qed



end
